theory Spec2Isabelle
  imports Complex_Main "HOL-Library.Word" "HOL-Library.Multiset"
begin

unbundle bit_operations_syntax

section \<open>Pixel formats and the OpenGL format conversion (OpenGL.cpp)\<close>

text \<open>
  The abstract pixel formats are the case labels of the two switches over
  \<open>PixelFormat\<close> in OpenGL.cpp (\<open>convertPixelFormat\<close> and
  \<open>getPixelFormatUsageFlags\<close>); the latter lists the four values that
  \<open>convertPixelFormat\<close> has no case for.
\<close>

datatype (plugins only: code) PixelFormat =
    PIXELFORMAT_UNKNOWN | PIXELFORMAT_NORMAL | PIXELFORMAT_HDR | PIXELFORMAT_R8_UNORM
  | PIXELFORMAT_RG8_UNORM | PIXELFORMAT_RGBA8_UNORM | PIXELFORMAT_RGBA8_UNORM_sRGB
  | PIXELFORMAT_BGRA8_UNORM | PIXELFORMAT_BGRA8_UNORM_sRGB | PIXELFORMAT_R16_UNORM
  | PIXELFORMAT_RG16_UNORM | PIXELFORMAT_RGBA16_UNORM | PIXELFORMAT_R16_FLOAT
  | PIXELFORMAT_RG16_FLOAT | PIXELFORMAT_RGBA16_FLOAT | PIXELFORMAT_R32_FLOAT
  | PIXELFORMAT_RG32_FLOAT | PIXELFORMAT_RGBA32_FLOAT | PIXELFORMAT_R8_INT
  | PIXELFORMAT_R8_UINT | PIXELFORMAT_RG8_INT | PIXELFORMAT_RG8_UINT
  | PIXELFORMAT_RGBA8_INT | PIXELFORMAT_RGBA8_UINT | PIXELFORMAT_R16_INT
  | PIXELFORMAT_R16_UINT | PIXELFORMAT_RG16_INT | PIXELFORMAT_RG16_UINT
  | PIXELFORMAT_RGBA16_INT | PIXELFORMAT_RGBA16_UINT | PIXELFORMAT_R32_INT
  | PIXELFORMAT_R32_UINT | PIXELFORMAT_RG32_INT | PIXELFORMAT_RG32_UINT
  | PIXELFORMAT_RGBA32_INT | PIXELFORMAT_RGBA32_UINT | PIXELFORMAT_LA8_UNORM
  | PIXELFORMAT_RGBA4_UNORM | PIXELFORMAT_RGB5A1_UNORM | PIXELFORMAT_RGB565_UNORM
  | PIXELFORMAT_RGB10A2_UNORM | PIXELFORMAT_RG11B10_FLOAT | PIXELFORMAT_STENCIL8
  | PIXELFORMAT_DEPTH16_UNORM | PIXELFORMAT_DEPTH24_UNORM | PIXELFORMAT_DEPTH32_FLOAT
  | PIXELFORMAT_DEPTH24_UNORM_STENCIL8 | PIXELFORMAT_DEPTH32_FLOAT_STENCIL8
  | PIXELFORMAT_DXT1_UNORM | PIXELFORMAT_DXT3_UNORM | PIXELFORMAT_DXT5_UNORM
  | PIXELFORMAT_BC4_UNORM | PIXELFORMAT_BC4_SNORM | PIXELFORMAT_BC5_UNORM
  | PIXELFORMAT_BC5_SNORM | PIXELFORMAT_BC6H_UFLOAT | PIXELFORMAT_BC6H_FLOAT
  | PIXELFORMAT_BC7_UNORM | PIXELFORMAT_PVR1_RGB2_UNORM | PIXELFORMAT_PVR1_RGB4_UNORM
  | PIXELFORMAT_PVR1_RGBA2_UNORM | PIXELFORMAT_PVR1_RGBA4_UNORM | PIXELFORMAT_ETC1_UNORM
  | PIXELFORMAT_ETC2_RGB_UNORM | PIXELFORMAT_ETC2_RGBA_UNORM
  | PIXELFORMAT_ETC2_RGBA1_UNORM | PIXELFORMAT_EAC_R_UNORM | PIXELFORMAT_EAC_R_SNORM
  | PIXELFORMAT_EAC_RG_UNORM | PIXELFORMAT_EAC_RG_SNORM | PIXELFORMAT_ASTC_4x4
  | PIXELFORMAT_ASTC_5x4 | PIXELFORMAT_ASTC_5x5 | PIXELFORMAT_ASTC_6x5
  | PIXELFORMAT_ASTC_6x6 | PIXELFORMAT_ASTC_8x5 | PIXELFORMAT_ASTC_8x6
  | PIXELFORMAT_ASTC_8x8 | PIXELFORMAT_ASTC_10x5 | PIXELFORMAT_ASTC_10x6
  | PIXELFORMAT_ASTC_10x8 | PIXELFORMAT_ASTC_10x10 | PIXELFORMAT_ASTC_12x10
  | PIXELFORMAT_ASTC_12x12 | PIXELFORMAT_MAX_ENUM

text \<open>
  OpenGL enumerants. The header that gives them their numbers is not part of the
  sources at hand, so an enumerant is its name; \<open>GL_ZERO\<close> is the value 0 that a
  default-constructed \<open>TextureFormat\<close> holds.
\<close>

datatype GLenum = GL_ZERO | GLenum string

record TextureFormat =
  internalformat :: GLenum
  externalformat :: GLenum
  type :: GLenum
  swizzled :: bool
  swizzle :: "GLenum list"
  framebufferAttachments :: "GLenum list"

text \<open>
  Modelled from the spec: the declaration of \<open>TextureFormat\<close> (OpenGL.h) is not
  among the sources; a freshly constructed value is the "zero/invalid state" of the
  specification, every enumerant 0 and no swizzle.
\<close>

definition TextureFormat_default :: TextureFormat where
  "TextureFormat_default =
     \<lparr>internalformat = GL_ZERO, externalformat = GL_ZERO, type = GL_ZERO, swizzled = False,
      swizzle = [GL_ZERO, GL_ZERO, GL_ZERO, GL_ZERO],
      framebufferAttachments = [GL_ZERO, GL_ZERO]\<rparr>"

text \<open>
  What \<open>convertPixelFormat\<close> reads of the context: the version and extension flags
  of the loader, the driver-bug flags and the profile. They are set once at context
  initialisation.
\<close>

record OpenGL =
  GLAD_VERSION_3_0 :: bool
  GLAD_VERSION_4_2 :: bool
  GLAD_VERSION_4_3 :: bool
  GLAD_ES_VERSION_2_0 :: bool
  GLAD_ES_VERSION_3_0 :: bool
  GLAD_ARB_ES3_compatibility :: bool
  GLAD_ARB_texture_rg :: bool
  GLAD_EXT_texture_rg :: bool
  GLAD_OES_texture_half_float :: bool
  GLAD_ARB_framebuffer_object :: bool
  GLAD_EXT_packed_depth_stencil :: bool
  GLAD_OES_packed_depth_stencil :: bool
  GLAD_OES_depth24 :: bool
  GLAD_ARB_texture_storage :: bool
  brokenR8PixelFormat :: bool
  texStorageBreaksSubImage :: bool
  isCoreProfile :: bool

text \<open>
  The helpers of common/pixelformat.cpp are not among the sources; the functions that
  use them take them as a parameter, so every result holds whatever they compute.
\<close>

record PixelFormatFns =
  getSRGBPixelFormat :: "PixelFormat \<Rightarrow> PixelFormat"
  isPixelFormatCompressed :: "PixelFormat \<Rightarrow> bool"
  isPixelFormatSRGB :: "PixelFormat \<Rightarrow> bool"
  isPixelFormatDepthStencil :: "PixelFormat \<Rightarrow> bool"

text \<open>What \<open>printf\<close> writes: the one diagnostic of \<open>convertPixelFormat\<close>.\<close>

datatype Diagnostic = UnhandledPixelFormat PixelFormat

definition isTexStorageSupported :: "OpenGL \<Rightarrow> bool" where
  "isTexStorageSupported gl =
     (if texStorageBreaksSubImage gl then False
      else GLAD_ES_VERSION_3_0 gl \<or> GLAD_VERSION_4_2 gl \<or> GLAD_ARB_texture_storage gl)"

text \<open>
  The format that the switch of \<open>convertPixelFormat\<close> is entered with: the sRGB
  variant when \<open>isSRGB\<close> is set, and ETC2 in place of ETC1 where ETC2 can load it.
\<close>

definition switchedPixelFormat :: "PixelFormatFns \<Rightarrow> OpenGL \<Rightarrow> PixelFormat \<Rightarrow> bool \<Rightarrow> PixelFormat" where
  "switchedPixelFormat pf gl pixelformat isSRGB =
     (if isSRGB then getSRGBPixelFormat pf pixelformat
      else if pixelformat = PIXELFORMAT_ETC1_UNORM then
        (if GLAD_ES_VERSION_3_0 gl \<or> GLAD_VERSION_4_3 gl \<or> GLAD_ARB_ES3_compatibility gl
         then PIXELFORMAT_ETC2_RGB_UNORM else pixelformat)
      else pixelformat)"

text \<open>
  The switch statement: from the format \<open>f\<close> built so far and the flag, the format,
  the flag and what was printed.
\<close>

definition convertPixelFormat_switch ::
  "OpenGL \<Rightarrow> PixelFormat \<Rightarrow> bool \<Rightarrow> TextureFormat \<Rightarrow> TextureFormat \<times> bool \<times> Diagnostic list" where
  "convertPixelFormat_switch gl pixelformat isSRGB f =
    (case pixelformat of
       PIXELFORMAT_R8_UNORM \<Rightarrow>
         (if (GLAD_VERSION_3_0 gl \<or> GLAD_ES_VERSION_3_0 gl \<or> GLAD_ARB_texture_rg gl
               \<or> GLAD_EXT_texture_rg gl) \<and> \<not> brokenR8PixelFormat gl
         then (f\<lparr>internalformat := GLenum ''GL_R8'', externalformat := GLenum ''GL_RED'',
                 type := GLenum ''GL_UNSIGNED_BYTE''\<rparr>, isSRGB, [])
         else (f\<lparr>internalformat := GLenum ''GL_LUMINANCE8'',
                 externalformat := GLenum ''GL_LUMINANCE'',
                 type := GLenum ''GL_UNSIGNED_BYTE''\<rparr>, isSRGB, []))
     | PIXELFORMAT_RG8_UNORM \<Rightarrow>
         (f\<lparr>internalformat := GLenum ''GL_RG8'',
            externalformat := GLenum ''GL_RG'',
            type := GLenum ''GL_UNSIGNED_BYTE''\<rparr>, isSRGB, [])
     | PIXELFORMAT_RGBA8_UNORM \<Rightarrow>
         (f\<lparr>internalformat := GLenum ''GL_RGBA8'',
            externalformat := GLenum ''GL_RGBA'',
            type := GLenum ''GL_UNSIGNED_BYTE''\<rparr>, isSRGB, [])
     | PIXELFORMAT_RGBA8_UNORM_sRGB \<Rightarrow>
         (f\<lparr>internalformat := GLenum ''GL_SRGB8_ALPHA8'', type := GLenum ''GL_UNSIGNED_BYTE'',
            externalformat := (if GLAD_ES_VERSION_2_0 gl \<and> \<not> GLAD_ES_VERSION_3_0 gl
                               then GLenum ''GL_SRGB_ALPHA'' else GLenum ''GL_RGBA'')\<rparr>,
         isSRGB, [])
     | PIXELFORMAT_BGRA8_UNORM \<Rightarrow>
         (f, isSRGB, [])
     | PIXELFORMAT_BGRA8_UNORM_sRGB \<Rightarrow>
         (f, isSRGB, [])
     | PIXELFORMAT_R16_UNORM \<Rightarrow>
         (f\<lparr>internalformat := GLenum ''GL_R16'',
            externalformat := GLenum ''GL_RED'',
            type := GLenum ''GL_UNSIGNED_SHORT''\<rparr>, isSRGB, [])
     | PIXELFORMAT_RG16_UNORM \<Rightarrow>
         (f\<lparr>internalformat := GLenum ''GL_RG16'',
            externalformat := GLenum ''GL_RG'',
            type := GLenum ''GL_UNSIGNED_SHORT''\<rparr>, isSRGB, [])
     | PIXELFORMAT_RGBA16_UNORM \<Rightarrow>
         (f\<lparr>internalformat := GLenum ''GL_RGBA16'',
            externalformat := GLenum ''GL_RGBA'',
            type := GLenum ''GL_UNSIGNED_SHORT''\<rparr>, isSRGB, [])
     | PIXELFORMAT_R16_FLOAT \<Rightarrow>
         (f\<lparr>internalformat := GLenum ''GL_R16F'', externalformat := GLenum ''GL_RED'',
            type := (if GLAD_OES_texture_half_float gl then GLenum ''GL_HALF_FLOAT_OES''
                     else GLenum ''GL_HALF_FLOAT'')\<rparr>, isSRGB, [])
     | PIXELFORMAT_RG16_FLOAT \<Rightarrow>
         (f\<lparr>internalformat := GLenum ''GL_RG16F'', externalformat := GLenum ''GL_RG'',
            type := (if GLAD_OES_texture_half_float gl then GLenum ''GL_HALF_FLOAT_OES''
                     else GLenum ''GL_HALF_FLOAT'')\<rparr>, isSRGB, [])
     | PIXELFORMAT_RGBA16_FLOAT \<Rightarrow>
         (f\<lparr>internalformat := GLenum ''GL_RGBA16F'', externalformat := GLenum ''GL_RGBA'',
            type := (if GLAD_OES_texture_half_float gl then GLenum ''GL_HALF_FLOAT_OES''
                     else GLenum ''GL_HALF_FLOAT'')\<rparr>, isSRGB, [])
     | PIXELFORMAT_R32_FLOAT \<Rightarrow>
         (f\<lparr>internalformat := GLenum ''GL_R32F'',
            externalformat := GLenum ''GL_RED'',
            type := GLenum ''GL_FLOAT''\<rparr>, isSRGB, [])
     | PIXELFORMAT_RG32_FLOAT \<Rightarrow>
         (f\<lparr>internalformat := GLenum ''GL_RG32F'',
            externalformat := GLenum ''GL_RG'',
            type := GLenum ''GL_FLOAT''\<rparr>, isSRGB, [])
     | PIXELFORMAT_RGBA32_FLOAT \<Rightarrow>
         (f\<lparr>internalformat := GLenum ''GL_RGBA32F'',
            externalformat := GLenum ''GL_RGBA'',
            type := GLenum ''GL_FLOAT''\<rparr>, isSRGB, [])
     | PIXELFORMAT_R8_INT \<Rightarrow>
         (f\<lparr>internalformat := GLenum ''GL_R8I'',
            externalformat := GLenum ''GL_RED_INTEGER'',
            type := GLenum ''GL_BYTE''\<rparr>, isSRGB, [])
     | PIXELFORMAT_R8_UINT \<Rightarrow>
         (f\<lparr>internalformat := GLenum ''GL_R8UI'',
            externalformat := GLenum ''GL_RED_INTEGER'',
            type := GLenum ''GL_UNSIGNED_BYTE''\<rparr>, isSRGB, [])
     | PIXELFORMAT_RG8_INT \<Rightarrow>
         (f\<lparr>internalformat := GLenum ''GL_RG8I'',
            externalformat := GLenum ''GL_RG_INTEGER'',
            type := GLenum ''GL_BYTE''\<rparr>, isSRGB, [])
     | PIXELFORMAT_RG8_UINT \<Rightarrow>
         (f\<lparr>internalformat := GLenum ''GL_RG8UI'',
            externalformat := GLenum ''GL_RG_INTEGER'',
            type := GLenum ''GL_UNSIGNED_BYTE''\<rparr>, isSRGB, [])
     | PIXELFORMAT_RGBA8_INT \<Rightarrow>
         (f\<lparr>internalformat := GLenum ''GL_RGBA8I'',
            externalformat := GLenum ''GL_RGBA_INTEGER'',
            type := GLenum ''GL_BYTE''\<rparr>, isSRGB, [])
     | PIXELFORMAT_RGBA8_UINT \<Rightarrow>
         (f\<lparr>internalformat := GLenum ''GL_RGBA8UI'',
            externalformat := GLenum ''GL_RGBA_INTEGER'',
            type := GLenum ''GL_UNSIGNED_BYTE''\<rparr>, isSRGB, [])
     | PIXELFORMAT_R16_INT \<Rightarrow>
         (f\<lparr>internalformat := GLenum ''GL_R16I'',
            externalformat := GLenum ''GL_RED_INTEGER'',
            type := GLenum ''GL_SHORT''\<rparr>, isSRGB, [])
     | PIXELFORMAT_R16_UINT \<Rightarrow>
         (f\<lparr>internalformat := GLenum ''GL_R16UI'',
            externalformat := GLenum ''GL_RED_INTEGER'',
            type := GLenum ''GL_UNSIGNED_SHORT''\<rparr>, isSRGB, [])
     | PIXELFORMAT_RG16_INT \<Rightarrow>
         (f\<lparr>internalformat := GLenum ''GL_RG16I'',
            externalformat := GLenum ''GL_RG_INTEGER'',
            type := GLenum ''GL_SHORT''\<rparr>, isSRGB, [])
     | PIXELFORMAT_RG16_UINT \<Rightarrow>
         (f\<lparr>internalformat := GLenum ''GL_RG16UI'',
            externalformat := GLenum ''GL_RG_INTEGER'',
            type := GLenum ''GL_UNSIGNED_SHORT''\<rparr>, isSRGB, [])
     | PIXELFORMAT_RGBA16_INT \<Rightarrow>
         (f\<lparr>internalformat := GLenum ''GL_RGBA16I'',
            externalformat := GLenum ''GL_RGBA_INTEGER'',
            type := GLenum ''GL_SHORT''\<rparr>, isSRGB, [])
     | PIXELFORMAT_RGBA16_UINT \<Rightarrow>
         (f\<lparr>internalformat := GLenum ''GL_RGBA16UI'',
            externalformat := GLenum ''GL_RGBA_INTEGER'',
            type := GLenum ''GL_UNSIGNED_SHORT''\<rparr>, isSRGB, [])
     | PIXELFORMAT_R32_INT \<Rightarrow>
         (f\<lparr>internalformat := GLenum ''GL_R32I'',
            externalformat := GLenum ''GL_RED_INTEGER'',
            type := GLenum ''GL_INT''\<rparr>, isSRGB, [])
     | PIXELFORMAT_R32_UINT \<Rightarrow>
         (f\<lparr>internalformat := GLenum ''GL_R32UI'',
            externalformat := GLenum ''GL_RED_INTEGER'',
            type := GLenum ''GL_UNSIGNED_INT''\<rparr>, isSRGB, [])
     | PIXELFORMAT_RG32_INT \<Rightarrow>
         (f\<lparr>internalformat := GLenum ''GL_RG32I'',
            externalformat := GLenum ''GL_RG_INTEGER'',
            type := GLenum ''GL_INT''\<rparr>, isSRGB, [])
     | PIXELFORMAT_RG32_UINT \<Rightarrow>
         (f\<lparr>internalformat := GLenum ''GL_RG32UI'',
            externalformat := GLenum ''GL_RG_INTEGER'',
            type := GLenum ''GL_UNSIGNED_INT''\<rparr>, isSRGB, [])
     | PIXELFORMAT_RGBA32_INT \<Rightarrow>
         (f\<lparr>internalformat := GLenum ''GL_RGBA32I'',
            externalformat := GLenum ''GL_RGBA_INTEGER'',
            type := GLenum ''GL_INT''\<rparr>, isSRGB, [])
     | PIXELFORMAT_RGBA32_UINT \<Rightarrow>
         (f\<lparr>internalformat := GLenum ''GL_RGBA32UI'',
            externalformat := GLenum ''GL_RGBA_INTEGER'',
            type := GLenum ''GL_UNSIGNED_INT''\<rparr>, isSRGB, [])
     | PIXELFORMAT_LA8_UNORM \<Rightarrow>
         (if isCoreProfile gl \<or> GLAD_ES_VERSION_3_0 gl
         then (f\<lparr>internalformat := GLenum ''GL_RG8'', externalformat := GLenum ''GL_RG'',
                 type := GLenum ''GL_UNSIGNED_BYTE'', swizzled := True,
                 swizzle := [GLenum ''GL_RED'', GLenum ''GL_RED'', GLenum ''GL_RED'',
                             GLenum ''GL_GREEN'']\<rparr>, isSRGB, [])
         else (f\<lparr>internalformat := GLenum ''GL_LUMINANCE8_ALPHA8'',
                 externalformat := GLenum ''GL_LUMINANCE_ALPHA'',
                 type := GLenum ''GL_UNSIGNED_BYTE''\<rparr>, isSRGB, []))
     | PIXELFORMAT_RGBA4_UNORM \<Rightarrow>
         (f\<lparr>internalformat := GLenum ''GL_RGBA4'',
            externalformat := GLenum ''GL_RGBA'',
            type := GLenum ''GL_UNSIGNED_SHORT_4_4_4_4''\<rparr>, isSRGB, [])
     | PIXELFORMAT_RGB5A1_UNORM \<Rightarrow>
         (f\<lparr>internalformat := GLenum ''GL_RGB5_A1'',
            externalformat := GLenum ''GL_RGBA'',
            type := GLenum ''GL_UNSIGNED_SHORT_5_5_5_1''\<rparr>, isSRGB, [])
     | PIXELFORMAT_RGB565_UNORM \<Rightarrow>
         (f\<lparr>internalformat := GLenum ''GL_RGB565'',
            externalformat := GLenum ''GL_RGB'',
            type := GLenum ''GL_UNSIGNED_SHORT_5_6_5''\<rparr>, isSRGB, [])
     | PIXELFORMAT_RGB10A2_UNORM \<Rightarrow>
         (f\<lparr>internalformat := GLenum ''GL_RGB10_A2'',
            externalformat := GLenum ''GL_RGBA'',
            type := GLenum ''GL_UNSIGNED_INT_2_10_10_10_REV''\<rparr>, isSRGB, [])
     | PIXELFORMAT_RG11B10_FLOAT \<Rightarrow>
         (f\<lparr>internalformat := GLenum ''GL_R11F_G11F_B10F'',
            externalformat := GLenum ''GL_RGB'',
            type := GLenum ''GL_UNSIGNED_INT_10F_11F_11F_REV''\<rparr>, isSRGB, [])
     | PIXELFORMAT_STENCIL8 \<Rightarrow>
         (if GLAD_ES_VERSION_3_0 gl \<or> GLAD_VERSION_3_0 gl \<or> GLAD_ARB_framebuffer_object gl
         then (f\<lparr>internalformat := GLenum ''GL_DEPTH24_STENCIL8'',
                 externalformat := GLenum ''GL_DEPTH_STENCIL'',
                 type := GLenum ''GL_UNSIGNED_INT_24_8'',
                 framebufferAttachments :=
                   (framebufferAttachments f)[0 := GLenum ''GL_DEPTH_STENCIL_ATTACHMENT'']\<rparr>,
               isSRGB, [])
         else if GLAD_EXT_packed_depth_stencil gl \<or> GLAD_OES_packed_depth_stencil gl
         then (f\<lparr>internalformat := GLenum ''GL_DEPTH24_STENCIL8'',
                 externalformat := GLenum ''GL_DEPTH_STENCIL'',
                 type := GLenum ''GL_UNSIGNED_INT_24_8'',
                 framebufferAttachments :=
                   (framebufferAttachments f)[0 := GLenum ''GL_DEPTH_ATTACHMENT'',
                                              1 := GLenum ''GL_STENCIL_ATTACHMENT'']\<rparr>,
               isSRGB, [])
         else (f\<lparr>internalformat := GLenum ''GL_STENCIL_INDEX8'',
                 externalformat := GLenum ''GL_STENCIL'', type := GLenum ''GL_UNSIGNED_BYTE'',
                 framebufferAttachments :=
                   (framebufferAttachments f)[0 := GLenum ''GL_STENCIL_ATTACHMENT'']\<rparr>,
               isSRGB, []))
     | PIXELFORMAT_DEPTH16_UNORM \<Rightarrow>
         (f\<lparr>internalformat := GLenum ''GL_DEPTH_COMPONENT16'',
            externalformat := GLenum ''GL_DEPTH_COMPONENT'',
            type := GLenum ''GL_UNSIGNED_SHORT'',
            framebufferAttachments :=
              (framebufferAttachments f)[0 := GLenum ''GL_DEPTH_ATTACHMENT'']\<rparr>, isSRGB, [])
     | PIXELFORMAT_DEPTH24_UNORM \<Rightarrow>
         (if GLAD_ES_VERSION_2_0 gl \<and> \<not> GLAD_ES_VERSION_3_0 gl \<and> \<not> GLAD_OES_depth24 gl
            \<and> GLAD_OES_packed_depth_stencil gl
         then (f\<lparr>internalformat := GLenum ''GL_DEPTH24_STENCIL8'',
                 externalformat := GLenum ''GL_DEPTH_STENCIL'',
                 type := GLenum ''GL_UNSIGNED_INT_24_8'',
                 framebufferAttachments :=
                   (framebufferAttachments f)[0 := GLenum ''GL_DEPTH_ATTACHMENT'',
                                              1 := GLenum ''GL_STENCIL_ATTACHMENT'']\<rparr>,
               isSRGB, [])
         else (f\<lparr>internalformat := GLenum ''GL_DEPTH_COMPONENT24'',
                 externalformat := GLenum ''GL_DEPTH_COMPONENT'',
                 type := GLenum ''GL_UNSIGNED_INT'',
                 framebufferAttachments :=
                   (framebufferAttachments f)[0 := GLenum ''GL_DEPTH_ATTACHMENT'']\<rparr>,
               isSRGB, []))
     | PIXELFORMAT_DEPTH32_FLOAT \<Rightarrow>
         (f\<lparr>internalformat := GLenum ''GL_DEPTH_COMPONENT32F'',
            externalformat := GLenum ''GL_DEPTH_COMPONENT'',
            type := GLenum ''GL_FLOAT'',
            framebufferAttachments :=
              (framebufferAttachments f)[0 := GLenum ''GL_DEPTH_ATTACHMENT'']\<rparr>, isSRGB, [])
     | PIXELFORMAT_DEPTH24_UNORM_STENCIL8 \<Rightarrow>
         (f\<lparr>internalformat := GLenum ''GL_DEPTH24_STENCIL8'',
            externalformat := GLenum ''GL_DEPTH_STENCIL'',
            type := GLenum ''GL_UNSIGNED_INT_24_8'',
            framebufferAttachments :=
              (if GLAD_ES_VERSION_3_0 gl \<or> GLAD_VERSION_3_0 gl \<or> GLAD_ARB_framebuffer_object gl
               then (framebufferAttachments f)[0 := GLenum ''GL_DEPTH_STENCIL_ATTACHMENT'']
               else if GLAD_EXT_packed_depth_stencil gl \<or> GLAD_OES_packed_depth_stencil gl
               then (framebufferAttachments f)[0 := GLenum ''GL_DEPTH_ATTACHMENT'',
                                               1 := GLenum ''GL_STENCIL_ATTACHMENT'']
               else framebufferAttachments f)\<rparr>, isSRGB, [])
     | PIXELFORMAT_DEPTH32_FLOAT_STENCIL8 \<Rightarrow>
         (f\<lparr>internalformat := GLenum ''GL_DEPTH32F_STENCIL8'',
            externalformat := GLenum ''GL_DEPTH_STENCIL'',
            type := GLenum ''GL_FLOAT_32_UNSIGNED_INT_24_8_REV'',
            framebufferAttachments :=
              (framebufferAttachments f)[0 := GLenum ''GL_DEPTH_STENCIL_ATTACHMENT'']\<rparr>, isSRGB, [])
     | PIXELFORMAT_DXT1_UNORM \<Rightarrow>
         (f\<lparr>internalformat := (if isSRGB then GLenum ''GL_COMPRESSED_SRGB_ALPHA_S3TC_DXT1_EXT''
               else GLenum ''GL_COMPRESSED_RGBA_S3TC_DXT1_EXT'')\<rparr>, isSRGB, [])
     | PIXELFORMAT_DXT3_UNORM \<Rightarrow>
         (f\<lparr>internalformat := (if isSRGB then GLenum ''GL_COMPRESSED_SRGB_ALPHA_S3TC_DXT3_EXT''
               else GLenum ''GL_COMPRESSED_RGBA_S3TC_DXT3_EXT'')\<rparr>, isSRGB, [])
     | PIXELFORMAT_DXT5_UNORM \<Rightarrow>
         (f\<lparr>internalformat := (if isSRGB then GLenum ''GL_COMPRESSED_SRGB_ALPHA_S3TC_DXT5_EXT''
               else GLenum ''GL_COMPRESSED_RGBA_S3TC_DXT5_EXT'')\<rparr>, isSRGB, [])
     | PIXELFORMAT_BC4_UNORM \<Rightarrow>
         (f\<lparr>internalformat := GLenum ''GL_COMPRESSED_RED_RGTC1''\<rparr>, False, [])
     | PIXELFORMAT_BC4_SNORM \<Rightarrow>
         (f\<lparr>internalformat := GLenum ''GL_COMPRESSED_SIGNED_RED_RGTC1''\<rparr>, False, [])
     | PIXELFORMAT_BC5_UNORM \<Rightarrow>
         (f\<lparr>internalformat := GLenum ''GL_COMPRESSED_RG_RGTC2''\<rparr>, False, [])
     | PIXELFORMAT_BC5_SNORM \<Rightarrow>
         (f\<lparr>internalformat := GLenum ''GL_COMPRESSED_SIGNED_RG_RGTC2''\<rparr>, False, [])
     | PIXELFORMAT_BC6H_UFLOAT \<Rightarrow>
         (f\<lparr>internalformat := GLenum ''GL_COMPRESSED_RGB_BPTC_UNSIGNED_FLOAT''\<rparr>, False, [])
     | PIXELFORMAT_BC6H_FLOAT \<Rightarrow>
         (f\<lparr>internalformat := GLenum ''GL_COMPRESSED_RGB_BPTC_SIGNED_FLOAT''\<rparr>, False, [])
     | PIXELFORMAT_BC7_UNORM \<Rightarrow>
         (f\<lparr>internalformat := (if isSRGB then GLenum ''GL_COMPRESSED_SRGB_ALPHA_BPTC_UNORM''
               else GLenum ''GL_COMPRESSED_RGBA_BPTC_UNORM'')\<rparr>, isSRGB, [])
     | PIXELFORMAT_PVR1_RGB2_UNORM \<Rightarrow>
         (f\<lparr>internalformat := (if isSRGB then GLenum ''GL_COMPRESSED_SRGB_PVRTC_2BPPV1_EXT''
               else GLenum ''GL_COMPRESSED_RGB_PVRTC_2BPPV1_IMG'')\<rparr>, isSRGB, [])
     | PIXELFORMAT_PVR1_RGB4_UNORM \<Rightarrow>
         (f\<lparr>internalformat := (if isSRGB then GLenum ''GL_COMPRESSED_SRGB_PVRTC_4BPPV1_EXT''
               else GLenum ''GL_COMPRESSED_RGB_PVRTC_4BPPV1_IMG'')\<rparr>, isSRGB, [])
     | PIXELFORMAT_PVR1_RGBA2_UNORM \<Rightarrow>
         (f\<lparr>internalformat := (if isSRGB then GLenum ''GL_COMPRESSED_SRGB_ALPHA_PVRTC_2BPPV1_EXT''
               else GLenum ''GL_COMPRESSED_RGBA_PVRTC_2BPPV1_IMG'')\<rparr>, isSRGB, [])
     | PIXELFORMAT_PVR1_RGBA4_UNORM \<Rightarrow>
         (f\<lparr>internalformat := (if isSRGB then GLenum ''GL_COMPRESSED_SRGB_ALPHA_PVRTC_4BPPV1_EXT''
               else GLenum ''GL_COMPRESSED_RGBA_PVRTC_4BPPV1_IMG'')\<rparr>, isSRGB, [])
     | PIXELFORMAT_ETC1_UNORM \<Rightarrow>
         (f\<lparr>internalformat := GLenum ''GL_ETC1_RGB8_OES''\<rparr>, False, [])
     | PIXELFORMAT_ETC2_RGB_UNORM \<Rightarrow>
         (f\<lparr>internalformat := (if isSRGB then GLenum ''GL_COMPRESSED_SRGB8_ETC2''
               else GLenum ''GL_COMPRESSED_RGB8_ETC2'')\<rparr>, isSRGB, [])
     | PIXELFORMAT_ETC2_RGBA_UNORM \<Rightarrow>
         (f\<lparr>internalformat := (if isSRGB then GLenum ''GL_COMPRESSED_SRGB8_ALPHA8_ETC2_EAC''
               else GLenum ''GL_COMPRESSED_RGBA8_ETC2_EAC'')\<rparr>, isSRGB, [])
     | PIXELFORMAT_ETC2_RGBA1_UNORM \<Rightarrow>
         (f\<lparr>internalformat := (if isSRGB then GLenum ''GL_COMPRESSED_SRGB8_PUNCHTHROUGH_ALPHA1_ETC2''
               else GLenum ''GL_COMPRESSED_RGB8_PUNCHTHROUGH_ALPHA1_ETC2'')\<rparr>, isSRGB, [])
     | PIXELFORMAT_EAC_R_UNORM \<Rightarrow>
         (f\<lparr>internalformat := GLenum ''GL_COMPRESSED_R11_EAC''\<rparr>, False, [])
     | PIXELFORMAT_EAC_R_SNORM \<Rightarrow>
         (f\<lparr>internalformat := GLenum ''GL_COMPRESSED_SIGNED_R11_EAC''\<rparr>, False, [])
     | PIXELFORMAT_EAC_RG_UNORM \<Rightarrow>
         (f\<lparr>internalformat := GLenum ''GL_COMPRESSED_RG11_EAC''\<rparr>, False, [])
     | PIXELFORMAT_EAC_RG_SNORM \<Rightarrow>
         (f\<lparr>internalformat := GLenum ''GL_COMPRESSED_SIGNED_RG11_EAC''\<rparr>, False, [])
     | PIXELFORMAT_ASTC_4x4 \<Rightarrow>
         (f\<lparr>internalformat := (if isSRGB then GLenum ''GL_COMPRESSED_SRGB8_ALPHA8_ASTC_4x4_KHR''
               else GLenum ''GL_COMPRESSED_RGBA_ASTC_4x4_KHR'')\<rparr>, isSRGB, [])
     | PIXELFORMAT_ASTC_5x4 \<Rightarrow>
         (f\<lparr>internalformat := (if isSRGB then GLenum ''GL_COMPRESSED_SRGB8_ALPHA8_ASTC_5x4_KHR''
               else GLenum ''GL_COMPRESSED_RGBA_ASTC_5x4_KHR'')\<rparr>, isSRGB, [])
     | PIXELFORMAT_ASTC_5x5 \<Rightarrow>
         (f\<lparr>internalformat := (if isSRGB then GLenum ''GL_COMPRESSED_SRGB8_ALPHA8_ASTC_5x5_KHR''
               else GLenum ''GL_COMPRESSED_RGBA_ASTC_5x5_KHR'')\<rparr>, isSRGB, [])
     | PIXELFORMAT_ASTC_6x5 \<Rightarrow>
         (f\<lparr>internalformat := (if isSRGB then GLenum ''GL_COMPRESSED_SRGB8_ALPHA8_ASTC_6x5_KHR''
               else GLenum ''GL_COMPRESSED_RGBA_ASTC_6x5_KHR'')\<rparr>, isSRGB, [])
     | PIXELFORMAT_ASTC_6x6 \<Rightarrow>
         (f\<lparr>internalformat := (if isSRGB then GLenum ''GL_COMPRESSED_SRGB8_ALPHA8_ASTC_6x6_KHR''
               else GLenum ''GL_COMPRESSED_RGBA_ASTC_6x6_KHR'')\<rparr>, isSRGB, [])
     | PIXELFORMAT_ASTC_8x5 \<Rightarrow>
         (f\<lparr>internalformat := (if isSRGB then GLenum ''GL_COMPRESSED_SRGB8_ALPHA8_ASTC_8x5_KHR''
               else GLenum ''GL_COMPRESSED_RGBA_ASTC_8x5_KHR'')\<rparr>, isSRGB, [])
     | PIXELFORMAT_ASTC_8x6 \<Rightarrow>
         (f\<lparr>internalformat := (if isSRGB then GLenum ''GL_COMPRESSED_SRGB8_ALPHA8_ASTC_8x6_KHR''
               else GLenum ''GL_COMPRESSED_RGBA_ASTC_8x6_KHR'')\<rparr>, isSRGB, [])
     | PIXELFORMAT_ASTC_8x8 \<Rightarrow>
         (f\<lparr>internalformat := (if isSRGB then GLenum ''GL_COMPRESSED_SRGB8_ALPHA8_ASTC_8x8_KHR''
               else GLenum ''GL_COMPRESSED_RGBA_ASTC_8x8_KHR'')\<rparr>, isSRGB, [])
     | PIXELFORMAT_ASTC_10x5 \<Rightarrow>
         (f\<lparr>internalformat := (if isSRGB then GLenum ''GL_COMPRESSED_SRGB8_ALPHA8_ASTC_10x5_KHR''
               else GLenum ''GL_COMPRESSED_RGBA_ASTC_10x5_KHR'')\<rparr>, isSRGB, [])
     | PIXELFORMAT_ASTC_10x6 \<Rightarrow>
         (f\<lparr>internalformat := (if isSRGB then GLenum ''GL_COMPRESSED_SRGB8_ALPHA8_ASTC_10x6_KHR''
               else GLenum ''GL_COMPRESSED_RGBA_ASTC_10x6_KHR'')\<rparr>, isSRGB, [])
     | PIXELFORMAT_ASTC_10x8 \<Rightarrow>
         (f\<lparr>internalformat := (if isSRGB then GLenum ''GL_COMPRESSED_SRGB8_ALPHA8_ASTC_10x8_KHR''
               else GLenum ''GL_COMPRESSED_RGBA_ASTC_10x8_KHR'')\<rparr>, isSRGB, [])
     | PIXELFORMAT_ASTC_10x10 \<Rightarrow>
         (f\<lparr>internalformat := (if isSRGB then GLenum ''GL_COMPRESSED_SRGB8_ALPHA8_ASTC_10x10_KHR''
               else GLenum ''GL_COMPRESSED_RGBA_ASTC_10x10_KHR'')\<rparr>, isSRGB, [])
     | PIXELFORMAT_ASTC_12x10 \<Rightarrow>
         (f\<lparr>internalformat := (if isSRGB then GLenum ''GL_COMPRESSED_SRGB8_ALPHA8_ASTC_12x10_KHR''
               else GLenum ''GL_COMPRESSED_RGBA_ASTC_12x10_KHR'')\<rparr>, isSRGB, [])
     | PIXELFORMAT_ASTC_12x12 \<Rightarrow>
         (f\<lparr>internalformat := (if isSRGB then GLenum ''GL_COMPRESSED_SRGB8_ALPHA8_ASTC_12x12_KHR''
               else GLenum ''GL_COMPRESSED_RGBA_ASTC_12x12_KHR'')\<rparr>, isSRGB, [])
     | _ \<Rightarrow> (f, isSRGB, [UnhandledPixelFormat pixelformat]))"

text \<open>
  \<open>OpenGL::convertPixelFormat(pixelformat, renderbuffer, isSRGB)\<close>. The C++ function
  returns the format and writes \<open>isSRGB\<close> through a reference; the model returns the
  format, the final value of \<open>isSRGB\<close> and the diagnostics printed.
\<close>

definition convertPixelFormat ::
  "PixelFormatFns \<Rightarrow> OpenGL \<Rightarrow> PixelFormat \<Rightarrow> bool \<Rightarrow> bool \<Rightarrow> TextureFormat \<times> bool \<times> Diagnostic list" where
  "convertPixelFormat pf gl pixelformat0 renderbuffer isSRGB0 =
    (let f0 = TextureFormat_default\<lparr>framebufferAttachments :=
                 [GLenum ''GL_COLOR_ATTACHMENT0'', GLenum ''GL_NONE'']\<rparr>;
         pixelformat = switchedPixelFormat pf gl pixelformat0 isSRGB0;
         (f1, isSRGB1, printed) = convertPixelFormat_switch gl pixelformat isSRGB0 f0
     in if \<not> isPixelFormatCompressed pf pixelformat
        then
          (let f2 = (if GLAD_ES_VERSION_2_0 gl \<and> \<not> GLAD_ES_VERSION_3_0 gl
                        \<and> \<not> renderbuffer \<and> \<not> isTexStorageSupported gl
                     then f1\<lparr>internalformat := externalformat f1\<rparr> else f1);
               isSRGB2 = (if \<not> isPixelFormatSRGB pf pixelformat then False else isSRGB1)
           in (f2, isSRGB2, printed))
        else (f1, isSRGB1, printed))"

text \<open>The native format triple of a conversion result.\<close>

definition formatTriple :: "TextureFormat \<Rightarrow> GLenum \<times> GLenum \<times> GLenum" where
  "formatTriple f = (internalformat f, externalformat f, type f)"

section \<open>The data model of the graphics module (Graphics.cpp)\<close>

text \<open>
  Floating-point values are only stored, copied and compared by the code modelled here,
  never computed with; they are real numbers. Enumerations and small structs whose
  declarations are outside the sources at hand, and that the code only copies and compares
  (blend state, cull mode, winding, compare mode, stencil action, colour mask, sampler
  state), are numbers.
\<close>

datatype Colorf = Colorf real real real real

datatype Rect = Rect int int int int

datatype Matrix4 = Matrix4 "real list"

text \<open>\<open>Matrix4()\<close>, the identity.\<close>

definition Matrix4_identity :: Matrix4 where
  "Matrix4_identity = Matrix4 [1, 0, 0, 0,  0, 1, 0, 0,  0, 0, 1, 0,  0, 0, 0, 1]"

type_synonym BlendState = nat
type_synonym CullMode = nat
type_synonym Winding = nat
type_synonym CompareMode = nat
type_synonym StencilAction = nat
type_synonym ColorChannelMask = nat
type_synonym SamplerState = nat

datatype StackType = STACK_ALL | STACK_TRANSFORM

datatype LineStyle = LINE_SMOOTH | LINE_ROUGH

datatype LineJoin = LINE_JOIN_NONE | LINE_JOIN_MITER | LINE_JOIN_BEVEL

datatype PrimitiveType =
  PRIMITIVE_TRIANGLES | PRIMITIVE_TRIANGLE_STRIP | PRIMITIVE_TRIANGLE_FAN | PRIMITIVE_POINTS

text \<open>
  \<open>CommonFormat\<close> and the standard shader roles: the members that Graphics.cpp names,
  and any other member by its number.
\<close>

datatype CommonFormat = NONE | RGBAub | XYf | XYZf | CommonFormat nat

datatype StandardShader = STANDARD_DEFAULT | STANDARD_POINTS | StandardShader nat

datatype TriangleIndexMode = TRIANGLEINDEX_NONE | TRIANGLEINDEX_FAN | TRIANGLEINDEX_QUADS

datatype Error = Exception string | NullPointer

text \<open>
  A texture object. \<open>texId\<close> is its identity (the address of the C++ object): two
  pointers are equal exactly when they point to the same object, and one object has one
  set of properties, so pointer comparison is comparison of these values. The other
  fields are what the getters of the \<open>Texture\<close> class return; the class is outside the
  sources at hand, so the getters that take a mipmap level or a slice are fields that
  are functions.
\<close>

record Texture =
  texId :: nat
  getPixelFormat :: PixelFormat
  isRenderTarget :: bool
  getMipmapCount :: int
  isValidSlice :: "int \<Rightarrow> int \<Rightarrow> bool"
  getPixelWidth :: "int \<Rightarrow> int"
  getPixelHeight :: "int \<Rightarrow> int"
  getWidth :: "int \<Rightarrow> int"
  getHeight :: "int \<Rightarrow> int"
  getRequestedMSAA :: int

text \<open>
  \<open>RenderTarget\<close> and \<open>RenderTargets\<close>. A null texture pointer is \<open>None\<close>. The
  strong-reference variants \<open>RenderTargetStrongRef\<close> and \<open>RenderTargetsStrongRef\<close>
  differ only in holding a counted reference, so one record serves for both.
\<close>

record RenderTarget =
  texture :: "Texture option"
  slice :: int
  mipmap :: int

record RenderTargets =
  colors :: "RenderTarget list"
  depthStencil :: RenderTarget
  temporaryRTFlags :: "32 word"

text \<open>\<open>RenderTarget()\<close> and \<open>RenderTargets()\<close>: no texture, no attachment.\<close>

definition RenderTarget_default :: RenderTarget where
  "RenderTarget_default = \<lparr>texture = None, slice = 0, mipmap = 0\<rparr>"

definition RenderTargets_default :: RenderTargets where
  "RenderTargets_default =
     \<lparr>colors = [], depthStencil = RenderTarget_default, temporaryRTFlags = 0\<rparr>"

text \<open>\<open>RenderTargets::getFirstTarget\<close>: the first colour attachment, else the depth-stencil one.\<close>

definition getFirstTarget :: "RenderTargets \<Rightarrow> RenderTarget" where
  "getFirstTarget rts = (case colors rts of [] \<Rightarrow> depthStencil rts | c # _ \<Rightarrow> c)"

record StencilState =
  action :: StencilAction
  compare :: CompareMode
  "value" :: int
  readMask :: "32 word"
  writeMask :: "32 word"

record DisplayState =
  color :: Colorf
  backgroundColor :: Colorf
  blend :: BlendState
  lineWidth :: real
  lineStyle :: LineStyle
  lineJoin :: LineJoin
  pointSize :: real
  scissor :: bool
  scissorRect :: Rect
  meshCullMode :: CullMode
  winding :: Winding
  font :: "nat option"
  shader :: "nat option"
  renderTargets :: RenderTargets
  stencil :: StencilState
  depthTest :: CompareMode
  depthWrite :: bool
  colorMask :: ColorChannelMask
  wireframe :: bool
  defaultSamplerState :: SamplerState
  useCustomProjection :: bool
  customProjection :: Matrix4

text \<open>
  The stream buffers behind the batch. Modelled from the spec: the \<open>StreamBuffer\<close>
  class is outside the sources at hand. A buffer has its size and the part of it still
  usable in this frame; mapping it gives the usable part; \<open>markUsed\<close> takes the
  used bytes off the usable part ("marks the buffer regions as GPU-used, deferring
  their reuse"). A \<open>MapInfo\<close> is the write pointer (\<open>None\<close> is the null pointer, else
  the offset into the mapped region) and the size of the region.
\<close>

record StreamBuffer =
  getSize :: int
  getUsableSize :: int

record MapInfo =
  data :: "int option"
  size :: int

definition MapInfo_default :: MapInfo where
  "MapInfo_default = \<lparr>data = None, size = 0\<rparr>"

definition newStreamBuffer :: "int \<Rightarrow> StreamBuffer" where
  "newStreamBuffer n = \<lparr>getSize = n, getUsableSize = n\<rparr>"

definition map_buffer :: "StreamBuffer \<Rightarrow> MapInfo" where
  "map_buffer sb = \<lparr>data = Some 0, size = getUsableSize sb\<rparr>"

definition markUsed :: "int \<Rightarrow> StreamBuffer \<Rightarrow> StreamBuffer" where
  "markUsed n sb = sb\<lparr>getUsableSize := getUsableSize sb - n\<rparr>"

record BatchedDrawCommand =
  primitiveMode :: PrimitiveType
  formats :: "CommonFormat \<times> CommonFormat"
  indexMode :: TriangleIndexMode
  vertexCount :: int
  texture :: "Texture option"
  standardShaderType :: StandardShader

text \<open>
  \<open>BatchedDrawState\<close>. The two-element arrays \<open>formats\<close>, \<open>vb\<close> and \<open>vbMap\<close> are
  pairs. \<open>indexData\<close> is what \<open>fillIndices\<close> has written through the mapped index
  pointer since the last flush.
\<close>

record BatchedDrawState =
  vb :: "StreamBuffer \<times> StreamBuffer"
  indexBuffer :: StreamBuffer
  primitiveMode :: PrimitiveType
  formats :: "CommonFormat \<times> CommonFormat"
  texture :: "Texture option"
  standardShaderType :: StandardShader
  vertexCount :: int
  indexCount :: int
  vbMap :: "MapInfo \<times> MapInfo"
  indexBufferMap :: MapInfo
  indexData :: "16 word list"

record TemporaryTexture =
  texture :: Texture
  framesSinceUse :: int

text \<open>
  What reaches the backend and the objects outside this file: each call of a virtual
  function that a backend implements, each shader attachment and each texture creation
  or release is recorded, in order.
\<close>

datatype BackendCall =
    SetColor Colorf
  | SetBlendState BlendState
  | SetPointSize real
  | SetScissor "Rect option"
  | SetFrontFaceWinding Winding
  | SetStencilMode StencilState
  | SetDepthMode CompareMode bool
  | SetColorMask ColorChannelMask
  | SetWireframe bool
  | AttachShader nat
  | AttachDefaultShader StandardShader
  | Draw PrimitiveType int "Texture option" "CommonFormat \<times> CommonFormat"
  | DrawIndexed PrimitiveType int "Texture option" "CommonFormat \<times> CommonFormat" "16 word list"
  | SetRenderTargetsInternal RenderTargets int int bool
  | Clear "int option" "real option"
  | NewTexture Texture
  | ReleaseTexture Texture

text \<open>
  The part of the \<open>Graphics\<close> object that the functions below read or write.
  \<open>backend\<close> is the record of backend calls; \<open>nextTexture\<close> is the identity that the
  next texture created by \<open>newTexture\<close> gets.
\<close>

record Graphics =
  width :: int
  height :: int
  pixelWidth :: int
  pixelHeight :: int
  states :: "DisplayState list"
  stackTypeStack :: "StackType list"
  transformStack :: "Matrix4 list"
  pixelScaleStack :: "real list"
  batchedDrawState :: BatchedDrawState
  temporaryTextures :: "TemporaryTexture list"
  deviceProjectionMatrix :: Matrix4
  renderTargetSwitchCount :: int
  drawCallsBatched :: int
  backend :: "BackendCall list"
  nextTexture :: nat

text \<open>
  Constants, capabilities and pure helpers that the functions use and whose definitions
  are outside the sources at hand (Graphics.h, vertex.cpp, common/pixelformat.cpp, the
  backends). The functions take them as a parameter, so every result holds whatever they
  are.
\<close>

record Env =
  MAX_USER_STACK_DEPTH :: nat
  MAX_TEMPORARY_RESOURCE_UNUSED_FRAMES :: int
  LIMIT_RENDER_TARGETS :: int
  FEATURE_MULTI_RENDER_TARGET_FORMATS :: bool
  TEMPORARY_RT_DEPTH :: "32 word"
  TEMPORARY_RT_STENCIL :: "32 word"
  pixelFormatFns :: PixelFormatFns
  isPixelFormatSupported :: "PixelFormat \<Rightarrow> bool"
  isGammaCorrect :: bool
  getFormatStride :: "CommonFormat \<Rightarrow> int"
  attributeBits :: "CommonFormat \<Rightarrow> 32 word"
  ATTRIBFLAG_COLOR :: "32 word"
  Matrix4_ortho :: "real \<Rightarrow> real \<Rightarrow> real \<Rightarrow> real \<Rightarrow> real \<Rightarrow> real \<Rightarrow> Matrix4"
  computeDeviceProjection :: "Matrix4 \<Rightarrow> bool \<Rightarrow> Matrix4"

section \<open>Calls, results and the top of the state stack\<close>

text \<open>
  A \<open>void\<close> member function that can throw returns the exception, if one was thrown, and
  the object as it is when the function is left: an exception does not undo what was
  written before it.
\<close>

type_synonym outcome = "Error option \<times> Graphics"

definition andThen :: "outcome \<Rightarrow> (Graphics \<Rightarrow> outcome) \<Rightarrow> outcome" where
  "andThen r f = (case r of (None, g) \<Rightarrow> f g | (Some e, g) \<Rightarrow> (Some e, g))"

definition backendCall :: "BackendCall \<Rightarrow> Graphics \<Rightarrow> Graphics" where
  "backendCall c g = g\<lparr>backend := backend g @ [c]\<rparr>"

text \<open>
  A write through the reference \<open>states.back()\<close>. On an empty vector the C++ is
  undefined; the constructor puts one state there and \<open>pop\<close> never removes the last.
\<close>

definition modifyBack :: "(DisplayState \<Rightarrow> DisplayState) \<Rightarrow> Graphics \<Rightarrow> Graphics" where
  "modifyBack f g = g\<lparr>states := butlast (states g) @ [f (last (states g))]\<rparr>"

definition getColor :: "Graphics \<Rightarrow> Colorf" where
  "getColor g = color (last (states g))"

subsection \<open>State setters defined in Graphics.cpp\<close>

definition setBackgroundColor :: "Colorf \<Rightarrow> Graphics \<Rightarrow> Graphics" where
  "setBackgroundColor c = modifyBack (\<lambda>s. s\<lparr>backgroundColor := c\<rparr>)"

definition setLineWidth :: "real \<Rightarrow> Graphics \<Rightarrow> Graphics" where
  "setLineWidth w = modifyBack (\<lambda>s. s\<lparr>lineWidth := w\<rparr>)"

definition setLineStyle :: "LineStyle \<Rightarrow> Graphics \<Rightarrow> Graphics" where
  "setLineStyle style = modifyBack (\<lambda>s. s\<lparr>lineStyle := style\<rparr>)"

definition setLineJoin :: "LineJoin \<Rightarrow> Graphics \<Rightarrow> Graphics" where
  "setLineJoin join = modifyBack (\<lambda>s. s\<lparr>lineJoin := join\<rparr>)"

definition setMeshCullMode :: "CullMode \<Rightarrow> Graphics \<Rightarrow> Graphics" where
  "setMeshCullMode cull = modifyBack (\<lambda>s. s\<lparr>meshCullMode := cull\<rparr>)"

definition setFont :: "nat option \<Rightarrow> Graphics \<Rightarrow> Graphics" where
  "setFont f = modifyBack (\<lambda>s. s\<lparr>font := f\<rparr>)"

definition setDefaultSamplerState :: "SamplerState \<Rightarrow> Graphics \<Rightarrow> Graphics" where
  "setDefaultSamplerState s = modifyBack (\<lambda>st. st\<lparr>defaultSamplerState := s\<rparr>)"

text \<open>
  \<open>setShader(shader)\<close> and \<open>setShader()\<close>: the shader is attached (a call into the
  shader object, recorded) and stored.
\<close>

definition setShader :: "nat option \<Rightarrow> Graphics \<Rightarrow> Graphics" where
  "setShader sh g =
     (case sh of
        None \<Rightarrow> modifyBack (\<lambda>s. s\<lparr>shader := None\<rparr>)
                  (backendCall (AttachDefaultShader STANDARD_DEFAULT) g)
      | Some p \<Rightarrow> modifyBack (\<lambda>s. s\<lparr>shader := Some p\<rparr>) (backendCall (AttachShader p) g))"

subsection \<open>State setters that the backends define\<close>

text \<open>
  Modelled from the spec: \<open>setColor\<close>, \<open>setBlendState\<close>, \<open>setPointSize\<close>,
  \<open>setScissor\<close>, \<open>setFrontFaceWinding\<close>, \<open>setStencilMode\<close>, \<open>setDepthMode\<close>,
  \<open>setColorMask\<close> and \<open>setWireframe\<close> are pure virtual in \<open>Graphics\<close> and defined by
  the backends, outside the sources at hand. By the specification "every state-mutating
  setter writes directly into the top DisplayState entry"; the call itself is recorded.
\<close>

definition setColor :: "Colorf \<Rightarrow> Graphics \<Rightarrow> Graphics" where
  "setColor c g = modifyBack (\<lambda>s. s\<lparr>color := c\<rparr>) (backendCall (SetColor c) g)"

definition setBlendState :: "BlendState \<Rightarrow> Graphics \<Rightarrow> Graphics" where
  "setBlendState b g = modifyBack (\<lambda>s. s\<lparr>blend := b\<rparr>) (backendCall (SetBlendState b) g)"

definition setPointSize :: "real \<Rightarrow> Graphics \<Rightarrow> Graphics" where
  "setPointSize p g = modifyBack (\<lambda>s. s\<lparr>pointSize := p\<rparr>) (backendCall (SetPointSize p) g)"

definition setScissor :: "Rect option \<Rightarrow> Graphics \<Rightarrow> Graphics" where
  "setScissor r g =
     (case r of
        Some rect \<Rightarrow> modifyBack (\<lambda>s. s\<lparr>scissor := True, scissorRect := rect\<rparr>)
                       (backendCall (SetScissor (Some rect)) g)
      | None \<Rightarrow> modifyBack (\<lambda>s. s\<lparr>scissor := False\<rparr>) (backendCall (SetScissor None) g))"

definition setFrontFaceWinding :: "Winding \<Rightarrow> Graphics \<Rightarrow> Graphics" where
  "setFrontFaceWinding w g =
     modifyBack (\<lambda>s. s\<lparr>winding := w\<rparr>) (backendCall (SetFrontFaceWinding w) g)"

definition setStencilMode :: "StencilState \<Rightarrow> Graphics \<Rightarrow> Graphics" where
  "setStencilMode st g =
     modifyBack (\<lambda>s. s\<lparr>stencil := st\<rparr>) (backendCall (SetStencilMode st) g)"

definition setDepthMode :: "CompareMode \<Rightarrow> bool \<Rightarrow> Graphics \<Rightarrow> Graphics" where
  "setDepthMode c w g =
     modifyBack (\<lambda>s. s\<lparr>depthTest := c, depthWrite := w\<rparr>) (backendCall (SetDepthMode c w) g)"

definition setColorMask :: "ColorChannelMask \<Rightarrow> Graphics \<Rightarrow> Graphics" where
  "setColorMask m g = modifyBack (\<lambda>s. s\<lparr>colorMask := m\<rparr>) (backendCall (SetColorMask m) g)"

definition setWireframe :: "bool \<Rightarrow> Graphics \<Rightarrow> Graphics" where
  "setWireframe w g = modifyBack (\<lambda>s. s\<lparr>wireframe := w\<rparr>) (backendCall (SetWireframe w) g)"

section \<open>The transform stack\<close>

definition pushTransform :: "Graphics \<Rightarrow> Graphics" where
  "pushTransform g = g\<lparr>transformStack := transformStack g @ [last (transformStack g)]\<rparr>"

definition pushIdentityTransform :: "Graphics \<Rightarrow> Graphics" where
  "pushIdentityTransform g = g\<lparr>transformStack := transformStack g @ [Matrix4_identity]\<rparr>"

definition popTransform :: "Graphics \<Rightarrow> Graphics" where
  "popTransform g = g\<lparr>transformStack := butlast (transformStack g)\<rparr>"

section \<open>Index generation\<close>

text \<open>
  Modelled from the spec: \<open>getIndexCount\<close> and \<open>fillIndices\<close> are defined in
  vertex.cpp, outside the sources at hand. By the specification, quad-list mode emits the
  two triangles {0,1,2,2,3,0} per 4 input vertices, offset by the vertex base,
  \<open>6 * (V/4)\<close> indices in all; fan mode emits the triangles {0,i,i+1} for i from 1
  to count-2, \<open>3 * (V-2)\<close> indices in all. The indices are unsigned 16-bit values.
\<close>

definition LOVE_UINT16_MAX :: int where
  "LOVE_UINT16_MAX = 65535"

definition getIndexCount :: "TriangleIndexMode \<Rightarrow> int \<Rightarrow> int" where
  "getIndexCount mode n =
     (case mode of
        TRIANGLEINDEX_NONE \<Rightarrow> 0
      | TRIANGLEINDEX_FAN \<Rightarrow> 3 * (n - 2)
      | TRIANGLEINDEX_QUADS \<Rightarrow> 6 * (n div 4))"

definition quadPattern :: "int list" where
  "quadPattern = [0, 1, 2, 2, 3, 0]"

definition fillIndices :: "TriangleIndexMode \<Rightarrow> int \<Rightarrow> int \<Rightarrow> 16 word list" where
  "fillIndices mode vertexStart n =
     (case mode of
        TRIANGLEINDEX_NONE \<Rightarrow> []
      | TRIANGLEINDEX_FAN \<Rightarrow>
          concat (map (\<lambda>i. [word_of_int vertexStart, word_of_int (vertexStart + i),
                            word_of_int (vertexStart + i + 1)])
                      [1..n - 2])
      | TRIANGLEINDEX_QUADS \<Rightarrow>
          concat (map (\<lambda>q. map (\<lambda>k. word_of_int (vertexStart + 4 * q + k)) quadPattern)
                      [0..n div 4 - 1]))"

section \<open>The batched-draw accumulator\<close>

text \<open>
  The attribute bits that the formats of a batch enable: \<open>setCommonFormat\<close> is called
  for each format that is not \<open>NONE\<close>.
\<close>

definition enableBits :: "Env \<Rightarrow> CommonFormat \<times> CommonFormat \<Rightarrow> 32 word" where
  "enableBits env fs =
     (if fst fs = NONE then 0 else attributeBits env (fst fs))
     OR (if snd fs = NONE then 0 else attributeBits env (snd fs))"

definition usedsize :: "Env \<Rightarrow> CommonFormat \<Rightarrow> int \<Rightarrow> int" where
  "usedsize env fmt n = (if fmt = NONE then 0 else getFormatStride env fmt * n)"

definition unmapped :: "CommonFormat \<Rightarrow> MapInfo \<Rightarrow> MapInfo" where
  "unmapped fmt m = (if fmt = NONE then m else MapInfo_default)"

definition markUsedIf :: "int \<Rightarrow> StreamBuffer \<Rightarrow> StreamBuffer" where
  "markUsedIf n sb = (if n > 0 then markUsed n sb else sb)"

text \<open>
  \<open>Graphics::flushBatchedDraws\<close>. The draw itself is a backend call; sizes are
  mathematical integers (vertex counts are not negative and the products are far from
  the range of \<open>size_t\<close>).
\<close>

definition flushBatchedDraws :: "Env \<Rightarrow> Graphics \<Rightarrow> Graphics" where
  "flushBatchedDraws env g =
    (let sb = batchedDrawState g in
     if vertexCount sb = 0 \<and> indexCount sb = 0 then g
     else
       let fs = formats sb;
           used0 = usedsize env (fst fs) (vertexCount sb);
           used1 = usedsize env (snd fs) (vertexCount sb);
           g1 = g\<lparr>batchedDrawState :=
                   sb\<lparr>vbMap := (unmapped (fst fs) (fst (vbMap sb)),
                                unmapped (snd fs) (snd (vbMap sb)))\<rparr>\<rparr>
       in if enableBits env fs = 0 then g1
          else
            let colorEnabled = (enableBits env fs AND ATTRIBFLAG_COLOR env \<noteq> 0);
                nc = getColor g1;
                g2 = (if colorEnabled then setColor (Colorf 1 1 1 1) g1 else g1);
                g3 = pushIdentityTransform g2;
                used2 = (if indexCount sb > 0 then 2 * indexCount sb else 0);
                g4 = (if indexCount sb > 0
                      then (backendCall (DrawIndexed (primitiveMode sb) (indexCount sb)
                                           (BatchedDrawState.texture sb) fs (indexData sb)) g3)
                             \<lparr>batchedDrawState := (batchedDrawState g3)
                                 \<lparr>indexBufferMap := MapInfo_default, indexData := []\<rparr>\<rparr>
                      else backendCall (Draw (primitiveMode sb) (vertexCount sb)
                                          (BatchedDrawState.texture sb) fs) g3);
                sb4 = batchedDrawState g4;
                g5 = g4\<lparr>batchedDrawState :=
                        sb4\<lparr>vb := (markUsedIf used0 (fst (vb sb4)), markUsedIf used1 (snd (vb sb4))),
                            indexBuffer := markUsedIf used2 (indexBuffer sb4)\<rparr>\<rparr>;
                g6 = popTransform g5;
                g7 = (if colorEnabled then setColor nc g6 else g6)
            in g7\<lparr>batchedDrawState := (batchedDrawState g7)\<lparr>vertexCount := 0, indexCount := 0\<rparr>\<rparr>)"

text \<open>The local variables of \<open>requestBatchedDraw\<close> that decide between appending and flushing.\<close>

definition batchDiffers :: "BatchedDrawCommand \<Rightarrow> BatchedDrawState \<Rightarrow> bool" where
  "batchDiffers cmd state =
     (BatchedDrawCommand.primitiveMode cmd \<noteq> primitiveMode state
      \<or> fst (BatchedDrawCommand.formats cmd) \<noteq> fst (formats state)
      \<or> snd (BatchedDrawCommand.formats cmd) \<noteq> snd (formats state)
      \<or> ((indexMode cmd \<noteq> TRIANGLEINDEX_NONE) \<noteq> (indexCount state > 0))
      \<or> BatchedDrawCommand.texture cmd \<noteq> BatchedDrawState.texture state
      \<or> BatchedDrawCommand.standardShaderType cmd \<noteq> standardShaderType state)"

definition overIndexLimit :: "BatchedDrawCommand \<Rightarrow> BatchedDrawState \<Rightarrow> bool" where
  "overIndexLimit cmd state =
     (vertexCount state + BatchedDrawCommand.vertexCount cmd > LOVE_UINT16_MAX
      \<and> indexMode cmd \<noteq> TRIANGLEINDEX_NONE)"

text \<open>For one vertex stream: the bytes that the whole batch would need after this command.\<close>

definition streamDatasize :: "Env \<Rightarrow> CommonFormat \<Rightarrow> int \<Rightarrow> int" where
  "streamDatasize env fmt totalvertices = getFormatStride env fmt * totalvertices"

definition streamOverMap :: "Env \<Rightarrow> CommonFormat \<Rightarrow> int \<Rightarrow> MapInfo \<Rightarrow> bool" where
  "streamOverMap env fmt totalvertices m =
     (fmt \<noteq> NONE \<and> data m \<noteq> None \<and> streamDatasize env fmt totalvertices > size m)"

definition streamBuffersize :: "Env \<Rightarrow> CommonFormat \<Rightarrow> int \<Rightarrow> StreamBuffer \<Rightarrow> int option" where
  "streamBuffersize env fmt totalvertices b =
     (if fmt \<noteq> NONE \<and> streamDatasize env fmt totalvertices > getUsableSize b
      then Some (max (streamDatasize env fmt totalvertices) (getSize b * 2)) else None)"

definition indexDatasize :: "BatchedDrawCommand \<Rightarrow> BatchedDrawState \<Rightarrow> int" where
  "indexDatasize cmd state =
     (indexCount state + getIndexCount (indexMode cmd) (BatchedDrawCommand.vertexCount cmd)) * 2"

definition indexOverMap :: "BatchedDrawCommand \<Rightarrow> BatchedDrawState \<Rightarrow> bool" where
  "indexOverMap cmd state =
     (indexMode cmd \<noteq> TRIANGLEINDEX_NONE \<and> data (indexBufferMap state) \<noteq> None
      \<and> indexDatasize cmd state > size (indexBufferMap state))"

definition indexBuffersize :: "BatchedDrawCommand \<Rightarrow> BatchedDrawState \<Rightarrow> int option" where
  "indexBuffersize cmd state =
     (if indexMode cmd \<noteq> TRIANGLEINDEX_NONE
         \<and> indexDatasize cmd state > getUsableSize (indexBuffer state)
      then Some (max (indexDatasize cmd state) (getSize (indexBuffer state) * 2)) else None)"

definition shouldflush :: "Env \<Rightarrow> BatchedDrawCommand \<Rightarrow> BatchedDrawState \<Rightarrow> bool" where
  "shouldflush env cmd state =
     (let totalvertices = vertexCount state + BatchedDrawCommand.vertexCount cmd in
      batchDiffers cmd state \<or> overIndexLimit cmd state
      \<or> streamOverMap env (fst (BatchedDrawCommand.formats cmd)) totalvertices (fst (vbMap state))
      \<or> streamOverMap env (snd (BatchedDrawCommand.formats cmd)) totalvertices (snd (vbMap state))
      \<or> indexOverMap cmd state)"

definition shouldresize :: "Env \<Rightarrow> BatchedDrawCommand \<Rightarrow> BatchedDrawState \<Rightarrow> bool" where
  "shouldresize env cmd state =
     (let totalvertices = vertexCount state + BatchedDrawCommand.vertexCount cmd in
      streamBuffersize env (fst (BatchedDrawCommand.formats cmd)) totalvertices (fst (vb state)) \<noteq> None
      \<or> streamBuffersize env (snd (BatchedDrawCommand.formats cmd)) totalvertices (snd (vb state)) \<noteq> None
      \<or> indexBuffersize cmd state \<noteq> None)"

text \<open>
  The buffer replacement of a resize: \<open>buffersizes[i]\<close> is 0 unless the stream asked
  for more room.
\<close>

definition resized :: "int option \<Rightarrow> StreamBuffer \<Rightarrow> StreamBuffer" where
  "resized wanted b =
     (let buffersize = (case wanted of None \<Rightarrow> 0 | Some n \<Rightarrow> n)
      in if getSize b < buffersize then newStreamBuffer buffersize else b)"

text \<open>
  Handing out the write pointer of a vertex stream: map the buffer if no region is
  open, return the pointer, advance it.
\<close>

definition takeStream :: "int \<Rightarrow> StreamBuffer \<Rightarrow> MapInfo \<Rightarrow> int option \<times> MapInfo" where
  "takeStream newdatasize b m =
     (if newdatasize > 0
      then (let m1 = (if data m = None then map_buffer b else m)
            in (data m1, m1\<lparr>data := map_option (\<lambda>p. p + newdatasize) (data m1)\<rparr>))
      else (None, m))"

record BatchedVertexData =
  stream :: "int option \<times> int option"

text \<open>
  \<open>Graphics::requestBatchedDraw\<close>. Not modelled: the attachment of the default shader
  and \<open>validateDrawState\<close> at the start of a batch, which are calls into the shader
  classes; the model takes it that the shader accepts the command.
\<close>

definition requestBatchedDraw :: "Env \<Rightarrow> BatchedDrawCommand \<Rightarrow> Graphics \<Rightarrow> BatchedVertexData \<times> Graphics" where
  "requestBatchedDraw env cmd g =
    (let state0 = batchedDrawState g;
         flush = shouldflush env cmd state0;
         resize = shouldresize env cmd state0;
         totalvertices = vertexCount state0 + BatchedDrawCommand.vertexCount cmd;
         reqIndexCount = getIndexCount (indexMode cmd) (BatchedDrawCommand.vertexCount cmd);
         reqIndexSize = reqIndexCount * 2;
         cf = BatchedDrawCommand.formats cmd;
         newdatasize0 = usedsize env (fst cf) (BatchedDrawCommand.vertexCount cmd);
         newdatasize1 = usedsize env (snd cf) (BatchedDrawCommand.vertexCount cmd);
         buffersize0 = streamBuffersize env (fst cf) totalvertices (fst (vb state0));
         buffersize1 = streamBuffersize env (snd cf) totalvertices (snd (vb state0));
         buffersize2 = indexBuffersize cmd state0;
         g1 = (if flush \<or> resize
               then (let gf = flushBatchedDraws env g
                     in gf\<lparr>batchedDrawState := (batchedDrawState gf)
                            \<lparr>primitiveMode := BatchedDrawCommand.primitiveMode cmd,
                             formats := cf,
                             BatchedDrawState.texture := BatchedDrawCommand.texture cmd,
                             standardShaderType := BatchedDrawCommand.standardShaderType cmd\<rparr>\<rparr>)
               else g);
         state1 = batchedDrawState g1;
         state2 = (if resize
                   then state1\<lparr>vb := (resized buffersize0 (fst (vb state1)),
                                      resized buffersize1 (snd (vb state1))),
                                indexBuffer := resized buffersize2 (indexBuffer state1)\<rparr>
                   else state1);
         state3 = (if indexMode cmd \<noteq> TRIANGLEINDEX_NONE
                   then (let m = (if data (indexBufferMap state2) = None
                                  then map_buffer (indexBuffer state2) else indexBufferMap state2)
                         in state2\<lparr>indexBufferMap := m\<lparr>data := map_option (\<lambda>p. p + reqIndexSize) (data m)\<rparr>,
                                   indexData := indexData state2
                                     @ fillIndices (indexMode cmd) (vertexCount state2)
                                         (BatchedDrawCommand.vertexCount cmd)\<rparr>)
                   else state2);
         (d0, m0) = takeStream newdatasize0 (fst (vb state3)) (fst (vbMap state3));
         (d1, m1) = takeStream newdatasize1 (snd (vb state3)) (snd (vbMap state3));
         state4 = state3\<lparr>vbMap := (m0, m1)\<rparr>;
         g2 = (if vertexCount state4 > 0
               then g1\<lparr>drawCallsBatched := drawCallsBatched g1 + 1\<rparr> else g1)
     in (\<lparr>stream = (d0, d1)\<rparr>,
         g2\<lparr>batchedDrawState :=
              state4\<lparr>vertexCount := vertexCount state4 + BatchedDrawCommand.vertexCount cmd,
                     indexCount := indexCount state4 + reqIndexCount\<rparr>\<rparr>))"

section \<open>Temporary textures\<close>

text \<open>
  Modelled from the spec: \<open>newTexture\<close> is a backend function and the constructor of
  \<open>TemporaryTexture\<close> is in Graphics.h, both outside the sources at hand. By the
  specification a temporary texture is "created on first request for a given shape" and
  is "checked out (tag = -1) while in use": the texture created has the format, the pixel
  size and the sample count asked for, is a render target with one mipmap level, and is a
  new object.
\<close>

definition newTexture :: "nat \<Rightarrow> PixelFormat \<Rightarrow> int \<Rightarrow> int \<Rightarrow> int \<Rightarrow> Texture" where
  "newTexture ident format w h samples =
     \<lparr>texId = ident, getPixelFormat = format, isRenderTarget = True, getMipmapCount = 1,
      isValidSlice = (\<lambda>sl mip. sl = 0 \<and> mip = 0),
      getPixelWidth = (\<lambda>mip. w), getPixelHeight = (\<lambda>mip. h),
      getWidth = (\<lambda>mip. w), getHeight = (\<lambda>mip. h), getRequestedMSAA = samples\<rparr>"

text \<open>The shape test of \<open>getTemporaryTexture\<close>, on an entry that is not checked out.\<close>

definition reusable :: "PixelFormat \<Rightarrow> int \<Rightarrow> int \<Rightarrow> int \<Rightarrow> TemporaryTexture \<Rightarrow> bool" where
  "reusable format w h samples temp =
     (\<not> framesSinceUse temp < 0
      \<and> (let c = TemporaryTexture.texture temp
         in getPixelFormat c = format \<and> getPixelWidth c 0 = w
            \<and> getPixelHeight c 0 = h \<and> getRequestedMSAA c = samples))"

text \<open>The first loop of \<open>getTemporaryTexture\<close>: the first reusable entry is checked out.\<close>

fun findTemporaryTexture ::
  "PixelFormat \<Rightarrow> int \<Rightarrow> int \<Rightarrow> int \<Rightarrow> TemporaryTexture list
   \<Rightarrow> (Texture \<times> TemporaryTexture list) option" where
  "findTemporaryTexture format w h samples [] = None"
| "findTemporaryTexture format w h samples (temp # temps) =
     (if reusable format w h samples temp
      then Some (TemporaryTexture.texture temp, temp\<lparr>framesSinceUse := -1\<rparr> # temps)
      else map_option (\<lambda>(c, temps'). (c, temp # temps'))
             (findTemporaryTexture format w h samples temps))"

definition getTemporaryTexture ::
  "PixelFormat \<Rightarrow> int \<Rightarrow> int \<Rightarrow> int \<Rightarrow> Graphics \<Rightarrow> Texture \<times> Graphics" where
  "getTemporaryTexture format w h samples g =
     (case findTemporaryTexture format w h samples (temporaryTextures g) of
        Some (c, temps) \<Rightarrow> (c, g\<lparr>temporaryTextures := temps\<rparr>)
      | None \<Rightarrow>
          (let t = newTexture (nextTexture g) format w h samples
           in (t, (backendCall (NewTexture t) g)
                    \<lparr>nextTexture := Suc (nextTexture g),
                     temporaryTextures := temporaryTextures g
                        @ [\<lparr>TemporaryTexture.texture = t, framesSinceUse = -1\<rparr>]\<rparr>)))"

fun checkIn :: "Texture \<Rightarrow> TemporaryTexture list \<Rightarrow> TemporaryTexture list" where
  "checkIn t [] = []"
| "checkIn t (temp # temps) =
     (if TemporaryTexture.texture temp = t then temp\<lparr>framesSinceUse := 0\<rparr> # temps
      else temp # checkIn t temps)"

definition releaseTemporaryTexture :: "Texture \<Rightarrow> Graphics \<Rightarrow> Graphics" where
  "releaseTemporaryTexture t g = g\<lparr>temporaryTextures := checkIn t (temporaryTextures g)\<rparr>"

text \<open>
  The texture loop of \<open>updateTemporaryResources\<close>: the index runs from the last entry
  down to 0; an entry that has been unused long enough is released and overwritten by
  the last entry of the vector, which is then popped. The first argument is the number
  of indices still to visit, the pair is the vector and the textures released so far.
\<close>

fun updateTemporaryTextures ::
  "int \<Rightarrow> nat \<Rightarrow> TemporaryTexture list \<times> Texture list \<Rightarrow> TemporaryTexture list \<times> Texture list" where
  "updateTemporaryTextures maxUnused 0 (temps, released) = (temps, released)"
| "updateTemporaryTextures maxUnused (Suc i) (temps, released) =
     (let t = temps ! i in
      if framesSinceUse t \<ge> maxUnused
      then updateTemporaryTextures maxUnused i
             (butlast (temps[i := last temps]), released @ [TemporaryTexture.texture t])
      else if framesSinceUse t \<ge> 0
      then updateTemporaryTextures maxUnused i
             (temps[i := t\<lparr>framesSinceUse := framesSinceUse t + 1\<rparr>], released)
      else updateTemporaryTextures maxUnused i (temps, released))"

text \<open>
  \<open>Graphics::updateTemporaryResources\<close>, its loop over the textures. (The loop over the
  temporary buffers is the same code on another vector.)
\<close>

definition updateTemporaryResources :: "Env \<Rightarrow> Graphics \<Rightarrow> Graphics" where
  "updateTemporaryResources env g =
     (let (temps, released) =
            updateTemporaryTextures (MAX_TEMPORARY_RESOURCE_UNUSED_FRAMES env)
              (length (temporaryTextures g)) (temporaryTextures g, [])
      in g\<lparr>temporaryTextures := temps, backend := backend g @ map ReleaseTexture released\<rparr>)"

section \<open>Projection\<close>

definition isRenderTargetActive :: "Graphics \<Rightarrow> bool" where
  "isRenderTargetActive g =
     (let rts = renderTargets (last (states g))
      in colors rts \<noteq> [] \<or> RenderTarget.texture (depthStencil rts) \<noteq> None)"

definition updateDeviceProjection :: "Env \<Rightarrow> Matrix4 \<Rightarrow> Graphics \<Rightarrow> Graphics" where
  "updateDeviceProjection env projection g =
     g\<lparr>deviceProjectionMatrix := computeDeviceProjection env projection (isRenderTargetActive g)\<rparr>"

definition setCustomProjection :: "Env \<Rightarrow> Matrix4 \<Rightarrow> Graphics \<Rightarrow> Graphics" where
  "setCustomProjection env m g =
     updateDeviceProjection env m
       (modifyBack (\<lambda>s. s\<lparr>useCustomProjection := True, customProjection := m\<rparr>)
          (flushBatchedDraws env g))"

definition resetProjection :: "Env \<Rightarrow> Graphics \<Rightarrow> Graphics" where
  "resetProjection env g =
     (let g1 = flushBatchedDraws env g;
          rt = getFirstTarget (renderTargets (last (states g1)));
          (w, h) = (case RenderTarget.texture rt of
                      Some t \<Rightarrow> (getWidth t (mipmap rt), getHeight t (mipmap rt))
                    | None \<Rightarrow> (width g1, height g1));
          g2 = modifyBack (\<lambda>s. s\<lparr>useCustomProjection := False\<rparr>) g1
      in updateDeviceProjection env
           (Matrix4_ortho env 0 (real_of_int w) 0 (real_of_int h) (-10) 10) g2)"

section \<open>Render targets\<close>

text \<open>
  The comparison of the requested targets with the bound ones in \<open>setRenderTargets\<close>,
  run when both have the same number of colour attachments. Two render targets differ
  when their texture, slice or mipmap level differ.
\<close>

definition anyColorDiffers :: "RenderTarget list \<Rightarrow> RenderTarget list \<Rightarrow> bool" where
  "anyColorDiffers xs ys = list_ex (\<lambda>(x, y). x \<noteq> y) (zip xs ys)"

definition modified :: "RenderTargets \<Rightarrow> RenderTargets \<Rightarrow> bool" where
  "modified rts prevRTs =
     (let m0 = anyColorDiffers (colors rts) (colors prevRTs);
          m1 = (if \<not> m0 \<and> depthStencil rts \<noteq> depthStencil prevRTs then True else m0)
      in if temporaryRTFlags rts \<noteq> temporaryRTFlags prevRTs then True else m1)"

text \<open>\<open>Graphics::setRenderTarget()\<close>: back to the screen.\<close>

definition setRenderTarget :: "Env \<Rightarrow> Graphics \<Rightarrow> Graphics" where
  "setRenderTarget env g =
     (let rts = renderTargets (last (states g)) in
      if colors rts = [] \<and> RenderTarget.texture (depthStencil rts) = None then g
      else
        let g1 = flushBatchedDraws env g;
            g2 = backendCall (SetRenderTargetsInternal RenderTargets_default
                                (pixelWidth g1) (pixelHeight g1) (isGammaCorrect env)) g1;
            g3 = modifyBack (\<lambda>s. s\<lparr>renderTargets := RenderTargets_default\<rparr>) g2;
            g4 = g3\<lparr>renderTargetSwitchCount := renderTargetSwitchCount g3 + 1\<rparr>
        in resetProjection env g4)"

text \<open>The checks on the first target, in the order of the source.\<close>

definition checkFirstTarget :: "Env \<Rightarrow> RenderTargets \<Rightarrow> Texture \<Rightarrow> Error option" where
  "checkFirstTarget env rts firsttex =
     (let firsttarget = getFirstTarget rts;
          firstcolorformat = (if colors rts \<noteq> [] then getPixelFormat firsttex
                              else PIXELFORMAT_UNKNOWN)
      in if int (length (colors rts)) > LIMIT_RENDER_TARGETS env
         then Some (Exception ''This system can't simultaneously render to %d textures.'')
         else if \<not> isRenderTarget firsttex
         then Some (Exception ''Texture must be created as a render target to be used in setRenderTargets.'')
         else if isPixelFormatDepthStencil (pixelFormatFns env) firstcolorformat
         then Some (Exception ''Depth/stencil format textures must be used with the 'depthstencil' field of the table passed into setRenderTargets.'')
         else if mipmap firsttarget < 0 \<or> mipmap firsttarget \<ge> getMipmapCount firsttex
         then Some (Exception ''Invalid mipmap level %d.'')
         else if \<not> isValidSlice firsttex (slice firsttarget) (mipmap firsttarget)
         then Some (Exception ''Invalid slice index: %d.'')
         else None)"

text \<open>
  The body of the loop over the colour attachments after the first. A null texture
  pointer there is dereferenced by the C++.
\<close>

definition checkColorTarget ::
  "Env \<Rightarrow> PixelFormat \<Rightarrow> int \<Rightarrow> int \<Rightarrow> int \<Rightarrow> RenderTarget \<Rightarrow> Error option" where
  "checkColorTarget env firstcolorformat pixelw pixelh reqmsaa rt =
     (case RenderTarget.texture rt of
        None \<Rightarrow> Some NullPointer
      | Some c \<Rightarrow>
          (let format = getPixelFormat c; mip = mipmap rt; sl = slice rt
           in if \<not> isRenderTarget c
              then Some (Exception ''Texture must be created as a render target to be used in setRenderTargets.'')
              else if mip < 0 \<or> mip \<ge> getMipmapCount c
              then Some (Exception ''Invalid mipmap level %d.'')
              else if \<not> isValidSlice c sl mip
              then Some (Exception ''Invalid slice index: %d.'')
              else if getPixelWidth c mip \<noteq> pixelw \<or> getPixelHeight c mip \<noteq> pixelh
              then Some (Exception ''All textures must have the same pixel dimensions.'')
              else if \<not> FEATURE_MULTI_RENDER_TARGET_FORMATS env \<and> format \<noteq> firstcolorformat
              then Some (Exception ''This system doesn't support multi-render-target rendering with different texture formats.'')
              else if getRequestedMSAA c \<noteq> reqmsaa
              then Some (Exception ''All textures must have the same MSAA value.'')
              else if isPixelFormatDepthStencil (pixelFormatFns env) format
              then Some (Exception ''Depth/stencil format textures must be used with the 'depthstencil' field of the table passed into setRenderTargets.'')
              else None))"

fun firstError :: "('a \<Rightarrow> Error option) \<Rightarrow> 'a list \<Rightarrow> Error option" where
  "firstError check [] = None"
| "firstError check (x # xs) = (case check x of Some e \<Rightarrow> Some e | None \<Rightarrow> firstError check xs)"

definition checkDepthStencil :: "Env \<Rightarrow> int \<Rightarrow> int \<Rightarrow> int \<Rightarrow> RenderTarget \<Rightarrow> Error option" where
  "checkDepthStencil env pixelw pixelh reqmsaa rt =
     (case RenderTarget.texture rt of
        None \<Rightarrow> None
      | Some c \<Rightarrow>
          (let mip = mipmap rt; sl = slice rt
           in if \<not> isRenderTarget c
              then Some (Exception ''Texture must be created as a render target to be used in setRenderTargets.'')
              else if \<not> isPixelFormatDepthStencil (pixelFormatFns env) (getPixelFormat c)
              then Some (Exception ''Only depth/stencil format textures can be used with the 'depthstencil' field of the table passed into setRenderTargets.'')
              else if getPixelWidth c mip \<noteq> pixelw \<or> getPixelHeight c mip \<noteq> pixelh
              then Some (Exception ''All Textures must have the same pixel dimensions.'')
              else if getRequestedMSAA c \<noteq> reqmsaa
              then Some (Exception ''All Textures must have the same MSAA value.'')
              else if mip < 0 \<or> mip \<ge> getMipmapCount c
              then Some (Exception ''Invalid mipmap level %d.'')
              else if \<not> isValidSlice c sl mip
              then Some (Exception ''Invalid slice index: %d.'')
              else None))"

text \<open>All the checks of \<open>setRenderTargets\<close>: the first exception thrown, if any.\<close>

definition validateRenderTargets :: "Env \<Rightarrow> RenderTargets \<Rightarrow> Texture \<Rightarrow> Error option" where
  "validateRenderTargets env rts firsttex =
     (let firsttarget = getFirstTarget rts;
          firstcolorformat = (if colors rts \<noteq> [] then getPixelFormat firsttex
                              else PIXELFORMAT_UNKNOWN);
          pixelw = getPixelWidth firsttex (mipmap firsttarget);
          pixelh = getPixelHeight firsttex (mipmap firsttarget);
          reqmsaa = getRequestedMSAA firsttex
      in case checkFirstTarget env rts firsttex of
           Some e \<Rightarrow> Some e
         | None \<Rightarrow>
            (case firstError (checkColorTarget env firstcolorformat pixelw pixelh reqmsaa)
                    (tl (colors rts)) of
               Some e \<Rightarrow> Some e
             | None \<Rightarrow> checkDepthStencil env pixelw pixelh reqmsaa (depthStencil rts)))"

definition hasSRGBtexture :: "Env \<Rightarrow> RenderTargets \<Rightarrow> Texture \<Rightarrow> bool" where
  "hasSRGBtexture env rts firsttex =
     (isPixelFormatSRGB (pixelFormatFns env)
        (if colors rts \<noteq> [] then getPixelFormat firsttex else PIXELFORMAT_UNKNOWN)
      \<or> list_ex (\<lambda>rt. case RenderTarget.texture rt of
                        None \<Rightarrow> False
                      | Some c \<Rightarrow> isPixelFormatSRGB (pixelFormatFns env) (getPixelFormat c))
           (tl (colors rts)))"

text \<open>The format of the temporary depth/stencil buffer.\<close>

definition temporaryFormat :: "Env \<Rightarrow> 32 word \<Rightarrow> PixelFormat" where
  "temporaryFormat env flags =
     (let wantsdepth = (flags AND TEMPORARY_RT_DEPTH env \<noteq> 0);
          wantsstencil = (flags AND TEMPORARY_RT_STENCIL env \<noteq> 0)
      in if wantsdepth \<and> wantsstencil then PIXELFORMAT_DEPTH24_UNORM_STENCIL8
         else if wantsdepth \<and> isPixelFormatSupported env PIXELFORMAT_DEPTH24_UNORM
         then PIXELFORMAT_DEPTH24_UNORM
         else if wantsdepth then PIXELFORMAT_DEPTH16_UNORM
         else PIXELFORMAT_STENCIL8)"

text \<open>
  The strong references \<open>refs\<close> that \<open>setRenderTargets\<close> stores in the display state.
  The depth-stencil reference is constructed from the texture and the slice only; the
  constructor is given no mipmap level, which leaves it 0.
\<close>

definition storedTargets :: "RenderTargets \<Rightarrow> RenderTargets" where
  "storedTargets rts =
     \<lparr>colors = colors rts,
      depthStencil = \<lparr>RenderTarget.texture = RenderTarget.texture (depthStencil rts),
                      slice = slice (depthStencil rts), mipmap = 0\<rparr>,
      temporaryRTFlags = temporaryRTFlags rts\<rparr>"

text \<open>The targets handed to the backend: with the temporary depth/stencil texture, if one is wanted.\<close>

definition wantsTemporary :: "RenderTargets \<Rightarrow> bool" where
  "wantsTemporary rts =
     (RenderTarget.texture (depthStencil rts) = None \<and> temporaryRTFlags rts \<noteq> 0)"

text \<open>
  The call of \<open>setRenderTargetsInternal\<close>: with a temporary depth/stencil texture,
  taken from the pool and released at once, when one is wanted and none is given.
\<close>

definition attachTargets :: "Env \<Rightarrow> RenderTargets \<Rightarrow> Texture \<Rightarrow> Graphics \<Rightarrow> Graphics" where
  "attachTargets env rts firsttex g1 =
     (let firsttarget = getFirstTarget rts;
          pixelw = getPixelWidth firsttex (mipmap firsttarget);
          pixelh = getPixelHeight firsttex (mipmap firsttarget);
          reqmsaa = getRequestedMSAA firsttex;
          srgb = hasSRGBtexture env rts firsttex
      in if wantsTemporary rts
         then (let dsformat = temporaryFormat env (temporaryRTFlags rts);
                   (t, ga) = getTemporaryTexture dsformat pixelw pixelh reqmsaa g1;
                   realRTs = rts\<lparr>depthStencil :=
                               (depthStencil rts)\<lparr>RenderTarget.texture := Some t, slice := 0\<rparr>\<rparr>;
                   gb = releaseTemporaryTexture t ga
               in backendCall (SetRenderTargetsInternal realRTs pixelw pixelh srgb) gb)
         else backendCall (SetRenderTargetsInternal rts pixelw pixelh srgb) g1)"

text \<open>What \<open>setRenderTargets\<close> does once the checks have passed.\<close>

definition bindRenderTargets :: "Env \<Rightarrow> RenderTargets \<Rightarrow> Texture \<Rightarrow> Graphics \<Rightarrow> Graphics" where
  "bindRenderTargets env rts firsttex g =
     (let g1 = flushBatchedDraws env g;
          g2 = attachTargets env rts firsttex g1;
          g3 = modifyBack (\<lambda>s. s\<lparr>renderTargets := storedTargets rts\<rparr>) g2;
          g4 = g3\<lparr>renderTargetSwitchCount := renderTargetSwitchCount g3 + 1\<rparr>;
          g5 = resetProjection env g4
      in if wantsTemporary rts then backendCall (Clear (Some 0) (Some 1)) g5 else g5)"

text \<open>\<open>Graphics::setRenderTargets(const RenderTargets &)\<close>.\<close>

definition setRenderTargets :: "Env \<Rightarrow> RenderTargets \<Rightarrow> Graphics \<Rightarrow> outcome" where
  "setRenderTargets env rts g =
     (case RenderTarget.texture (getFirstTarget rts) of
        None \<Rightarrow> (None, setRenderTarget env g)
      | Some firsttex \<Rightarrow>
          (let prevRTs = renderTargets (last (states g)) in
           if length (colors rts) = length (colors prevRTs) \<and> \<not> modified rts prevRTs
           then (None, g)
           else (case validateRenderTargets env rts firsttex of
                   Some e \<Rightarrow> (Some e, g)
                 | None \<Rightarrow> (None, bindRenderTargets env rts firsttex g))))"

section \<open>Pushing and popping the graphics state\<close>

text \<open>The comparison of the render targets in \<open>restoreStateChecked\<close>.\<close>

definition rtschanged :: "RenderTargets \<Rightarrow> RenderTargets \<Rightarrow> bool" where
  "rtschanged sRTs curRTs =
     (if length (colors sRTs) \<noteq> length (colors curRTs) then True
      else modified sRTs curRTs)"

text \<open>
  \<open>Graphics::restoreStateChecked\<close>, statement by statement. \<open>cur\<close> is a reference
  to the top of the state stack, so each comparison reads the top as the setters before it
  have left it: \<open>whenTop differs setter\<close> is \<open>if (differs(cur)) setter(...)\<close>, and
  \<open>inOrder\<close> runs a list of statements one after the other. The call of
  \<open>setRenderTargets\<close> can throw, which ends the function.
\<close>

definition whenTop :: "(DisplayState \<Rightarrow> bool) \<Rightarrow> (Graphics \<Rightarrow> Graphics) \<Rightarrow> Graphics \<Rightarrow> Graphics" where
  "whenTop differs setter g = (if differs (last (states g)) then setter g else g)"

definition inOrder :: "(Graphics \<Rightarrow> Graphics) list \<Rightarrow> Graphics \<Rightarrow> Graphics" where
  "inOrder statements g = foldl (\<lambda>g' statement. statement g') g statements"

definition restoreBeforeTargets :: "DisplayState \<Rightarrow> Graphics \<Rightarrow> Graphics" where
  "restoreBeforeTargets s =
     inOrder
       [whenTop (\<lambda>cur. color s \<noteq> color cur) (setColor (color s)),
        setBackgroundColor (backgroundColor s),
        whenTop (\<lambda>cur. \<not> (blend s = blend cur)) (setBlendState (blend s)),
        setLineWidth (lineWidth s),
        setLineStyle (lineStyle s),
        setLineJoin (lineJoin s),
        whenTop (\<lambda>cur. pointSize s \<noteq> pointSize cur) (setPointSize (pointSize s)),
        whenTop (\<lambda>cur. scissor s \<noteq> scissor cur
                        \<or> (scissor s \<and> \<not> (scissorRect s = scissorRect cur)))
          (if scissor s then setScissor (Some (scissorRect s)) else setScissor None),
        setMeshCullMode (meshCullMode s),
        whenTop (\<lambda>cur. winding s \<noteq> winding cur) (setFrontFaceWinding (winding s)),
        setFont (font s),
        setShader (shader s)]"

definition restoreAfterTargets :: "Env \<Rightarrow> DisplayState \<Rightarrow> Graphics \<Rightarrow> Graphics" where
  "restoreAfterTargets env s =
     inOrder
       [whenTop (\<lambda>cur. \<not> (stencil s = stencil cur)) (setStencilMode (stencil s)),
        whenTop (\<lambda>cur. depthTest s \<noteq> depthTest cur \<or> depthWrite s \<noteq> depthWrite cur)
          (setDepthMode (depthTest s) (depthWrite s)),
        whenTop (\<lambda>cur. colorMask s \<noteq> colorMask cur) (setColorMask (colorMask s)),
        whenTop (\<lambda>cur. wireframe s \<noteq> wireframe cur) (setWireframe (wireframe s)),
        setDefaultSamplerState (defaultSamplerState s),
        (if useCustomProjection s then setCustomProjection env (customProjection s)
         else whenTop useCustomProjection (resetProjection env))]"

definition restoreStateChecked :: "Env \<Rightarrow> DisplayState \<Rightarrow> Graphics \<Rightarrow> outcome" where
  "restoreStateChecked env s g =
     (let g9 = restoreBeforeTargets s g
      in andThen (if rtschanged (renderTargets s) (renderTargets (last (states g9)))
                  then setRenderTargets env (renderTargets s) g9 else (None, g9))
           (\<lambda>g10. (None, restoreAfterTargets env s g10)))"

definition getStackDepth :: "Graphics \<Rightarrow> nat" where
  "getStackDepth g = length (stackTypeStack g)"

definition push :: "Env \<Rightarrow> StackType \<Rightarrow> Graphics \<Rightarrow> outcome" where
  "push env stype g =
     (if length (stackTypeStack g) = MAX_USER_STACK_DEPTH env
      then (Some (Exception ''Maximum stack depth reached (more pushes than pops?)''), g)
      else
        let g1 = pushTransform g;
            g2 = g1\<lparr>pixelScaleStack := pixelScaleStack g1 @ [last (pixelScaleStack g1)]\<rparr>;
            g3 = (if stype = STACK_ALL then g2\<lparr>states := states g2 @ [last (states g2)]\<rparr> else g2)
        in (None, g3\<lparr>stackTypeStack := stackTypeStack g3 @ [stype]\<rparr>))"

text \<open>
  \<open>Graphics::pop\<close>. \<open>states[states.size() - 2]\<close> is the state below the top; the
  vector has at least two entries whenever the top marker is \<open>STACK_ALL\<close>.
\<close>

definition pop :: "Env \<Rightarrow> Graphics \<Rightarrow> outcome" where
  "pop env g =
     (if length (stackTypeStack g) < 1
      then (Some (Exception ''Minimum stack depth reached (more pops than pushes?)''), g)
      else
        let g1 = popTransform g;
            g2 = g1\<lparr>pixelScaleStack := butlast (pixelScaleStack g1)\<rparr>
        in if last (stackTypeStack g2) = STACK_ALL
           then andThen (restoreStateChecked env (states g2 ! (length (states g2) - 2)) g2)
                  (\<lambda>g3. (None, g3\<lparr>states := butlast (states g3),
                                   stackTypeStack := butlast (stackTypeStack g3)\<rparr>))
           else (None, g2\<lparr>stackTypeStack := butlast (stackTypeStack g2)\<rparr>))"

section \<open>Draw calls and the pending batch\<close>

text \<open>The draw calls among the backend calls, in the order of issue.\<close>

fun isDraw :: "BackendCall \<Rightarrow> bool" where
  "isDraw (Draw p n t fs) = True"
| "isDraw (DrawIndexed p n t fs ixs) = True"
| "isDraw c = False"

definition drawCallsIssued :: "Graphics \<Rightarrow> BackendCall list" where
  "drawCallsIssued g = filter isDraw (backend g)"

text \<open>The one draw call that covers a batch: indexed when the batch has indices.\<close>

definition batchDraw :: "BatchedDrawState \<Rightarrow> BackendCall" where
  "batchDraw sb =
     (if indexCount sb > 0
      then DrawIndexed (primitiveMode sb) (indexCount sb) (BatchedDrawState.texture sb)
             (formats sb) (indexData sb)
      else Draw (primitiveMode sb) (vertexCount sb) (BatchedDrawState.texture sb) (formats sb))"

text \<open>The accumulator is empty: the first test of \<open>flushBatchedDraws\<close>.\<close>

definition batchEmpty :: "Graphics \<Rightarrow> bool" where
  "batchEmpty g =
     (vertexCount (batchedDrawState g) = 0 \<and> indexCount (batchedDrawState g) = 0)"

text \<open>The formats of the batch enable at least one vertex attribute: the second test.\<close>

definition batchHasAttributes :: "Env \<Rightarrow> Graphics \<Rightarrow> bool" where
  "batchHasAttributes env g = (enableBits env (formats (batchedDrawState g)) \<noteq> 0)"

section \<open>A concrete configuration and concrete states\<close>

text \<open>
  A configuration and states on which the theorems below are instantiated. The strides
  and attribute bits are those of a two-float position and a four-byte colour.
\<close>

definition testPixelFormatFns :: PixelFormatFns where
  "testPixelFormatFns =
     \<lparr>getSRGBPixelFormat = (\<lambda>f. f),
      isPixelFormatCompressed = (\<lambda>f. False),
      isPixelFormatSRGB = (\<lambda>f. False),
      isPixelFormatDepthStencil =
        (\<lambda>f. f = PIXELFORMAT_STENCIL8 \<or> f = PIXELFORMAT_DEPTH16_UNORM
             \<or> f = PIXELFORMAT_DEPTH24_UNORM \<or> f = PIXELFORMAT_DEPTH24_UNORM_STENCIL8)\<rparr>"

definition testEnv :: Env where
  "testEnv =
     \<lparr>MAX_USER_STACK_DEPTH = 128,
      MAX_TEMPORARY_RESOURCE_UNUSED_FRAMES = 16,
      LIMIT_RENDER_TARGETS = 4,
      FEATURE_MULTI_RENDER_TARGET_FORMATS = False,
      TEMPORARY_RT_DEPTH = 1,
      TEMPORARY_RT_STENCIL = 2,
      pixelFormatFns = testPixelFormatFns,
      isPixelFormatSupported = (\<lambda>f. True),
      isGammaCorrect = False,
      getFormatStride = (\<lambda>f. case f of NONE \<Rightarrow> 0 | RGBAub \<Rightarrow> 4 | XYf \<Rightarrow> 8 | XYZf \<Rightarrow> 12
                                | CommonFormat n \<Rightarrow> 16),
      attributeBits = (\<lambda>f. case f of NONE \<Rightarrow> 0 | RGBAub \<Rightarrow> 4 | XYf \<Rightarrow> 1 | XYZf \<Rightarrow> 1
                              | CommonFormat n \<Rightarrow> 7),
      ATTRIBFLAG_COLOR = 4,
      Matrix4_ortho = (\<lambda>l r b t n f. Matrix4 [l, r, b, t, n, f]),
      computeDeviceProjection = (\<lambda>m rt. m)\<rparr>"

definition testDisplayState :: DisplayState where
  "testDisplayState =
     \<lparr>color = Colorf 1 1 1 1, backgroundColor = Colorf 0 0 0 1, blend = 0, lineWidth = 1,
      lineStyle = LINE_SMOOTH, lineJoin = LINE_JOIN_MITER, pointSize = 1, scissor = False,
      scissorRect = Rect 0 0 0 0, meshCullMode = 0, winding = 0, font = None, shader = None,
      renderTargets = RenderTargets_default,
      stencil = \<lparr>action = 0, compare = 0, value = 0, readMask = -1, writeMask = -1\<rparr>,
      depthTest = 0, depthWrite = False, colorMask = 15, wireframe = False,
      defaultSamplerState = 0, useCustomProjection = False,
      customProjection = Matrix4_identity\<rparr>"

definition testBatchedDrawState :: BatchedDrawState where
  "testBatchedDrawState =
     \<lparr>vb = (newStreamBuffer 1048576, newStreamBuffer 262144),
      indexBuffer = newStreamBuffer 131072,
      primitiveMode = PRIMITIVE_TRIANGLES, formats = (NONE, NONE),
      BatchedDrawState.texture = None, standardShaderType = STANDARD_DEFAULT,
      vertexCount = 0, indexCount = 0,
      vbMap = (MapInfo_default, MapInfo_default), indexBufferMap = MapInfo_default,
      indexData = []\<rparr>"

text \<open>
  The object as the constructor \<open>Graphics::Graphics\<close> leaves it (one identity
  transform, pixel scale 1, one display state, no stack marker), on an 800 by 600 window.
\<close>

definition testGraphics :: Graphics where
  "testGraphics =
     \<lparr>width = 800, height = 600, pixelWidth = 800, pixelHeight = 600,
      states = [testDisplayState], stackTypeStack = [],
      transformStack = [Matrix4_identity], pixelScaleStack = [1],
      batchedDrawState = testBatchedDrawState, temporaryTextures = [],
      deviceProjectionMatrix = Matrix4_identity, renderTargetSwitchCount = 0,
      drawCallsBatched = 0, backend = [], nextTexture = 0\<rparr>"

definition testCommand :: BatchedDrawCommand where
  "testCommand =
     \<lparr>BatchedDrawCommand.primitiveMode = PRIMITIVE_TRIANGLES,
      BatchedDrawCommand.formats = (XYf, RGBAub),
      indexMode = TRIANGLEINDEX_NONE,
      BatchedDrawCommand.vertexCount = 3,
      BatchedDrawCommand.texture = None,
      BatchedDrawCommand.standardShaderType = STANDARD_DEFAULT\<rparr>"

text \<open>A batch of three coloured vertices, pending in the accumulator.\<close>

definition testPending :: Graphics where
  "testPending = snd (requestBatchedDraw testEnv testCommand testGraphics)"

text \<open>A batch of five vertices with no vertex format at all.\<close>

definition testNoFormat :: Graphics where
  "testNoFormat =
     testGraphics\<lparr>batchedDrawState := testBatchedDrawState\<lparr>vertexCount := 5\<rparr>\<rparr>"

section \<open>Sequences of batched draw requests\<close>

text \<open>The graphics object after a sequence of \<open>requestBatchedDraw\<close> calls.\<close>

definition requestAll :: "Env \<Rightarrow> BatchedDrawCommand list \<Rightarrow> Graphics \<Rightarrow> Graphics" where
  "requestAll env cmds g = foldl (\<lambda>g' c. snd (requestBatchedDraw env c g')) g cmds"

text \<open>
  Two commands of the same kind: the same primitive topology, vertex formats, texture and
  standard shader role, both with index generation or both without.
\<close>

definition sameKind :: "BatchedDrawCommand \<Rightarrow> BatchedDrawCommand \<Rightarrow> bool" where
  "sameKind c c' =
     (BatchedDrawCommand.primitiveMode c = BatchedDrawCommand.primitiveMode c'
      \<and> BatchedDrawCommand.formats c = BatchedDrawCommand.formats c'
      \<and> BatchedDrawCommand.texture c = BatchedDrawCommand.texture c'
      \<and> BatchedDrawCommand.standardShaderType c = BatchedDrawCommand.standardShaderType c'
      \<and> (indexMode c \<noteq> TRIANGLEINDEX_NONE) = (indexMode c' \<noteq> TRIANGLEINDEX_NONE))"

text \<open>
  A command that puts something into the batch: at least one vertex, formats that enable
  a vertex attribute and, with index generation, at least one index.
\<close>

definition drawsSomething :: "Env \<Rightarrow> BatchedDrawCommand \<Rightarrow> bool" where
  "drawsSomething env c =
     (BatchedDrawCommand.vertexCount c > 0
      \<and> enableBits env (BatchedDrawCommand.formats c) \<noteq> 0
      \<and> (indexMode c \<noteq> TRIANGLEINDEX_NONE
           \<longrightarrow> getIndexCount (indexMode c) (BatchedDrawCommand.vertexCount c) > 0))"

text \<open>
  A command fits: with it the batch stays within the 16-bit index limit, within the
  mapped regions and within the usable size of the buffers.
\<close>

definition fits :: "Env \<Rightarrow> BatchedDrawCommand \<Rightarrow> BatchedDrawState \<Rightarrow> bool" where
  "fits env c state =
     (let totalvertices = vertexCount state + BatchedDrawCommand.vertexCount c in
      \<not> overIndexLimit c state
      \<and> \<not> streamOverMap env (fst (BatchedDrawCommand.formats c)) totalvertices (fst (vbMap state))
      \<and> \<not> streamOverMap env (snd (BatchedDrawCommand.formats c)) totalvertices (snd (vbMap state))
      \<and> \<not> indexOverMap c state
      \<and> \<not> shouldresize env c state)"

text \<open>
  Every command of the sequence that continues the batch accumulated when it arrives
  fits at that moment.
\<close>

fun allFit :: "Env \<Rightarrow> BatchedDrawCommand list \<Rightarrow> Graphics \<Rightarrow> bool" where
  "allFit env [] g = True"
| "allFit env (c # cs) g =
     ((batchDiffers c (batchedDrawState g) \<or> fits env c (batchedDrawState g))
      \<and> allFit env cs (snd (requestBatchedDraw env c g)))"

text \<open>The accumulator holds a non-empty batch of the kind of the command.\<close>

definition batching :: "Env \<Rightarrow> BatchedDrawCommand \<Rightarrow> Graphics \<Rightarrow> bool" where
  "batching env c g =
     (\<not> batchDiffers c (batchedDrawState g) \<and> vertexCount (batchedDrawState g) > 0
      \<and> batchHasAttributes env g)"

text \<open>The vertices of a sequence of commands.\<close>

definition totalVertices :: "BatchedDrawCommand list \<Rightarrow> int" where
  "totalVertices cs = sum_list (map BatchedDrawCommand.vertexCount cs)"

text \<open>Concrete commands: a filled polygon of two vertices, and textured triangles.\<close>

definition testFan2 :: BatchedDrawCommand where
  "testFan2 = testCommand\<lparr>indexMode := TRIANGLEINDEX_FAN, BatchedDrawCommand.vertexCount := 2\<rparr>"

definition testTexture :: Texture where
  "testTexture = newTexture 7 PIXELFORMAT_RGBA8_UNORM 64 64 0"

definition testTextured :: BatchedDrawCommand where
  "testTextured = testCommand\<lparr>BatchedDrawCommand.texture := Some testTexture\<rparr>"

section \<open>Notions for the render-target theorems\<close>











section \<open>Sequences of calls on the state stack\<close>

text \<open>
  A call of \<open>push\<close> or \<open>pop\<close>, and the graphics object after a sequence of such
  calls; a call that throws leaves the object as it is at the throw, and the sequence
  goes on (the caller caught the error).
\<close>

datatype StackCall = Push StackType | Pop

definition stackCall :: "Env \<Rightarrow> StackCall \<Rightarrow> Graphics \<Rightarrow> outcome" where
  "stackCall env c g = (case c of Push stype \<Rightarrow> push env stype g | Pop \<Rightarrow> pop env g)"

definition stackCalls :: "Env \<Rightarrow> StackCall list \<Rightarrow> Graphics \<Rightarrow> Graphics" where
  "stackCalls env cs g = foldl (\<lambda>g' c. snd (stackCall env c g')) g cs"

text \<open>
  The three stacks against the markers: one display state more than there are
  \<open>STACK_ALL\<close> markers, one transform and one pixel scale more than there are markers.
\<close>

definition statesMatchMarkers :: "Graphics \<Rightarrow> bool" where
  "statesMatchMarkers g =
     (length (states g) = Suc (count_list (stackTypeStack g) STACK_ALL))"

definition transformsMatchMarkers :: "Graphics \<Rightarrow> bool" where
  "transformsMatchMarkers g =
     (length (transformStack g) = Suc (length (stackTypeStack g))
      \<and> length (pixelScaleStack g) = Suc (length (stackTypeStack g)))"

text \<open>
  A function on the graphics object that keeps the markers, the transform and pixel-scale
  stacks, and every display state but the top one.
\<close>

definition keepsStacks :: "(Graphics \<Rightarrow> Graphics) \<Rightarrow> bool" where
  "keepsStacks f =
     (\<forall>g. stackTypeStack (f g) = stackTypeStack g
          \<and> transformStack (f g) = transformStack g
          \<and> pixelScaleStack (f g) = pixelScaleStack g
          \<and> (states g \<noteq> [] \<longrightarrow> states (f g) \<noteq> [] \<and> butlast (states (f g)) = butlast (states g)))"

text \<open>The state setters, as calls.\<close>

datatype Setter =
    SetBackgroundColor' Colorf
  | SetLineWidth' real
  | SetLineStyle' LineStyle
  | SetLineJoin' LineJoin
  | SetMeshCullMode' CullMode
  | SetFont' "nat option"
  | SetShader' "nat option"
  | SetDefaultSamplerState' SamplerState
  | SetColor' Colorf
  | SetBlendState' BlendState
  | SetPointSize' real
  | SetScissor' "Rect option"
  | SetFrontFaceWinding' Winding
  | SetStencilMode' StencilState
  | SetDepthMode' CompareMode bool
  | SetColorMask' ColorChannelMask
  | SetWireframe' bool
  | SetRenderTargets' RenderTargets
  | SetCustomProjection' Matrix4
  | ResetProjection'

fun applySetter :: "Env \<Rightarrow> Setter \<Rightarrow> Graphics \<Rightarrow> outcome" where
  "applySetter env (SetBackgroundColor' c) g = (None, setBackgroundColor c g)"
| "applySetter env (SetLineWidth' w) g = (None, setLineWidth w g)"
| "applySetter env (SetLineStyle' x) g = (None, setLineStyle x g)"
| "applySetter env (SetLineJoin' x) g = (None, setLineJoin x g)"
| "applySetter env (SetMeshCullMode' x) g = (None, setMeshCullMode x g)"
| "applySetter env (SetFont' x) g = (None, setFont x g)"
| "applySetter env (SetShader' x) g = (None, setShader x g)"
| "applySetter env (SetDefaultSamplerState' x) g = (None, setDefaultSamplerState x g)"
| "applySetter env (SetColor' c) g = (None, setColor c g)"
| "applySetter env (SetBlendState' x) g = (None, setBlendState x g)"
| "applySetter env (SetPointSize' x) g = (None, setPointSize x g)"
| "applySetter env (SetScissor' x) g = (None, setScissor x g)"
| "applySetter env (SetFrontFaceWinding' x) g = (None, setFrontFaceWinding x g)"
| "applySetter env (SetStencilMode' x) g = (None, setStencilMode x g)"
| "applySetter env (SetDepthMode' c w) g = (None, setDepthMode c w g)"
| "applySetter env (SetColorMask' x) g = (None, setColorMask x g)"
| "applySetter env (SetWireframe' x) g = (None, setWireframe x g)"
| "applySetter env (SetRenderTargets' rts) g = setRenderTargets env rts g"
| "applySetter env (SetCustomProjection' m) g = (None, setCustomProjection env m g)"
| "applySetter env ResetProjection' g = (None, resetProjection env g)"

text \<open>
  The graphics object after a sequence of setter calls, whether or not some of them
  threw.
\<close>

definition applySetters :: "Env \<Rightarrow> Setter list \<Rightarrow> Graphics \<Rightarrow> Graphics" where
  "applySetters env ms g = foldl (\<lambda>g' m. snd (applySetter env m g')) g ms"


text \<open>A configuration with a maximum stack depth of 2, and the test state after a transform-only push.\<close>

definition testEnvShallow :: Env where
  "testEnvShallow = testEnv\<lparr>MAX_USER_STACK_DEPTH := 2\<rparr>"

definition testPushed :: Graphics where
  "testPushed = snd (push testEnv STACK_TRANSFORM testGraphics)"



section \<open>A filled polygon of 70000 vertices\<close>

text \<open>
  The command that \<open>Graphics::polygon\<close> builds in fill mode for a closed loop of
  70001 points under a 2D transform: a fan of 70000 vertices.
\<close>

definition testHugeFan :: BatchedDrawCommand where
  "testHugeFan = testCommand\<lparr>indexMode := TRIANGLEINDEX_FAN,
                              BatchedDrawCommand.vertexCount := 70000\<rparr>"

text \<open>
  The accumulator that \<open>requestBatchedDraw\<close> appends to: the one that
  \<open>flushBatchedDraws\<close> leaves when the command flushes or resizes, the current one
  otherwise.
\<close>

definition appendedTo :: "Env \<Rightarrow> BatchedDrawCommand \<Rightarrow> Graphics \<Rightarrow> BatchedDrawState" where
  "appendedTo env cmd g =
     (if shouldflush env cmd (batchedDrawState g) \<or> shouldresize env cmd (batchedDrawState g)
      then batchedDrawState (flushBatchedDraws env g) else batchedDrawState g)"


section \<open>The pool of temporary textures: shapes and ages\<close>

text \<open>The shape that \<open>getTemporaryTexture\<close> compares: format, pixel size, sample count.\<close>

definition hasShape :: "PixelFormat \<Rightarrow> int \<Rightarrow> int \<Rightarrow> int \<Rightarrow> Texture \<Rightarrow> bool" where
  "hasShape format w h samples c =
     (getPixelFormat c = format \<and> getPixelWidth c 0 = w \<and> getPixelHeight c 0 = h
      \<and> getRequestedMSAA c = samples)"

text \<open>An entry is checked out while its tag is negative.\<close>

definition checkedOut :: "TemporaryTexture \<Rightarrow> bool" where
  "checkedOut temp = (framesSinceUse temp < 0)"

text \<open>The first test of the update loop: the entry has been unused long enough.\<close>

definition expired :: "Env \<Rightarrow> TemporaryTexture \<Rightarrow> bool" where
  "expired env temp = (framesSinceUse temp \<ge> MAX_TEMPORARY_RESOURCE_UNUSED_FRAMES env)"

text \<open>What the update loop does to an entry that it keeps.\<close>

definition aged :: "TemporaryTexture \<Rightarrow> TemporaryTexture" where
  "aged temp = (if framesSinceUse temp \<ge> 0
                then temp\<lparr>framesSinceUse := framesSinceUse temp + 1\<rparr> else temp)"

text \<open>
  A pool of three entries: one idle for as many frames as the threshold, one checked
  out, one just released.
\<close>

definition testPool :: Graphics where
  "testPool = testGraphics
     \<lparr>temporaryTextures :=
        [\<lparr>TemporaryTexture.texture = newTexture 0 PIXELFORMAT_RGBA8_UNORM 64 64 0,
          framesSinceUse = 16\<rparr>,
         \<lparr>TemporaryTexture.texture = newTexture 1 PIXELFORMAT_RGBA8_UNORM 64 64 0,
          framesSinceUse = -1\<rparr>,
         \<lparr>TemporaryTexture.texture = newTexture 2 PIXELFORMAT_RGBA8_UNORM 32 32 0,
          framesSinceUse = 0\<rparr>],
      nextTexture := 3\<rparr>"

section \<open>The format conversion: unhandled and unsupported formats\<close>

text \<open>
  The values of \<open>PixelFormat\<close> that the switch of \<open>convertPixelFormat\<close> has no
  case label for; they reach its \<open>default\<close> label.
\<close>

definition unhandled :: "PixelFormat \<Rightarrow> bool" where
  "unhandled p = (p = PIXELFORMAT_UNKNOWN \<or> p = PIXELFORMAT_NORMAL \<or> p = PIXELFORMAT_HDR
                  \<or> p = PIXELFORMAT_MAX_ENUM)"

text \<open>The two case labels with the body \<open>// Not supported right now. break;\<close>.\<close>

definition notSupported :: "PixelFormat \<Rightarrow> bool" where
  "notSupported p = (p = PIXELFORMAT_BGRA8_UNORM \<or> p = PIXELFORMAT_BGRA8_UNORM_sRGB)"

text \<open>
  The format that \<open>convertPixelFormat\<close> enters its switch with: default-constructed but
  for the two framebuffer attachments.
\<close>

definition initialTextureFormat :: TextureFormat where
  "initialTextureFormat =
     TextureFormat_default\<lparr>framebufferAttachments :=
        [GLenum ''GL_COLOR_ATTACHMENT0'', GLenum ''GL_NONE'']\<rparr>"

text \<open>
  The condition under which \<open>convertPixelFormat\<close> overwrites the internal format of an
  uncompressed format with the external one.
\<close>

definition internalMatchesExternal :: "OpenGL \<Rightarrow> bool \<Rightarrow> bool" where
  "internalMatchesExternal gl renderbuffer =
     (GLAD_ES_VERSION_2_0 gl \<and> \<not> GLAD_ES_VERSION_3_0 gl \<and> \<not> renderbuffer
      \<and> \<not> isTexStorageSupported gl)"

text \<open>A desktop OpenGL 3.0 context without driver bugs.\<close>

definition testGL :: OpenGL where
  "testGL =
     \<lparr>GLAD_VERSION_3_0 = True, GLAD_VERSION_4_2 = False, GLAD_VERSION_4_3 = False,
      GLAD_ES_VERSION_2_0 = False, GLAD_ES_VERSION_3_0 = False,
      GLAD_ARB_ES3_compatibility = False, GLAD_ARB_texture_rg = True,
      GLAD_EXT_texture_rg = False, GLAD_OES_texture_half_float = False,
      GLAD_ARB_framebuffer_object = True, GLAD_EXT_packed_depth_stencil = True,
      GLAD_OES_packed_depth_stencil = False, GLAD_OES_depth24 = False,
      GLAD_ARB_texture_storage = False, brokenR8PixelFormat = False,
      texStorageBreaksSubImage = False, isCoreProfile = True\<rparr>"

section \<open>What the basic operations leave unchanged\<close>

lemmas setter_defs =
  setBackgroundColor_def setLineWidth_def setLineStyle_def setLineJoin_def setMeshCullMode_def
  setFont_def setDefaultSamplerState_def setShader_def setColor_def setBlendState_def
  setPointSize_def setScissor_def setFrontFaceWinding_def setStencilMode_def setDepthMode_def
  setColorMask_def setWireframe_def

lemma modifyBack_fields [simp]:
  "stackTypeStack (modifyBack f g) = stackTypeStack g"
  "transformStack (modifyBack f g) = transformStack g"
  "pixelScaleStack (modifyBack f g) = pixelScaleStack g"
  "batchedDrawState (modifyBack f g) = batchedDrawState g"
  "temporaryTextures (modifyBack f g) = temporaryTextures g"
  "renderTargetSwitchCount (modifyBack f g) = renderTargetSwitchCount g"
  "drawCallsBatched (modifyBack f g) = drawCallsBatched g"
  "backend (modifyBack f g) = backend g"
  "nextTexture (modifyBack f g) = nextTexture g"
  "deviceProjectionMatrix (modifyBack f g) = deviceProjectionMatrix g"
  "width (modifyBack f g) = width g" "height (modifyBack f g) = height g"
  "pixelWidth (modifyBack f g) = pixelWidth g" "pixelHeight (modifyBack f g) = pixelHeight g"
  by (simp_all add: modifyBack_def)

lemma modifyBack_states [simp]:
  "states (modifyBack f g) = butlast (states g) @ [f (last (states g))]"
  by (simp add: modifyBack_def)

lemma modifyBack_modifyBack [simp]:
  "modifyBack f (modifyBack h g) = modifyBack (\<lambda>s. f (h s)) g"
  by (simp add: modifyBack_def)

lemma modifyBack_id:
  "states g \<noteq> [] \<Longrightarrow> (\<And>s. f s = s) \<Longrightarrow> modifyBack f g = g"
  by (simp add: modifyBack_def)

lemma backendCall_fields [simp]:
  "states (backendCall c g) = states g"
  "stackTypeStack (backendCall c g) = stackTypeStack g"
  "transformStack (backendCall c g) = transformStack g"
  "pixelScaleStack (backendCall c g) = pixelScaleStack g"
  "batchedDrawState (backendCall c g) = batchedDrawState g"
  "temporaryTextures (backendCall c g) = temporaryTextures g"
  "renderTargetSwitchCount (backendCall c g) = renderTargetSwitchCount g"
  "drawCallsBatched (backendCall c g) = drawCallsBatched g"
  "backend (backendCall c g) = backend g @ [c]"
  "nextTexture (backendCall c g) = nextTexture g"
  "deviceProjectionMatrix (backendCall c g) = deviceProjectionMatrix g"
  "width (backendCall c g) = width g" "height (backendCall c g) = height g"
  "pixelWidth (backendCall c g) = pixelWidth g" "pixelHeight (backendCall c g) = pixelHeight g"
  by (simp_all add: backendCall_def)

lemma popTransform_fields [simp]:
  "states (popTransform g) = states g"
  "stackTypeStack (popTransform g) = stackTypeStack g"
  "pixelScaleStack (popTransform g) = pixelScaleStack g"
  "transformStack (popTransform g) = butlast (transformStack g)"
  "batchedDrawState (popTransform g) = batchedDrawState g"
  "backend (popTransform g) = backend g"
  by (simp_all add: popTransform_def)

lemma pushTransform_fields [simp]:
  "states (pushTransform g) = states g"
  "stackTypeStack (pushTransform g) = stackTypeStack g"
  "pixelScaleStack (pushTransform g) = pixelScaleStack g"
  "transformStack (pushTransform g) = transformStack g @ [last (transformStack g)]"
  "batchedDrawState (pushTransform g) = batchedDrawState g"
  "backend (pushTransform g) = backend g"
  by (simp_all add: pushTransform_def)

section \<open>Draw calls of a flush\<close>

lemma flushBatchedDraws_empty:
  "batchEmpty g \<Longrightarrow> flushBatchedDraws env g = g"
  by (simp add: flushBatchedDraws_def batchEmpty_def)

lemma flushBatchedDraws_stacks [simp]:
  "stackTypeStack (flushBatchedDraws env g) = stackTypeStack g"
  "transformStack (flushBatchedDraws env g) = transformStack g"
  "pixelScaleStack (flushBatchedDraws env g) = pixelScaleStack g"
  by (simp_all add: flushBatchedDraws_def Let_def setColor_def pushIdentityTransform_def
        popTransform_def)

lemma flushBatchedDraws_other [simp]:
  "temporaryTextures (flushBatchedDraws env g) = temporaryTextures g"
  "renderTargetSwitchCount (flushBatchedDraws env g) = renderTargetSwitchCount g"
  "drawCallsBatched (flushBatchedDraws env g) = drawCallsBatched g"
  "nextTexture (flushBatchedDraws env g) = nextTexture g"
  "deviceProjectionMatrix (flushBatchedDraws env g) = deviceProjectionMatrix g"
  "width (flushBatchedDraws env g) = width g" "height (flushBatchedDraws env g) = height g"
  "pixelWidth (flushBatchedDraws env g) = pixelWidth g"
  "pixelHeight (flushBatchedDraws env g) = pixelHeight g"
  by (simp_all add: flushBatchedDraws_def Let_def setColor_def pushIdentityTransform_def
        popTransform_def)

lemma restore_top:
  "xs \<noteq> [] \<Longrightarrow> butlast xs @ [(last xs)\<lparr>color := color (last xs)\<rparr>] = xs"
  by simp

lemma flushBatchedDraws_states [simp]:
  "states g \<noteq> [] \<Longrightarrow> states (flushBatchedDraws env g) = states g"
  by (simp add: flushBatchedDraws_def Let_def setColor_def getColor_def
        pushIdentityTransform_def popTransform_def)

lemma flushBatchedDraws_states_length [simp]:
  "states g \<noteq> [] \<Longrightarrow> length (states (flushBatchedDraws env g)) = length (states g)"
  by simp

lemma flushBatchedDraws_counts:
  "batchEmpty g \<or> batchHasAttributes env g \<Longrightarrow> batchEmpty (flushBatchedDraws env g)"
  by (auto simp add: flushBatchedDraws_def Let_def setColor_def batchEmpty_def
        batchHasAttributes_def pushIdentityTransform_def popTransform_def)

lemma flushBatchedDraws_kind [simp]:
  "primitiveMode (batchedDrawState (flushBatchedDraws env g)) = primitiveMode (batchedDrawState g)"
  "formats (batchedDrawState (flushBatchedDraws env g)) = formats (batchedDrawState g)"
  "BatchedDrawState.texture (batchedDrawState (flushBatchedDraws env g))
     = BatchedDrawState.texture (batchedDrawState g)"
  "standardShaderType (batchedDrawState (flushBatchedDraws env g))
     = standardShaderType (batchedDrawState g)"
  by (simp_all add: flushBatchedDraws_def Let_def setColor_def pushIdentityTransform_def
        popTransform_def)

lemma flushBatchedDraws_drawCalls:
  "drawCallsIssued (flushBatchedDraws env g) =
     drawCallsIssued g @
       (if \<not> batchEmpty g \<and> batchHasAttributes env g then [batchDraw (batchedDrawState g)] else [])"
  by (simp add: flushBatchedDraws_def Let_def setColor_def batchEmpty_def drawCallsIssued_def
        batchHasAttributes_def pushIdentityTransform_def popTransform_def batchDraw_def)

lemmas test_defs =
  testEnv_def testPixelFormatFns_def testDisplayState_def testBatchedDrawState_def
  testGraphics_def testCommand_def newStreamBuffer_def MapInfo_default_def
  RenderTargets_default_def RenderTarget_default_def

lemmas request_defs =
  requestBatchedDraw_def shouldflush_def shouldresize_def batchDiffers_def overIndexLimit_def
  streamOverMap_def streamBuffersize_def streamDatasize_def indexOverMap_def
  indexBuffersize_def indexDatasize_def usedsize_def takeStream_def resized_def
  map_buffer_def getIndexCount_def LOVE_UINT16_MAX_def flushBatchedDraws_def enableBits_def
  unmapped_def markUsedIf_def markUsed_def setColor_def getColor_def
  pushIdentityTransform_def popTransform_def modifyBack_def backendCall_def

section \<open>A flush is neutral for the draw colour and the transform stack\<close>

text \<open>
  C10, as the code has it. For every graphics state whose pending batch enables at least
  one vertex attribute, or whose accumulator is empty, \<open>flushBatchedDraws\<close> leaves the
  current draw colour and the whole state stack as they were, leaves the transform stack
  with its depth and contents, and leaves the vertex and index counts of the accumulator
  zero; a non-empty batch is issued as exactly one draw call, and on an empty accumulator
  the call issues no draw and changes nothing.
\<close>

theorem flushBatchedDraws_neutral:
  assumes "states g \<noteq> []" and "batchEmpty g \<or> batchHasAttributes env g"
  shows "getColor (flushBatchedDraws env g) = getColor g
       \<and> states (flushBatchedDraws env g) = states g
       \<and> transformStack (flushBatchedDraws env g) = transformStack g
       \<and> vertexCount (batchedDrawState (flushBatchedDraws env g)) = 0
       \<and> indexCount (batchedDrawState (flushBatchedDraws env g)) = 0
       \<and> drawCallsIssued (flushBatchedDraws env g)
           = drawCallsIssued g @ (if batchEmpty g then [] else [batchDraw (batchedDrawState g)])
       \<and> (batchEmpty g \<longrightarrow> flushBatchedDraws env g = g)"
proof -
  have "batchEmpty (flushBatchedDraws env g)"
    using assms(2) by (rule flushBatchedDraws_counts)
  moreover have "drawCallsIssued (flushBatchedDraws env g)
      = drawCallsIssued g @ (if batchEmpty g then [] else [batchDraw (batchedDrawState g)])"
    using assms(2) by (auto simp add: flushBatchedDraws_drawCalls)
  ultimately show ?thesis
    using assms(1) by (simp add: getColor_def batchEmpty_def flushBatchedDraws_empty)
qed

theorem flushBatchedDraws_neutral_witness:
  "states testPending \<noteq> []
   \<and> (batchEmpty testPending \<or> batchHasAttributes testEnv testPending)
   \<and> \<not> batchEmpty testPending
   \<and> getColor (flushBatchedDraws testEnv testPending) = getColor testPending
   \<and> transformStack (flushBatchedDraws testEnv testPending) = transformStack testPending
   \<and> vertexCount (batchedDrawState (flushBatchedDraws testEnv testPending)) = 0
   \<and> drawCallsIssued (flushBatchedDraws testEnv testPending)
        = [Draw PRIMITIVE_TRIANGLES 3 None (XYf, RGBAub)]"
proof -
  have s: "states testPending \<noteq> []"
    by (simp add: testPending_def requestBatchedDraw_def Let_def split_beta test_defs
          flushBatchedDraws_def)
  have v: "vertexCount (batchedDrawState testPending) = 3"
    by (simp add: testPending_def requestBatchedDraw_def Let_def split_beta test_defs
          flushBatchedDraws_def)
  have f: "formats (batchedDrawState testPending) = (XYf, RGBAub)"
    by (simp add: testPending_def requestBatchedDraw_def Let_def split_beta test_defs
          flushBatchedDraws_def shouldflush_def batchDiffers_def)
  have a: "batchHasAttributes testEnv testPending"
    by (simp add: batchHasAttributes_def enableBits_def f) (simp add: testEnv_def)
  have ne: "\<not> batchEmpty testPending"
    by (simp add: batchEmpty_def v)
  have d: "drawCallsIssued testPending = []"
    by (simp add: testPending_def requestBatchedDraw_def Let_def split_beta test_defs
          flushBatchedDraws_def drawCallsIssued_def)
  have b: "batchDraw (batchedDrawState testPending) = Draw PRIMITIVE_TRIANGLES 3 None (XYf, RGBAub)"
    by (simp add: testPending_def requestBatchedDraw_def Let_def split_beta test_defs
          flushBatchedDraws_def shouldflush_def batchDiffers_def batchDraw_def
          getIndexCount_def)
  have h: "batchEmpty testPending \<or> batchHasAttributes testEnv testPending"
    using a by simp
  show ?thesis
    using flushBatchedDraws_neutral [OF s h] s a ne d b by simp
qed

text \<open>
  C10 as stated fails on a batch whose two vertex formats are both \<open>NONE\<close>: the flush
  returns at its test of the enabled attributes and the counts stay.
\<close>

theorem flushBatchedDraws_counts_counterexample:
  "vertexCount (batchedDrawState (flushBatchedDraws testEnv testNoFormat)) = 5
   \<and> drawCallsIssued (flushBatchedDraws testEnv testNoFormat) = []"
  by (simp add: testNoFormat_def flushBatchedDraws_def Let_def test_defs enableBits_def
        drawCallsIssued_def unmapped_def)

section \<open>Coalescing of batched draw requests\<close>

lemma requestBatchedDraw_stacks [simp]:
  "stackTypeStack (snd (requestBatchedDraw env c g)) = stackTypeStack g"
  "transformStack (snd (requestBatchedDraw env c g)) = transformStack g"
  "pixelScaleStack (snd (requestBatchedDraw env c g)) = pixelScaleStack g"
  by (simp_all add: requestBatchedDraw_def Let_def split_beta)

lemma requestBatchedDraw_states [simp]:
  "states g \<noteq> [] \<Longrightarrow> states (snd (requestBatchedDraw env c g)) = states g"
  by (simp add: requestBatchedDraw_def Let_def split_beta)

lemma requestBatchedDraw_drawCalls:
  "drawCallsIssued (snd (requestBatchedDraw env c g)) =
     (if shouldflush env c (batchedDrawState g) \<or> shouldresize env c (batchedDrawState g)
      then drawCallsIssued (flushBatchedDraws env g) else drawCallsIssued g)"
  by (simp add: requestBatchedDraw_def Let_def split_beta drawCallsIssued_def)

lemma requestBatchedDraw_counts:
  "vertexCount (batchedDrawState (snd (requestBatchedDraw env c g))) =
     (if shouldflush env c (batchedDrawState g) \<or> shouldresize env c (batchedDrawState g)
      then vertexCount (batchedDrawState (flushBatchedDraws env g))
      else vertexCount (batchedDrawState g)) + BatchedDrawCommand.vertexCount c"
  "indexCount (batchedDrawState (snd (requestBatchedDraw env c g))) =
     (if shouldflush env c (batchedDrawState g) \<or> shouldresize env c (batchedDrawState g)
      then indexCount (batchedDrawState (flushBatchedDraws env g))
      else indexCount (batchedDrawState g))
     + getIndexCount (indexMode c) (BatchedDrawCommand.vertexCount c)"
  by (simp_all add: requestBatchedDraw_def Let_def split_beta)

lemma requestBatchedDraw_kind:
  "primitiveMode (batchedDrawState (snd (requestBatchedDraw env c g))) =
     (if shouldflush env c (batchedDrawState g) \<or> shouldresize env c (batchedDrawState g)
      then BatchedDrawCommand.primitiveMode c else primitiveMode (batchedDrawState g))"
  "formats (batchedDrawState (snd (requestBatchedDraw env c g))) =
     (if shouldflush env c (batchedDrawState g) \<or> shouldresize env c (batchedDrawState g)
      then BatchedDrawCommand.formats c else formats (batchedDrawState g))"
  "BatchedDrawState.texture (batchedDrawState (snd (requestBatchedDraw env c g))) =
     (if shouldflush env c (batchedDrawState g) \<or> shouldresize env c (batchedDrawState g)
      then BatchedDrawCommand.texture c else BatchedDrawState.texture (batchedDrawState g))"
  "standardShaderType (batchedDrawState (snd (requestBatchedDraw env c g))) =
     (if shouldflush env c (batchedDrawState g) \<or> shouldresize env c (batchedDrawState g)
      then BatchedDrawCommand.standardShaderType c else standardShaderType (batchedDrawState g))"
  by (simp_all add: requestBatchedDraw_def Let_def split_beta)

lemma getIndexCount_NONE [simp]: "getIndexCount TRIANGLEINDEX_NONE n = 0"
  by (simp add: getIndexCount_def)

lemma batchDiffers_sameKind:
  "sameKind c c' \<Longrightarrow> batchDiffers c' state = batchDiffers c state"
  by (auto simp add: sameKind_def batchDiffers_def)

lemma batchHasAttributes_cong:
  "formats (batchedDrawState g') = formats (batchedDrawState g)
   \<Longrightarrow> batchHasAttributes env g' = batchHasAttributes env g"
  by (simp add: batchHasAttributes_def)

text \<open>A command of the kind of the batch that fits is appended: no flush, no draw.\<close>

lemma request_appends:
  assumes b: "batching env c g" and f: "fits env c (batchedDrawState g)"
      and d: "drawsSomething env c"
  shows "drawCallsIssued (snd (requestBatchedDraw env c g)) = drawCallsIssued g"
    and "vertexCount (batchedDrawState (snd (requestBatchedDraw env c g)))
           = vertexCount (batchedDrawState g) + BatchedDrawCommand.vertexCount c"
    and "batching env c (snd (requestBatchedDraw env c g))"
proof -
  have nf: "\<not> shouldflush env c (batchedDrawState g)"
    using b f by (simp add: batching_def fits_def shouldflush_def Let_def)
  have nr: "\<not> shouldresize env c (batchedDrawState g)"
    using f by (simp add: fits_def Let_def)
  show "drawCallsIssued (snd (requestBatchedDraw env c g)) = drawCallsIssued g"
    using nf nr by (simp add: requestBatchedDraw_drawCalls)
  show v: "vertexCount (batchedDrawState (snd (requestBatchedDraw env c g)))
           = vertexCount (batchedDrawState g) + BatchedDrawCommand.vertexCount c"
    using nf nr by (simp add: requestBatchedDraw_counts)
  have i: "indexCount (batchedDrawState (snd (requestBatchedDraw env c g)))
           = indexCount (batchedDrawState g)
             + getIndexCount (indexMode c) (BatchedDrawCommand.vertexCount c)"
    using nf nr by (simp add: requestBatchedDraw_counts)
  have k: "formats (batchedDrawState (snd (requestBatchedDraw env c g)))
             = formats (batchedDrawState g)"
    using nf nr by (simp add: requestBatchedDraw_kind)
  have "\<not> batchDiffers c (batchedDrawState (snd (requestBatchedDraw env c g)))"
    using b d nf nr i
    by (cases "indexMode c = TRIANGLEINDEX_NONE")
       (auto simp add: batching_def batchDiffers_def requestBatchedDraw_kind drawsSomething_def)
  moreover have "vertexCount (batchedDrawState (snd (requestBatchedDraw env c g))) > 0"
    using b d v by (simp add: batching_def drawsSomething_def)
  moreover have "batchHasAttributes env (snd (requestBatchedDraw env c g))"
    using b batchHasAttributes_cong [OF k] by (simp add: batching_def)
  ultimately show "batching env c (snd (requestBatchedDraw env c g))"
    by (simp add: batching_def)
qed

text \<open>
  A command of another kind flushes the batch, which is issued as one draw call, and
  starts a batch of its own.
\<close>

lemma request_switches:
  assumes s: "batchDiffers c (batchedDrawState g)"
      and a: "batchEmpty g \<or> batchHasAttributes env g"
      and d: "drawsSomething env c"
  shows "drawCallsIssued (snd (requestBatchedDraw env c g))
           = drawCallsIssued g @ (if batchEmpty g then [] else [batchDraw (batchedDrawState g)])"
    and "vertexCount (batchedDrawState (snd (requestBatchedDraw env c g)))
           = BatchedDrawCommand.vertexCount c"
    and "batching env c (snd (requestBatchedDraw env c g))"
proof -
  let ?g' = "snd (requestBatchedDraw env c g)"
  have fl: "shouldflush env c (batchedDrawState g)"
    using s by (simp add: shouldflush_def Let_def)
  have e: "batchEmpty (flushBatchedDraws env g)"
    using a by (rule flushBatchedDraws_counts)
  show "drawCallsIssued ?g'
           = drawCallsIssued g @ (if batchEmpty g then [] else [batchDraw (batchedDrawState g)])"
    using fl a by (auto simp add: requestBatchedDraw_drawCalls flushBatchedDraws_drawCalls)
  show v: "vertexCount (batchedDrawState ?g') = BatchedDrawCommand.vertexCount c"
    using fl e by (simp add: requestBatchedDraw_counts batchEmpty_def)
  have i: "indexCount (batchedDrawState ?g')
             = getIndexCount (indexMode c) (BatchedDrawCommand.vertexCount c)"
    using fl e by (simp add: requestBatchedDraw_counts batchEmpty_def)
  have "\<not> batchDiffers c (batchedDrawState ?g')"
    using fl d i
    by (cases "indexMode c = TRIANGLEINDEX_NONE")
       (auto simp add: batchDiffers_def requestBatchedDraw_kind drawsSomething_def)
  moreover have "vertexCount (batchedDrawState ?g') > 0"
    using d v by (simp add: drawsSomething_def)
  moreover have "batchHasAttributes env ?g'"
    using fl d by (simp add: batchHasAttributes_def requestBatchedDraw_kind drawsSomething_def)
  ultimately show "batching env c ?g'"
    by (simp add: batching_def)
qed

lemma batching_sameKind:
  "sameKind c c' \<Longrightarrow> batching env c' g = batching env c g"
  by (simp add: batching_def batchDiffers_sameKind)

lemma batching_not_empty: "batching env c g \<Longrightarrow> \<not> batchEmpty g"
  by (simp add: batching_def batchEmpty_def)

text \<open>A run of commands of the kind of the batch, each fitting when it arrives.\<close>

lemma requestAll_appends:
  assumes "batching env c g"
      and "\<forall>c' \<in> set cs. sameKind c c' \<and> drawsSomething env c'"
      and "allFit env cs g"
  shows "drawCallsIssued (requestAll env cs g) = drawCallsIssued g
       \<and> vertexCount (batchedDrawState (requestAll env cs g))
            = vertexCount (batchedDrawState g) + totalVertices cs
       \<and> batching env c (requestAll env cs g)"
  using assms
proof (induction cs arbitrary: g)
  case Nil
  then show ?case by (simp add: requestAll_def totalVertices_def)
next
  case (Cons c' cs)
  let ?g' = "snd (requestBatchedDraw env c' g)"
  have k: "sameKind c c'" and d: "drawsSomething env c'"
    using Cons.prems(2) by simp_all
  have b: "batching env c' g"
    using Cons.prems(1) k by (simp add: batching_sameKind)
  have f: "fits env c' (batchedDrawState g)"
    using Cons.prems(3) b by (simp add: batching_def)
  have b': "batching env c ?g'"
    using request_appends(3) [OF b f d] k by (simp add: batching_sameKind)
  have rest: "\<forall>x \<in> set cs. sameKind c x \<and> drawsSomething env x" "allFit env cs ?g'"
    using Cons.prems(2,3) by simp_all
  have step: "requestAll env (c' # cs) g = requestAll env cs ?g'"
    by (simp add: requestAll_def)
  show ?case
    using Cons.IH [OF b' rest] request_appends(1,2) [OF b f d]
    by (simp add: step totalVertices_def)
qed

lemma requestAll_append:
  "requestAll env (xs @ ys) g = requestAll env ys (requestAll env xs g)"
  by (simp add: requestAll_def)

lemma requestAll_Cons:
  "requestAll env (c # cs) g = requestAll env cs (snd (requestBatchedDraw env c g))"
  by (simp add: requestAll_def)

text \<open>The first command of a run starts or continues a batch of its kind.\<close>

lemma request_starts:
  assumes a: "batchEmpty g \<or> batchHasAttributes env g"
      and n: "vertexCount (batchedDrawState g) \<ge> 0"
      and d: "drawsSomething env c"
  shows "batching env c (snd (requestBatchedDraw env c g))"
    and "vertexCount (batchedDrawState (snd (requestBatchedDraw env c g)))
           \<ge> BatchedDrawCommand.vertexCount c"
proof -
  let ?g' = "snd (requestBatchedDraw env c g)"
  let ?fr = "shouldflush env c (batchedDrawState g) \<or> shouldresize env c (batchedDrawState g)"
  have e: "batchEmpty (flushBatchedDraws env g)"
    using a by (rule flushBatchedDraws_counts)
  have nd: "\<not> ?fr \<Longrightarrow> \<not> batchDiffers c (batchedDrawState g)"
    by (simp add: shouldflush_def Let_def)
  have v: "vertexCount (batchedDrawState ?g')
             = (if ?fr then 0 else vertexCount (batchedDrawState g))
               + BatchedDrawCommand.vertexCount c"
    using e by (simp add: requestBatchedDraw_counts batchEmpty_def)
  have i: "indexCount (batchedDrawState ?g')
             = (if ?fr then 0 else indexCount (batchedDrawState g))
               + getIndexCount (indexMode c) (BatchedDrawCommand.vertexCount c)"
    using e by (simp add: requestBatchedDraw_counts batchEmpty_def)
  show "vertexCount (batchedDrawState ?g') \<ge> BatchedDrawCommand.vertexCount c"
    using v n by simp
  have "\<not> batchDiffers c (batchedDrawState ?g')"
    using d i nd
    by (cases "indexMode c = TRIANGLEINDEX_NONE"; cases ?fr)
       (auto simp add: batchDiffers_def requestBatchedDraw_kind drawsSomething_def)
  moreover have "vertexCount (batchedDrawState ?g') > 0"
    using d v n by (simp add: drawsSomething_def)
  moreover have "formats (batchedDrawState ?g') = BatchedDrawCommand.formats c"
    using nd by (cases ?fr) (auto simp add: requestBatchedDraw_kind batchDiffers_def prod_eq_iff)
  then have "batchHasAttributes env ?g'"
    using d by (simp add: batchHasAttributes_def drawsSomething_def)
  ultimately show "batching env c ?g'"
    by (simp add: batching_def)
qed

lemma batching_flush:
  assumes "batching env c g"
  shows "drawCallsIssued (flushBatchedDraws env g)
           = drawCallsIssued g @ [batchDraw (batchedDrawState g)]"
  using assms
  by (simp add: flushBatchedDraws_drawCalls batching_def batchEmpty_def)

lemma batchDiffers_texture:
  "batching env c g \<Longrightarrow> BatchedDrawCommand.texture b \<noteq> BatchedDrawCommand.texture c
   \<Longrightarrow> batchDiffers b (batchedDrawState g)"
  by (auto simp add: batching_def batchDiffers_def)

section \<open>C1: batch coalescing\<close>

text \<open>
  C1, as the code has it. Take a graphics state whose pending batch, if any, can be
  flushed, and a sequence of N = 1 + length cs consecutive \<open>requestBatchedDraw\<close> calls
  whose commands have the same primitive topology, vertex formats, index-mode presence,
  texture and standard shader role, each of which puts at least one vertex (and, with
  index generation, at least one index) into the batch, and each of which fits within
  the buffer capacity and the 16-bit index limit when it arrives. Then the calls after
  the first issue no draw call (no intermediate flush), all N commands are in the
  accumulator, and the next flush issues exactly one draw call, the one covering the
  batch. If one call with a different texture is inserted between them, the sequence
  issues exactly two draw calls: the batch before the inserted call and the batch of
  the inserted call.
\<close>

theorem batch_coalescing:
  assumes a: "batchEmpty g \<or> batchHasAttributes env g"
      and n: "vertexCount (batchedDrawState g) \<ge> 0"
      and d: "drawsSomething env c"
      and k: "\<forall>c' \<in> set cs. sameKind c c' \<and> drawsSomething env c'"
      and f: "allFit env cs (snd (requestBatchedDraw env c g))"
  shows "(let g1 = snd (requestBatchedDraw env c g); gN = requestAll env cs g1 in
          drawCallsIssued gN = drawCallsIssued g1
        \<and> vertexCount (batchedDrawState g1) \<ge> BatchedDrawCommand.vertexCount c
        \<and> vertexCount (batchedDrawState gN) = vertexCount (batchedDrawState g1) + totalVertices cs
        \<and> drawCallsIssued (flushBatchedDraws env gN)
            = drawCallsIssued gN @ [batchDraw (batchedDrawState gN)]
        \<and> (\<forall>b c2 cs2.
             BatchedDrawCommand.texture b \<noteq> BatchedDrawCommand.texture c
             \<and> drawsSomething env b
             \<and> (\<forall>c' \<in> set (c2 # cs2). sameKind c c' \<and> drawsSomething env c')
             \<and> allFit env (b # c2 # cs2) gN
             \<longrightarrow> drawCallsIssued (requestAll env (cs @ b # c2 # cs2) g1)
                  = drawCallsIssued g1
                    @ [batchDraw (batchedDrawState gN),
                       batchDraw (batchedDrawState (snd (requestBatchedDraw env b gN)))]))"
proof -
  let ?g1 = "snd (requestBatchedDraw env c g)"
  let ?gN = "requestAll env cs ?g1"
  have b1: "batching env c ?g1"
    using a n d by (rule request_starts(1))
  have v1: "vertexCount (batchedDrawState ?g1) \<ge> BatchedDrawCommand.vertexCount c"
    using a n d by (rule request_starts(2))
  have run: "drawCallsIssued ?gN = drawCallsIssued ?g1
       \<and> vertexCount (batchedDrawState ?gN)
            = vertexCount (batchedDrawState ?g1) + totalVertices cs
       \<and> batching env c ?gN"
    using b1 k f by (rule requestAll_appends)
  then have bN: "batching env c ?gN" by simp
  have fl: "drawCallsIssued (flushBatchedDraws env ?gN)
            = drawCallsIssued ?gN @ [batchDraw (batchedDrawState ?gN)]"
    using bN by (rule batching_flush)
  have two: "drawCallsIssued (requestAll env (cs @ b # c2 # cs2) ?g1)
             = drawCallsIssued ?g1
               @ [batchDraw (batchedDrawState ?gN),
                  batchDraw (batchedDrawState (snd (requestBatchedDraw env b ?gN)))]"
    if t: "BatchedDrawCommand.texture b \<noteq> BatchedDrawCommand.texture c"
      and db: "drawsSomething env b"
      and k2: "\<forall>c' \<in> set (c2 # cs2). sameKind c c' \<and> drawsSomething env c'"
      and f2: "allFit env (b # c2 # cs2) ?gN"
    for b c2 cs2
  proof -
    let ?gB = "snd (requestBatchedDraw env b ?gN)"
    let ?g2 = "snd (requestBatchedDraw env c2 ?gB)"
    have sB: "batchDiffers b (batchedDrawState ?gN)"
      using bN t by (rule batchDiffers_texture)
    have aN: "batchEmpty ?gN \<or> batchHasAttributes env ?gN"
      using bN by (simp add: batching_def)
    have dB: "drawCallsIssued ?gB = drawCallsIssued ?gN @ [batchDraw (batchedDrawState ?gN)]"
      using request_switches(1) [OF sB aN db] batching_not_empty [OF bN] by simp
    have bB: "batching env b ?gB"
      using sB aN db by (rule request_switches(3))
    have k2': "sameKind c c2" and d2: "drawsSomething env c2"
      using k2 by simp_all
    have t2: "BatchedDrawCommand.texture c2 \<noteq> BatchedDrawCommand.texture b"
      using t k2' by (simp add: sameKind_def)
    have s2: "batchDiffers c2 (batchedDrawState ?gB)"
      using bB t2 by (rule batchDiffers_texture)
    have aB: "batchEmpty ?gB \<or> batchHasAttributes env ?gB"
      using bB by (simp add: batching_def)
    have d2': "drawCallsIssued ?g2 = drawCallsIssued ?gB @ [batchDraw (batchedDrawState ?gB)]"
      using request_switches(1) [OF s2 aB d2] batching_not_empty [OF bB] by simp
    have b2: "batching env c ?g2"
      using request_switches(3) [OF s2 aB d2] k2' by (simp add: batching_sameKind)
    have k3: "\<forall>c' \<in> set cs2. sameKind c c' \<and> drawsSomething env c'"
      using k2 by simp
    have f3: "allFit env cs2 ?g2"
      using f2 by simp
    have "drawCallsIssued (requestAll env cs2 ?g2) = drawCallsIssued ?g2"
      using requestAll_appends [OF b2 k3 f3] by simp
    then show ?thesis
      using dB d2' run by (simp add: requestAll_append requestAll_Cons)
  qed
  show ?thesis
    unfolding Let_def using run v1 fl two by blast
qed

theorem batch_coalescing_witness:
  "(batchEmpty testGraphics \<or> batchHasAttributes testEnv testGraphics)
   \<and> vertexCount (batchedDrawState testGraphics) \<ge> 0
   \<and> drawsSomething testEnv testCommand
   \<and> sameKind testCommand testCommand
   \<and> allFit testEnv [testCommand, testCommand]
        (snd (requestBatchedDraw testEnv testCommand testGraphics))
   \<and> drawCallsIssued (requestAll testEnv [testCommand, testCommand, testCommand] testGraphics) = []
   \<and> vertexCount (batchedDrawState
        (requestAll testEnv [testCommand, testCommand, testCommand] testGraphics)) = 9
   \<and> drawCallsIssued (flushBatchedDraws testEnv
        (requestAll testEnv [testCommand, testCommand, testCommand] testGraphics))
      = [Draw PRIMITIVE_TRIANGLES 9 None (XYf, RGBAub)]
   \<and> BatchedDrawCommand.texture testTextured \<noteq> BatchedDrawCommand.texture testCommand
   \<and> drawsSomething testEnv testTextured
   \<and> allFit testEnv [testTextured, testCommand, testCommand]
        (requestAll testEnv [testCommand, testCommand, testCommand] testGraphics)
   \<and> drawCallsIssued
        (requestAll testEnv
           [testCommand, testCommand, testCommand, testTextured, testCommand, testCommand]
           testGraphics)
      = [Draw PRIMITIVE_TRIANGLES 9 None (XYf, RGBAub),
         Draw PRIMITIVE_TRIANGLES 3 (Some testTexture) (XYf, RGBAub)]"
proof -
  let ?g1 = "snd (requestBatchedDraw testEnv testCommand testGraphics)"
  let ?gN = "requestAll testEnv [testCommand, testCommand] ?g1"
  have a: "batchEmpty testGraphics \<or> batchHasAttributes testEnv testGraphics"
    by (simp add: batchEmpty_def test_defs)
  have n: "vertexCount (batchedDrawState testGraphics) \<ge> 0"
    by (simp add: test_defs)
  have d: "drawsSomething testEnv testCommand"
    by (simp add: drawsSomething_def enableBits_def test_defs)
  have k: "\<forall>c' \<in> set [testCommand, testCommand].
             sameKind testCommand c' \<and> drawsSomething testEnv c'"
    using d by (simp add: sameKind_def)
  have f: "allFit testEnv [testCommand, testCommand] ?g1"
    by (simp add: fits_def request_defs Let_def split_beta test_defs)
  have t: "BatchedDrawCommand.texture testTextured \<noteq> BatchedDrawCommand.texture testCommand"
    by (simp add: testTextured_def testCommand_def)
  have db: "drawsSomething testEnv testTextured"
    by (simp add: drawsSomething_def enableBits_def testTextured_def test_defs)
  have k2: "\<forall>c' \<in> set (testCommand # [testCommand]).
              sameKind testCommand c' \<and> drawsSomething testEnv c'"
    using d by (simp add: sameKind_def)
  have f2: "allFit testEnv (testTextured # testCommand # [testCommand]) ?gN"
    by (simp add: fits_def request_defs Let_def split_beta test_defs requestAll_def
          testTextured_def)
  have g1: "drawCallsIssued ?g1 = []" "vertexCount (batchedDrawState ?g1) = 3"
    by (simp_all add: request_defs Let_def split_beta test_defs drawCallsIssued_def)
  have bN: "batchDraw (batchedDrawState ?gN) = Draw PRIMITIVE_TRIANGLES 9 None (XYf, RGBAub)"
    by (simp add: batchDraw_def request_defs Let_def split_beta test_defs requestAll_def)
  have bB: "batchDraw (batchedDrawState (snd (requestBatchedDraw testEnv testTextured ?gN)))
              = Draw PRIMITIVE_TRIANGLES 3 (Some testTexture) (XYf, RGBAub)"
    by (simp add: batchDraw_def request_defs Let_def split_beta test_defs requestAll_def
          testTextured_def)
  have tv: "totalVertices [testCommand, testCommand] = 6"
    by (simp add: totalVertices_def testCommand_def)
  have r: "requestAll testEnv [testCommand, testCommand, testCommand] testGraphics = ?gN"
    by (simp add: requestAll_def)
  have r2: "requestAll testEnv
              [testCommand, testCommand, testCommand, testTextured, testCommand, testCommand]
              testGraphics
            = requestAll testEnv ([testCommand, testCommand] @ testTextured # testCommand # [testCommand]) ?g1"
    by (simp add: requestAll_def)
  show ?thesis
    using batch_coalescing [OF a n d k f] a n d f t db f2 k2 g1 bN bB tv
    unfolding r r2 Let_def by (simp add: sameKind_def)
qed

text \<open>
  C1 as stated fails for commands that generate no index: a filled polygon of two
  vertices has index generation in use and an index count of 0, so the batch it starts
  counts as one without indices and the next identical command flushes it.
\<close>

theorem batch_coalescing_counterexample:
  "sameKind testFan2 testFan2
   \<and> fits testEnv testFan2
        (batchedDrawState (snd (requestBatchedDraw testEnv testFan2 testGraphics)))
   \<and> drawCallsIssued (requestAll testEnv [testFan2] testGraphics) = []
   \<and> drawCallsIssued (requestAll testEnv [testFan2, testFan2] testGraphics)
        = [Draw PRIMITIVE_TRIANGLES 2 None (XYf, RGBAub)]"
  by (simp add: sameKind_def fits_def request_defs Let_def split_beta test_defs requestAll_def
        testFan2_def drawCallsIssued_def fillIndices_def)

section \<open>What the projection and temporary-texture functions leave unchanged\<close>

lemma updateDeviceProjection_fields [simp]:
  "states (updateDeviceProjection env m g) = states g"
  "stackTypeStack (updateDeviceProjection env m g) = stackTypeStack g"
  "transformStack (updateDeviceProjection env m g) = transformStack g"
  "pixelScaleStack (updateDeviceProjection env m g) = pixelScaleStack g"
  "batchedDrawState (updateDeviceProjection env m g) = batchedDrawState g"
  "temporaryTextures (updateDeviceProjection env m g) = temporaryTextures g"
  "renderTargetSwitchCount (updateDeviceProjection env m g) = renderTargetSwitchCount g"
  "backend (updateDeviceProjection env m g) = backend g"
  "nextTexture (updateDeviceProjection env m g) = nextTexture g"
  "deviceProjectionMatrix (updateDeviceProjection env m g)
     = computeDeviceProjection env m (isRenderTargetActive g)"
  by (simp_all add: updateDeviceProjection_def)




lemma resetProjection_fields [simp]:
  "stackTypeStack (resetProjection env g) = stackTypeStack g"
  "transformStack (resetProjection env g) = transformStack g"
  "pixelScaleStack (resetProjection env g) = pixelScaleStack g"
  "temporaryTextures (resetProjection env g) = temporaryTextures g"
  "renderTargetSwitchCount (resetProjection env g) = renderTargetSwitchCount g"
  "nextTexture (resetProjection env g) = nextTexture g"
  "backend (resetProjection env g) = backend (flushBatchedDraws env g)"
  "batchedDrawState (resetProjection env g) = batchedDrawState (flushBatchedDraws env g)"
  by (simp_all add: resetProjection_def Let_def split_beta)

lemma resetProjection_states [simp]:
  "states g \<noteq> [] \<Longrightarrow>
   states (resetProjection env g)
     = butlast (states g) @ [(last (states g))\<lparr>useCustomProjection := False\<rparr>]"
  by (simp add: resetProjection_def Let_def split_beta)

lemma setCustomProjection_fields [simp]:
  "stackTypeStack (setCustomProjection env m g) = stackTypeStack g"
  "transformStack (setCustomProjection env m g) = transformStack g"
  "pixelScaleStack (setCustomProjection env m g) = pixelScaleStack g"
  "temporaryTextures (setCustomProjection env m g) = temporaryTextures g"
  "renderTargetSwitchCount (setCustomProjection env m g) = renderTargetSwitchCount g"
  "nextTexture (setCustomProjection env m g) = nextTexture g"
  "backend (setCustomProjection env m g) = backend (flushBatchedDraws env g)"
  "batchedDrawState (setCustomProjection env m g) = batchedDrawState (flushBatchedDraws env g)"
  by (simp_all add: setCustomProjection_def)

lemma setCustomProjection_states [simp]:
  "states g \<noteq> [] \<Longrightarrow>
   states (setCustomProjection env m g)
     = butlast (states g)
       @ [(last (states g))\<lparr>useCustomProjection := True, customProjection := m\<rparr>]"
  by (simp add: setCustomProjection_def)

lemma getTemporaryTexture_fields [simp]:
  "states (snd (getTemporaryTexture f w h s g)) = states g"
  "stackTypeStack (snd (getTemporaryTexture f w h s g)) = stackTypeStack g"
  "transformStack (snd (getTemporaryTexture f w h s g)) = transformStack g"
  "pixelScaleStack (snd (getTemporaryTexture f w h s g)) = pixelScaleStack g"
  "batchedDrawState (snd (getTemporaryTexture f w h s g)) = batchedDrawState g"
  "renderTargetSwitchCount (snd (getTemporaryTexture f w h s g)) = renderTargetSwitchCount g"
  by (simp_all add: getTemporaryTexture_def Let_def split: option.splits)


lemma releaseTemporaryTexture_fields [simp]:
  "states (releaseTemporaryTexture t g) = states g"
  "stackTypeStack (releaseTemporaryTexture t g) = stackTypeStack g"
  "transformStack (releaseTemporaryTexture t g) = transformStack g"
  "pixelScaleStack (releaseTemporaryTexture t g) = pixelScaleStack g"
  "batchedDrawState (releaseTemporaryTexture t g) = batchedDrawState g"
  "renderTargetSwitchCount (releaseTemporaryTexture t g) = renderTargetSwitchCount g"
  "backend (releaseTemporaryTexture t g) = backend g"
  "nextTexture (releaseTemporaryTexture t g) = nextTexture g"
  by (simp_all add: releaseTemporaryTexture_def)

section \<open>Render-target changes\<close>

lemma storedTargets_first [simp]:
  "RenderTarget.texture (getFirstTarget (storedTargets rts))
     = RenderTarget.texture (getFirstTarget rts)"
  by (simp add: storedTargets_def getFirstTarget_def split: list.splits)

lemma flushBatchedDraws_batch_cong:
  "batchedDrawState g' = batchedDrawState g
   \<Longrightarrow> batchedDrawState (flushBatchedDraws env g') = batchedDrawState (flushBatchedDraws env g)"
  by (simp add: flushBatchedDraws_def Let_def setColor_def pushIdentityTransform_def
        popTransform_def)

lemma attachTargets_fields [simp]:
  "states (attachTargets env rts firsttex g) = states g"
  "stackTypeStack (attachTargets env rts firsttex g) = stackTypeStack g"
  "transformStack (attachTargets env rts firsttex g) = transformStack g"
  "pixelScaleStack (attachTargets env rts firsttex g) = pixelScaleStack g"
  "batchedDrawState (attachTargets env rts firsttex g) = batchedDrawState g"
  "renderTargetSwitchCount (attachTargets env rts firsttex g) = renderTargetSwitchCount g"
  by (simp_all add: attachTargets_def Let_def split_beta)


lemma bindRenderTargets_fields [simp]:
  "stackTypeStack (bindRenderTargets env rts firsttex g) = stackTypeStack g"
  "transformStack (bindRenderTargets env rts firsttex g) = transformStack g"
  "pixelScaleStack (bindRenderTargets env rts firsttex g) = pixelScaleStack g"
  "renderTargetSwitchCount (bindRenderTargets env rts firsttex g) = renderTargetSwitchCount g + 1"
  by (simp_all add: bindRenderTargets_def Let_def)

lemma bindRenderTargets_states:
  "states g \<noteq> [] \<Longrightarrow>
   states (bindRenderTargets env rts firsttex g)
     = butlast (states g)
       @ [(last (states g))\<lparr>renderTargets := storedTargets rts, useCustomProjection := False\<rparr>]"
  by (simp add: bindRenderTargets_def Let_def)







lemma anyColorDiffers_same [simp]: "\<not> anyColorDiffers xs xs"
  by (auto simp add: anyColorDiffers_def list_ex_iff zip_same)







section \<open>C5: rejected and redundant render-target changes\<close>




section \<open>C6: a render-target change flushes the pending batch first\<close>




section \<open>Functions that keep the stacks\<close>

lemma keepsStacksI:
  assumes "\<And>g. stackTypeStack (f g) = stackTypeStack g"
      and "\<And>g. transformStack (f g) = transformStack g"
      and "\<And>g. pixelScaleStack (f g) = pixelScaleStack g"
      and "\<And>g. states g \<noteq> [] \<Longrightarrow> states (f g) \<noteq> [] \<and> butlast (states (f g)) = butlast (states g)"
  shows "keepsStacks f"
  using assms by (simp add: keepsStacks_def)

lemma keepsStacksD:
  assumes "keepsStacks f"
  shows "stackTypeStack (f g) = stackTypeStack g"
    and "transformStack (f g) = transformStack g"
    and "pixelScaleStack (f g) = pixelScaleStack g"
    and "states g \<noteq> [] \<Longrightarrow> states (f g) \<noteq> []"
    and "states g \<noteq> [] \<Longrightarrow> butlast (states (f g)) = butlast (states g)"
    and "states g \<noteq> [] \<Longrightarrow> length (states (f g)) = length (states g)"
proof -
  show "stackTypeStack (f g) = stackTypeStack g" "transformStack (f g) = transformStack g"
    "pixelScaleStack (f g) = pixelScaleStack g"
    using assms by (simp_all add: keepsStacks_def)
  show n: "states (f g) \<noteq> []" and b: "butlast (states (f g)) = butlast (states g)"
    if "states g \<noteq> []"
    using assms that by (simp_all add: keepsStacks_def)
  show "length (states (f g)) = length (states g)" if s: "states g \<noteq> []"
  proof -
    have "length (butlast (states (f g))) = length (butlast (states g))"
      using b [OF s] by simp
    then show ?thesis
      using n [OF s] s by (cases "states (f g)"; cases "states g") (simp_all split: if_splits)
  qed
qed

lemma keepsStacks_id [simp]: "keepsStacks (\<lambda>g. g)"
  by (simp add: keepsStacks_def)

lemma keepsStacks_compose:
  "keepsStacks f \<Longrightarrow> keepsStacks h \<Longrightarrow> keepsStacks (\<lambda>g. h (f g))"
  by (simp add: keepsStacks_def)

lemma keepsStacks_if:
  "keepsStacks f \<Longrightarrow> keepsStacks h \<Longrightarrow> keepsStacks (if c then f else h)"
  by simp

lemma keepsStacks_whenTop:
  "keepsStacks f \<Longrightarrow> keepsStacks (whenTop p f)"
  by (simp add: keepsStacks_def whenTop_def)

lemma keepsStacks_inOrder:
  "(\<And>f. f \<in> set fs \<Longrightarrow> keepsStacks f) \<Longrightarrow> keepsStacks (inOrder fs)"
proof (induction fs rule: rev_induct)
  case Nil
  then show ?case by (simp add: inOrder_def keepsStacks_def)
next
  case (snoc f fs)
  have "keepsStacks (inOrder fs)" "keepsStacks f"
    using snoc by simp_all
  then have "keepsStacks (\<lambda>g. f (inOrder fs g))"
    by (rule keepsStacks_compose)
  moreover have "inOrder (fs @ [f]) = (\<lambda>g. f (inOrder fs g))"
    by (simp add: inOrder_def fun_eq_iff)
  ultimately show ?case by simp
qed

lemma keepsStacks_modifyBack [simp]: "keepsStacks (modifyBack f)"
  by (simp add: keepsStacks_def)

lemma keepsStacks_backendCall [simp]: "keepsStacks (backendCall c)"
  by (simp add: keepsStacks_def)

lemma keepsStacks_setters [simp]:
  "keepsStacks (setBackgroundColor c)" "keepsStacks (setLineWidth w)"
  "keepsStacks (setLineStyle ls)" "keepsStacks (setLineJoin lj)"
  "keepsStacks (setMeshCullMode cm)" "keepsStacks (setFont fo)" "keepsStacks (setShader sh)"
  "keepsStacks (setDefaultSamplerState ss)" "keepsStacks (setColor c)"
  "keepsStacks (setBlendState b)" "keepsStacks (setPointSize p)" "keepsStacks (setScissor r)"
  "keepsStacks (setFrontFaceWinding wi)" "keepsStacks (setStencilMode st)"
  "keepsStacks (setDepthMode dt dw)" "keepsStacks (setColorMask m)"
  "keepsStacks (setWireframe wi2)"
  by (simp_all add: setter_defs keepsStacks_def split: option.splits)

lemma keepsStacks_flushBatchedDraws [simp]: "keepsStacks (flushBatchedDraws env)"
  by (simp add: keepsStacks_def)

lemma keepsStacks_projection [simp]:
  "keepsStacks (resetProjection env)" "keepsStacks (setCustomProjection env m)"
  by (simp_all add: keepsStacks_def)

lemma keepsStacks_setRenderTarget [simp]: "keepsStacks (setRenderTarget env)"
proof -
  have "keepsStacks (\<lambda>g. resetProjection env
          ((modifyBack (\<lambda>s. s\<lparr>renderTargets := RenderTargets_default\<rparr>)
             (backendCall (SetRenderTargetsInternal RenderTargets_default
                 (pixelWidth (flushBatchedDraws env g)) (pixelHeight (flushBatchedDraws env g))
                 (isGammaCorrect env)) (flushBatchedDraws env g)))
           \<lparr>renderTargetSwitchCount := renderTargetSwitchCount g + 1\<rparr>))"
    by (simp add: keepsStacks_def)
  then show ?thesis
    by (simp add: keepsStacks_def setRenderTarget_def Let_def)
qed

lemma keepsStacks_bindRenderTargets [simp]: "keepsStacks (bindRenderTargets env rts firsttex)"
  by (simp add: keepsStacks_def bindRenderTargets_states)

lemma keepsStacks_setRenderTargets [simp]:
  "keepsStacks (\<lambda>g. snd (setRenderTargets env rts g))"
proof (rule keepsStacksI)
  fix g
  have c: "snd (setRenderTargets env rts g) = g
         \<or> snd (setRenderTargets env rts g) = setRenderTarget env g
         \<or> (\<exists>t. snd (setRenderTargets env rts g) = bindRenderTargets env rts t g)"
    by (auto simp add: setRenderTargets_def Let_def split: option.splits)
  show "stackTypeStack (snd (setRenderTargets env rts g)) = stackTypeStack g"
    using c keepsStacksD(1) [OF keepsStacks_setRenderTarget]
      keepsStacksD(1) [OF keepsStacks_bindRenderTargets] by metis
  show "transformStack (snd (setRenderTargets env rts g)) = transformStack g"
    using c keepsStacksD(2) [OF keepsStacks_setRenderTarget]
      keepsStacksD(2) [OF keepsStacks_bindRenderTargets] by metis
  show "pixelScaleStack (snd (setRenderTargets env rts g)) = pixelScaleStack g"
    using c keepsStacksD(3) [OF keepsStacks_setRenderTarget]
      keepsStacksD(3) [OF keepsStacks_bindRenderTargets] by metis
  show "states (snd (setRenderTargets env rts g)) \<noteq> []
        \<and> butlast (states (snd (setRenderTargets env rts g))) = butlast (states g)"
    if "states g \<noteq> []"
    using c that keepsStacksD(4,5) [OF keepsStacks_setRenderTarget]
      keepsStacksD(4,5) [OF keepsStacks_bindRenderTargets] by metis
qed

lemma keepsStacks_restoreBeforeTargets [simp]: "keepsStacks (restoreBeforeTargets s)"
  unfolding restoreBeforeTargets_def
  by (rule keepsStacks_inOrder) (auto intro!: keepsStacks_whenTop)

lemma keepsStacks_restoreAfterTargets [simp]: "keepsStacks (restoreAfterTargets env s)"
  unfolding restoreAfterTargets_def
  by (rule keepsStacks_inOrder) (auto intro!: keepsStacks_whenTop)

lemma restoreStateChecked_cases:
  "snd (restoreStateChecked env s g) = restoreAfterTargets env s (restoreBeforeTargets s g)
   \<or> snd (restoreStateChecked env s g)
       = restoreAfterTargets env s
           (snd (setRenderTargets env (renderTargets s) (restoreBeforeTargets s g)))
   \<or> snd (restoreStateChecked env s g)
       = snd (setRenderTargets env (renderTargets s) (restoreBeforeTargets s g))"
  by (cases "setRenderTargets env (renderTargets s) (restoreBeforeTargets s g)")
     (auto simp add: restoreStateChecked_def Let_def andThen_def split: option.splits)

lemma keepsStacks_restoreStateChecked [simp]:
  "keepsStacks (\<lambda>g. snd (restoreStateChecked env s g))"
proof -
  let ?a = "\<lambda>g. restoreAfterTargets env s (restoreBeforeTargets s g)"
  let ?t = "\<lambda>g. snd (setRenderTargets env (renderTargets s) (restoreBeforeTargets s g))"
  let ?b = "\<lambda>g. restoreAfterTargets env s (?t g)"
  have a: "keepsStacks ?a"
    by (rule keepsStacks_compose) simp_all
  have t: "keepsStacks ?t"
    by (rule keepsStacks_compose [of "restoreBeforeTargets s"
               "\<lambda>g. snd (setRenderTargets env (renderTargets s) g)"]) simp_all
  have b: "keepsStacks ?b"
    using t by (rule keepsStacks_compose) simp
  show ?thesis
  proof (rule keepsStacksI)
    fix g
    show "stackTypeStack (snd (restoreStateChecked env s g)) = stackTypeStack g"
      using restoreStateChecked_cases [of env s g]
        keepsStacksD(1) [OF a, of g] keepsStacksD(1) [OF t, of g] keepsStacksD(1) [OF b, of g]
      by auto
    show "transformStack (snd (restoreStateChecked env s g)) = transformStack g"
      using restoreStateChecked_cases [of env s g]
        keepsStacksD(2) [OF a, of g] keepsStacksD(2) [OF t, of g] keepsStacksD(2) [OF b, of g]
      by auto
    show "pixelScaleStack (snd (restoreStateChecked env s g)) = pixelScaleStack g"
      using restoreStateChecked_cases [of env s g]
        keepsStacksD(3) [OF a, of g] keepsStacksD(3) [OF t, of g] keepsStacksD(3) [OF b, of g]
      by auto
    show "states (snd (restoreStateChecked env s g)) \<noteq> []
          \<and> butlast (states (snd (restoreStateChecked env s g))) = butlast (states g)"
      if "states g \<noteq> []"
      using restoreStateChecked_cases [of env s g] that
        keepsStacksD(4,5) [OF a, of g] keepsStacksD(4,5) [OF t, of g]
        keepsStacksD(4,5) [OF b, of g]
      by auto
  qed
qed

section \<open>C2: the depth of the state stack\<close>

lemma push_full:
  "length (stackTypeStack g) = MAX_USER_STACK_DEPTH env \<Longrightarrow>
   push env stype g = (Some (Exception ''Maximum stack depth reached (more pushes than pops?)''), g)"
  by (simp add: push_def)

lemma pop_empty:
  "stackTypeStack g = [] \<Longrightarrow>
   pop env g = (Some (Exception ''Minimum stack depth reached (more pops than pushes?)''), g)"
  by (simp add: pop_def)

lemma pop_transform:
  "stackTypeStack g \<noteq> [] \<Longrightarrow> last (stackTypeStack g) = STACK_TRANSFORM \<Longrightarrow>
   pop env g = (None, g\<lparr>transformStack := butlast (transformStack g),
                         pixelScaleStack := butlast (pixelScaleStack g),
                         stackTypeStack := butlast (stackTypeStack g)\<rparr>)"
  by (simp add: pop_def popTransform_def Let_def)

lemma count_list_snoc:
  "count_list (xs @ [x]) y = count_list xs y + (if x = y then 1 else 0)"
  by (induction xs) simp_all

lemma count_list_butlast:
  "xs \<noteq> [] \<Longrightarrow> count_list xs y = count_list (butlast xs) y + (if last xs = y then 1 else 0)"
  by (induction xs rule: rev_induct) (simp_all add: count_list_snoc)

lemma push_statesMatchMarkers:
  assumes "statesMatchMarkers g"
  shows "statesMatchMarkers (snd (push env stype g))"
  using assms
  by (simp add: push_def statesMatchMarkers_def pushTransform_def Let_def count_list_snoc)

lemma pop_statesMatchMarkers:
  assumes m: "statesMatchMarkers g"
  shows "statesMatchMarkers (snd (pop env g))"
proof (cases "stackTypeStack g = []")
  case True
  then show ?thesis using m by (simp add: pop_empty)
next
  case ne: False
  let ?g2 = "(popTransform g)\<lparr>pixelScaleStack := butlast (pixelScaleStack (popTransform g))\<rparr>"
  have st2: "states ?g2 = states g" "stackTypeStack ?g2 = stackTypeStack g"
    by (simp_all add: popTransform_def)
  have sne: "states g \<noteq> []"
    using m by (auto simp add: statesMatchMarkers_def)
  show ?thesis
  proof (cases "last (stackTypeStack g) = STACK_ALL")
    case False
    then have "pop env g = (None, ?g2\<lparr>stackTypeStack := butlast (stackTypeStack ?g2)\<rparr>)"
      using ne by (simp add: pop_def Let_def st2)
    then show ?thesis
      using m ne False count_list_butlast [OF ne, of STACK_ALL]
      by (simp add: statesMatchMarkers_def st2)
  next
    case True
    let ?s = "states ?g2 ! (length (states ?g2) - 2)"
    let ?r = "restoreStateChecked env ?s ?g2"
    have k: "keepsStacks (\<lambda>g. snd (restoreStateChecked env ?s g))"
      by simp
    have sne2: "states ?g2 \<noteq> []"
      using sne by (simp add: st2)
    have mk: "stackTypeStack (snd ?r) = stackTypeStack g"
      using keepsStacksD(1) [OF k, of ?g2] by (simp add: st2)
    have ln: "length (states (snd ?r)) = length (states g)"
      using keepsStacksD(6) [OF k sne2] by (simp add: st2)
    have p: "pop env g = andThen ?r
                (\<lambda>g3. (None, g3\<lparr>states := butlast (states g3),
                                 stackTypeStack := butlast (stackTypeStack g3)\<rparr>))"
      using ne True by (simp add: pop_def Let_def st2)
    show ?thesis
    proof (cases "fst ?r")
      case None
      then have "snd (pop env g)
          = (snd ?r)\<lparr>states := butlast (states (snd ?r)),
                      stackTypeStack := butlast (stackTypeStack (snd ?r))\<rparr>"
        by (cases ?r) (simp add: p andThen_def)
      then show ?thesis
        using m ne True mk ln count_list_butlast [OF ne, of STACK_ALL]
        by (simp add: statesMatchMarkers_def)
    next
      case (Some e)
      then have "snd (pop env g) = snd ?r"
        by (cases ?r) (simp add: p andThen_def)
      then show ?thesis
        using m mk ln by (simp add: statesMatchMarkers_def)
    qed
  qed
qed

lemma stackCalls_statesMatchMarkers:
  "statesMatchMarkers g \<Longrightarrow> statesMatchMarkers (stackCalls env cs g)"
proof (induction cs arbitrary: g)
  case Nil
  then show ?case by (simp add: stackCalls_def)
next
  case (Cons c cs)
  have "statesMatchMarkers (snd (stackCall env c g))"
    using Cons.prems
    by (cases c) (simp_all add: stackCall_def push_statesMatchMarkers pop_statesMatchMarkers)
  then have "statesMatchMarkers (stackCalls env cs (snd (stackCall env c g)))"
    by (rule Cons.IH)
  then show ?case by (simp add: stackCalls_def)
qed

text \<open>
  C2, as the code has it. Start from a graphics object with one display state more than
  there are full-state markers on the marker stack (as the constructor leaves it). After
  every sequence of \<open>push\<close> and \<open>pop\<close> calls, the failing ones included, that
  still holds, so the state stack never has fewer than 1 entry. \<open>pop\<close> called when no
  push is outstanding (the marker stack is empty, and then the transform and pixel-scale
  stacks are at depth 1) throws a usage error and changes nothing. \<open>pop\<close> called when
  the last outstanding push was transform-only returns normally, whatever the depth of
  the state stack, and removes one transform, one pixel scale and the marker. \<open>push\<close>
  called when the marker stack is at the fixed maximum depth throws a usage error and
  changes nothing: no entry is added to the transform, pixel-scale, state or marker
  stacks.
\<close>

theorem stack_depth_invariant:
  assumes "statesMatchMarkers g"
  shows "statesMatchMarkers (stackCalls env cs g)
       \<and> length (states (stackCalls env cs g)) \<ge> 1
       \<and> (stackTypeStack g = [] \<longrightarrow>
            pop env g
              = (Some (Exception ''Minimum stack depth reached (more pops than pushes?)''), g)
            \<and> length (states g) = 1
            \<and> (transformsMatchMarkers g \<longrightarrow>
                 length (transformStack g) = 1 \<and> length (pixelScaleStack g) = 1))
       \<and> (stackTypeStack g \<noteq> [] \<and> last (stackTypeStack g) = STACK_TRANSFORM \<longrightarrow>
            pop env g = (None, g\<lparr>transformStack := butlast (transformStack g),
                                  pixelScaleStack := butlast (pixelScaleStack g),
                                  stackTypeStack := butlast (stackTypeStack g)\<rparr>))
       \<and> (length (stackTypeStack g) = MAX_USER_STACK_DEPTH env \<longrightarrow>
            push env stype g
              = (Some (Exception ''Maximum stack depth reached (more pushes than pops?)''), g))"
proof -
  have m: "statesMatchMarkers (stackCalls env cs g)"
    using assms by (rule stackCalls_statesMatchMarkers)
  then have "length (states (stackCalls env cs g)) \<ge> 1"
    by (simp add: statesMatchMarkers_def)
  moreover have "stackTypeStack g = [] \<longrightarrow> length (states g) = 1"
    using assms by (simp add: statesMatchMarkers_def)
  ultimately show ?thesis
    using m by (simp add: pop_empty pop_transform push_full transformsMatchMarkers_def)
qed

lemma statesMatchMarkers_testGraphics: "statesMatchMarkers testGraphics"
  by (simp add: statesMatchMarkers_def testGraphics_def)

theorem stack_depth_invariant_witness:
  "statesMatchMarkers testGraphics
   \<and> length (states (stackCalls testEnvShallow
                       [Pop, Push STACK_ALL, Push STACK_TRANSFORM, Push STACK_ALL, Pop, Pop, Pop]
                       testGraphics)) \<ge> 1
   \<and> stackTypeStack testGraphics = []
   \<and> pop testEnvShallow testGraphics
        = (Some (Exception ''Minimum stack depth reached (more pops than pushes?)''), testGraphics)
   \<and> transformsMatchMarkers testGraphics
   \<and> length (transformStack testGraphics) = 1
   \<and> statesMatchMarkers (stackCalls testEnvShallow [Push STACK_ALL, Push STACK_TRANSFORM] testGraphics)
   \<and> length (stackTypeStack (stackCalls testEnvShallow [Push STACK_ALL, Push STACK_TRANSFORM]
                                testGraphics)) = MAX_USER_STACK_DEPTH testEnvShallow
   \<and> last (stackTypeStack (stackCalls testEnvShallow [Push STACK_ALL, Push STACK_TRANSFORM]
                              testGraphics)) = STACK_TRANSFORM
   \<and> fst (pop testEnvShallow
             (stackCalls testEnvShallow [Push STACK_ALL, Push STACK_TRANSFORM] testGraphics)) = None
   \<and> push testEnvShallow STACK_ALL
        (stackCalls testEnvShallow [Push STACK_ALL, Push STACK_TRANSFORM] testGraphics)
      = (Some (Exception ''Maximum stack depth reached (more pushes than pops?)''),
         stackCalls testEnvShallow [Push STACK_ALL, Push STACK_TRANSFORM] testGraphics)"
proof -
  let ?g2 = "stackCalls testEnvShallow [Push STACK_ALL, Push STACK_TRANSFORM] testGraphics"
  have m0: "statesMatchMarkers testGraphics"
    by (rule statesMatchMarkers_testGraphics)
  have e: "stackTypeStack testGraphics = []" "transformsMatchMarkers testGraphics"
    by (simp_all add: testGraphics_def transformsMatchMarkers_def)
  have mk: "stackTypeStack ?g2 = [STACK_ALL, STACK_TRANSFORM]"
    by (simp add: stackCalls_def stackCall_def push_def pushTransform_def testEnvShallow_def
          testEnv_def testGraphics_def Let_def)
  have m2: "statesMatchMarkers ?g2"
    using stack_depth_invariant [OF m0, of testEnvShallow "[Push STACK_ALL, Push STACK_TRANSFORM]"]
    by simp
  have mx: "MAX_USER_STACK_DEPTH testEnvShallow = 2"
    by (simp add: testEnvShallow_def)
  show ?thesis
    using stack_depth_invariant [OF m0, of testEnvShallow
            "[Pop, Push STACK_ALL, Push STACK_TRANSFORM, Push STACK_ALL, Pop, Pop, Pop]"]
          stack_depth_invariant [OF m2, of testEnvShallow "[]" STACK_ALL]
          m0 e mk m2 mx
    by simp
qed

text \<open>
  C2 as stated fails after a transform-only push: the state stack is at its minimum
  depth of 1, and \<open>pop\<close> returns normally and takes the pushed transform off.
\<close>

theorem pop_at_state_depth_one_counterexample:
  "length (states testPushed) = 1
   \<and> fst (pop testEnv testPushed) = None
   \<and> length (transformStack testPushed) = 2
   \<and> length (transformStack (snd (pop testEnv testPushed))) = 1"
  by (simp add: testPushed_def push_def pop_def pushTransform_def popTransform_def testEnv_def
        testGraphics_def Let_def)

section \<open>C4: push, mutate, pop\<close>

lemma applySetter_keepsStacks [simp]: "keepsStacks (\<lambda>g. snd (applySetter env m g))"
  by (cases m) simp_all

lemma applySetters_keepsStacks [simp]: "keepsStacks (applySetters env ms)"
proof (induction ms rule: rev_induct)
  case Nil
  then show ?case by (simp add: applySetters_def keepsStacks_def)
next
  case (snoc m ms)
  have "keepsStacks (\<lambda>g. snd (applySetter env m (applySetters env ms g)))"
    using snoc by (rule keepsStacks_compose) simp
  moreover have "applySetters env (ms @ [m]) = (\<lambda>g. snd (applySetter env m (applySetters env ms g)))"
    by (simp add: applySetters_def fun_eq_iff)
  ultimately show ?case by simp
qed












lemma rtschanged_same [simp]: "\<not> rtschanged rts rts"
  by (simp add: rtschanged_def modified_def Let_def)







section \<open>C8: index generation\<close>







lemma requestBatchedDraw_indexData:
  "indexMode c \<noteq> TRIANGLEINDEX_NONE \<Longrightarrow>
   indexData (batchedDrawState (snd (requestBatchedDraw env c g)))
     = indexData (appendedTo env c g)
       @ fillIndices (indexMode c) (vertexCount (appendedTo env c g))
           (BatchedDrawCommand.vertexCount c)"
  by (simp add: requestBatchedDraw_def appendedTo_def Let_def split_beta)


lemma appendedTo_testGraphics:
  "appendedTo env c testGraphics = testBatchedDrawState"
  by (simp add: appendedTo_def flushBatchedDraws_def testGraphics_def testBatchedDrawState_def)



section \<open>C3: the 16-bit index limit\<close>

lemma fillIndices_fan_last:
  assumes "3 \<le> V"
  shows "last (fillIndices TRIANGLEINDEX_FAN base V) = word_of_int (base + (V - 2) + 1)"
proof -
  have "[1..V - 2] = [1..V - 2 - 1] @ [V - 2]"
    using assms by (simp add: upto_rec2)
  then show ?thesis
    by (simp add: fillIndices_def)
qed

text \<open>
  C3 at a command of more than 65535 vertices. \<open>polygon\<close> in fill mode passes a fan of
  70000 vertices to \<open>requestBatchedDraw\<close>. The pending batch is empty, so the flush
  that the index limit asks for does nothing, and the command is appended whole: the
  batch holds 70000 vertices and 209994 indices, and the next flush issues them as one
  indexed draw call. Its index data is 16 bits wide: the last index, of vertex 69999, is
  stored as 4463.
\<close>

theorem requestBatchedDraw_oversized_fan:
  "(let g' = snd (requestBatchedDraw testEnv testHugeFan testGraphics) in
      batchEmpty testGraphics
    \<and> overIndexLimit testHugeFan (batchedDrawState testGraphics)
    \<and> vertexCount (batchedDrawState g') = 70000
    \<and> LOVE_UINT16_MAX < vertexCount (batchedDrawState g')
    \<and> drawCallsIssued g' = []
    \<and> drawCallsIssued (flushBatchedDraws testEnv g')
        = [DrawIndexed PRIMITIVE_TRIANGLES 209994 None (XYf, RGBAub)
             (fillIndices TRIANGLEINDEX_FAN 0 70000)]
    \<and> last (fillIndices TRIANGLEINDEX_FAN 0 70000) = 4463)"
proof -
  let ?g' = "snd (requestBatchedDraw testEnv testHugeFan testGraphics)"
  have e: "batchEmpty testGraphics"
    by (simp add: batchEmpty_def testGraphics_def testBatchedDrawState_def)
  have fg: "flushBatchedDraws testEnv testGraphics = testGraphics"
    by (simp add: flushBatchedDraws_def testGraphics_def testBatchedDrawState_def)
  have o: "overIndexLimit testHugeFan (batchedDrawState testGraphics)"
    by (simp add: overIndexLimit_def testHugeFan_def testCommand_def testGraphics_def
          testBatchedDrawState_def LOVE_UINT16_MAX_def)
  then have sf: "shouldflush testEnv testHugeFan (batchedDrawState testGraphics)"
    by (simp add: shouldflush_def Let_def)
  have v: "vertexCount (batchedDrawState ?g') = 70000"
    using sf
    by (simp add: requestBatchedDraw_counts fg)
       (simp add: testGraphics_def testBatchedDrawState_def testHugeFan_def)
  have i: "indexCount (batchedDrawState ?g') = 209994"
    using sf
    by (simp add: requestBatchedDraw_counts fg)
       (simp add: testGraphics_def testBatchedDrawState_def testHugeFan_def getIndexCount_def)
  have d: "drawCallsIssued ?g' = []"
    using sf
    by (simp add: requestBatchedDraw_drawCalls fg)
       (simp add: drawCallsIssued_def testGraphics_def)
  have k: "primitiveMode (batchedDrawState ?g') = PRIMITIVE_TRIANGLES"
          "formats (batchedDrawState ?g') = (XYf, RGBAub)"
          "BatchedDrawState.texture (batchedDrawState ?g') = None"
    using sf
    by (simp_all add: requestBatchedDraw_kind) (simp_all add: testHugeFan_def testCommand_def)
  have m: "indexMode testHugeFan \<noteq> TRIANGLEINDEX_NONE"
    by (simp add: testHugeFan_def)
  have x: "indexData (batchedDrawState ?g') = fillIndices TRIANGLEINDEX_FAN 0 70000"
    using requestBatchedDraw_indexData [OF m, of testEnv testGraphics]
    by (simp add: appendedTo_testGraphics testBatchedDrawState_def testHugeFan_def)
  have a: "batchHasAttributes testEnv ?g'"
    unfolding batchHasAttributes_def k by (simp add: enableBits_def testEnv_def)
  have b: "\<not> batchEmpty ?g'"
    by (simp add: batchEmpty_def v)
  have f: "drawCallsIssued (flushBatchedDraws testEnv ?g')
        = [DrawIndexed PRIMITIVE_TRIANGLES 209994 None (XYf, RGBAub)
             (fillIndices TRIANGLEINDEX_FAN 0 70000)]"
    using a b by (simp add: flushBatchedDraws_drawCalls d batchDraw_def i k x)
  have l: "last (fillIndices TRIANGLEINDEX_FAN 0 70000) = 4463"
    by (simp add: fillIndices_fan_last)
  show ?thesis
    using e o v d f l by (simp add: Let_def LOVE_UINT16_MAX_def)
qed

section \<open>C7: temporary textures\<close>

lemma findTemporaryTexture_shape:
  "findTemporaryTexture format w h samples temps = Some (c, temps')
     \<Longrightarrow> hasShape format w h samples c \<and> length temps' = length temps"
proof (induction temps arbitrary: temps')
  case Nil
  then show ?case by simp
next
  case (Cons temp temps)
  show ?case
  proof (cases "reusable format w h samples temp")
    case True
    then show ?thesis
      using Cons.prems by (auto simp add: reusable_def hasShape_def Let_def)
  next
    case False
    then obtain ts where f: "findTemporaryTexture format w h samples temps = Some (c, ts)"
        and t: "temps' = temp # ts"
      using Cons.prems by auto
    show ?thesis
      using Cons.IH [OF f] t by simp
  qed
qed

lemma reusable_checkedIn:
  "hasShape format w h samples (TemporaryTexture.texture temp)
     \<Longrightarrow> reusable format w h samples (temp\<lparr>framesSinceUse := 0\<rparr>)"
  by (simp add: reusable_def hasShape_def Let_def)

lemma findTemporaryTexture_again:
  "findTemporaryTexture format w h samples temps = Some (c, temps')
     \<Longrightarrow> \<exists>temps''. findTemporaryTexture format w h samples (checkIn c temps') = Some (c, temps'')"
proof (induction temps arbitrary: temps')
  case Nil
  then show ?case by simp
next
  case (Cons temp temps)
  have sh: "hasShape format w h samples c"
    using findTemporaryTexture_shape [OF Cons.prems] by simp
  show ?case
  proof (cases "reusable format w h samples temp")
    case True
    then have "c = TemporaryTexture.texture temp" "temps' = temp\<lparr>framesSinceUse := -1\<rparr> # temps"
      using Cons.prems by simp_all
    then show ?thesis
      using sh by (simp add: reusable_checkedIn)
  next
    case False
    then obtain ts where f: "findTemporaryTexture format w h samples temps = Some (c, ts)"
        and t: "temps' = temp # ts"
      using Cons.prems by auto
    show ?thesis
    proof (cases "TemporaryTexture.texture temp = c")
      case True
      then show ?thesis
        using sh t by (simp add: reusable_checkedIn)
    next
      case no: False
      obtain ts' where "findTemporaryTexture format w h samples (checkIn c ts) = Some (c, ts')"
        using Cons.IH [OF f] by auto
      then show ?thesis
        using no t False by simp
    qed
  qed
qed

lemma findTemporaryTexture_created:
  "findTemporaryTexture format w h samples temps = None \<Longrightarrow> hasShape format w h samples t
     \<Longrightarrow> \<exists>temps''. findTemporaryTexture format w h samples
                       (checkIn t (temps @ [\<lparr>TemporaryTexture.texture = t, framesSinceUse = -1\<rparr>]))
                     = Some (t, temps'')"
proof (induction temps)
  case Nil
  then show ?case by (simp add: reusable_def hasShape_def Let_def)
next
  case (Cons temp temps)
  have nr: "\<not> reusable format w h samples temp"
    and f: "findTemporaryTexture format w h samples temps = None"
    using Cons.prems(1) by (simp_all split: if_splits)
  show ?case
  proof (cases "TemporaryTexture.texture temp = t")
    case True
    then show ?thesis
      using Cons.prems(2) by (simp add: reusable_checkedIn)
  next
    case False
    then show ?thesis
      using Cons.IH [OF f Cons.prems(2)] nr by auto
  qed
qed

lemma newTexture_shape: "hasShape format w h samples (newTexture ident format w h samples)"
  by (simp add: hasShape_def newTexture_def)

text \<open>Acquire, release, acquire: the second acquisition finds the texture of the first.\<close>

lemma getTemporaryTexture_again:
  "fst (getTemporaryTexture format w h samples
          (releaseTemporaryTexture (fst (getTemporaryTexture format w h samples g))
             (snd (getTemporaryTexture format w h samples g))))
     = fst (getTemporaryTexture format w h samples g)"
  "findTemporaryTexture format w h samples
     (temporaryTextures
        (releaseTemporaryTexture (fst (getTemporaryTexture format w h samples g))
           (snd (getTemporaryTexture format w h samples g)))) \<noteq> None"
proof -
  let ?g2 = "releaseTemporaryTexture (fst (getTemporaryTexture format w h samples g))
               (snd (getTemporaryTexture format w h samples g))"
  have "\<exists>ts. findTemporaryTexture format w h samples (temporaryTextures ?g2)
               = Some (fst (getTemporaryTexture format w h samples g), ts)"
  proof (cases "findTemporaryTexture format w h samples (temporaryTextures g)")
    case None
    then show ?thesis
      using findTemporaryTexture_created [OF None newTexture_shape, of "nextTexture g"]
      by (simp add: getTemporaryTexture_def releaseTemporaryTexture_def backendCall_def Let_def)
  next
    case (Some r)
    obtain c ts where r: "r = (c, ts)" by (cases r)
    show ?thesis
      using findTemporaryTexture_again [of format w h samples "temporaryTextures g" c ts] Some r
      by (simp add: getTemporaryTexture_def releaseTemporaryTexture_def)
  qed
  then obtain ts where f: "findTemporaryTexture format w h samples (temporaryTextures ?g2)
               = Some (fst (getTemporaryTexture format w h samples g), ts)"
    by auto
  show "fst (getTemporaryTexture format w h samples ?g2)
          = fst (getTemporaryTexture format w h samples g)"
    by (simp add: getTemporaryTexture_def [of format w h samples ?g2] f)
  show "findTemporaryTexture format w h samples (temporaryTextures ?g2) \<noteq> None"
    by (simp add: f)
qed

lemma getTemporaryTexture_found:
  "findTemporaryTexture format w h samples (temporaryTextures g) \<noteq> None
     \<Longrightarrow> backend (snd (getTemporaryTexture format w h samples g)) = backend g
       \<and> nextTexture (snd (getTemporaryTexture format w h samples g)) = nextTexture g
       \<and> length (temporaryTextures (snd (getTemporaryTexture format w h samples g)))
           = length (temporaryTextures g)"
  by (auto simp add: getTemporaryTexture_def dest: findTemporaryTexture_shape)

lemma checkIn_length [simp]: "length (checkIn t temps) = length temps"
  by (induction temps) simp_all

lemma releaseTemporaryTexture_other:
  "backend (releaseTemporaryTexture t g) = backend g"
  "nextTexture (releaseTemporaryTexture t g) = nextTexture g"
  "length (temporaryTextures (releaseTemporaryTexture t g)) = length (temporaryTextures g)"
  by (simp_all add: releaseTemporaryTexture_def)

text \<open>Checked-out entries have no part in the choice of the texture.\<close>

lemma findTemporaryTexture_skips_checkedOut:
  "map_option fst (findTemporaryTexture format w h samples temps)
     = map_option fst (findTemporaryTexture format w h samples
                         (filter (\<lambda>temp. \<not> checkedOut temp) temps))"
proof (induction temps)
  case Nil
  then show ?case by simp
next
  case (Cons temp temps)
  have "checkedOut temp \<Longrightarrow> \<not> reusable format w h samples temp"
    by (simp add: checkedOut_def reusable_def)
  then show ?case
    using Cons.IH by (auto simp add: option.map_comp comp_def split_beta)
qed

text \<open>The update loop, from index \<open>i\<close> down: the entries from \<open>i\<close> on have been visited.\<close>

lemma swap_remove_drop:
  assumes "i < length xs"
  shows "mset (drop i (butlast (xs[i := last xs]))) = mset (drop (Suc i) xs)"
proof -
  have d: "drop i (xs[i := last xs]) = last xs # drop (Suc i) xs"
    using assms by (simp add: drop_update_swap Cons_nth_drop_Suc [symmetric])
  show ?thesis
  proof (cases "drop (Suc i) xs = []")
    case True
    then show ?thesis by (simp add: drop_butlast d)
  next
    case False
    then have "last (drop (Suc i) xs) = last xs"
      by (simp add: last_drop)
    then have "mset (butlast (drop (Suc i) xs)) + {#last xs#} = mset (drop (Suc i) xs)"
      using False by (metis append_butlast_last_id mset.simps(2) mset_append union_mset_add_mset_right add.right_neutral mset.simps(1))
    then show ?thesis
      using False by (simp add: drop_butlast d)
  qed
qed

lemma updateTemporaryTextures_mset:
  "i \<le> length temps \<Longrightarrow>
   mset (fst (updateTemporaryTextures m i (temps, released)))
     = mset (map aged (filter (\<lambda>t. framesSinceUse t < m) (take i temps))) + mset (drop i temps)
   \<and> mset (snd (updateTemporaryTextures m i (temps, released)))
     = mset released
       + mset (map TemporaryTexture.texture (filter (\<lambda>t. m \<le> framesSinceUse t) (take i temps)))"
proof (induction i arbitrary: temps released)
  case 0
  then show ?case by simp
next
  case (Suc i)
  let ?t = "temps ! i"
  have il: "i < length temps" using Suc.prems by simp
  have tk: "take (Suc i) temps = take i temps @ [?t]"
    using il by (rule take_Suc_conv_app_nth)
  have dr: "drop i temps = ?t # drop (Suc i) temps"
    using il by (simp add: Cons_nth_drop_Suc)
  show ?case
  proof (cases "m \<le> framesSinceUse ?t")
    case True
    let ?temps2 = "butlast (temps[i := last temps])"
    have l: "i \<le> length ?temps2" using il by simp
    have t2: "take i ?temps2 = take i temps"
      using il by (simp add: take_butlast)
    have d2: "mset (drop i ?temps2) = mset (drop (Suc i) temps)"
      using il by (rule swap_remove_drop)
    show ?thesis
      using Suc.IH [OF l, of "released @ [TemporaryTexture.texture ?t]"] True
      by (simp add: Let_def t2 d2 tk)
  next
    case False
    show ?thesis
    proof (cases "0 \<le> framesSinceUse ?t")
      case True
      let ?t' = "?t\<lparr>framesSinceUse := framesSinceUse ?t + 1\<rparr>"
      let ?temps2 = "temps[i := ?t']"
      have l: "i \<le> length ?temps2" using il by simp
      have t2: "take i ?temps2 = take i temps" by simp
      have d2: "drop i ?temps2 = ?t' # drop (Suc i) temps"
        using il by (simp add: drop_update_swap dr)
      show ?thesis
        using Suc.IH [OF l, of released] True False
        by (simp add: Let_def t2 d2 tk aged_def)
    next
      case neg: False
      have l: "i \<le> length temps" using il by simp
      show ?thesis
        using Suc.IH [OF l, of released] neg False
        by (simp add: Let_def dr tk aged_def)
    qed
  qed
qed

lemma updateTemporaryResources_pool:
  "mset (temporaryTextures (updateTemporaryResources env g))
     = mset (map aged (filter (\<lambda>t. \<not> expired env t) (temporaryTextures g)))"
  "\<exists>released. backend (updateTemporaryResources env g) = backend g @ map ReleaseTexture released
     \<and> mset released
         = mset (map TemporaryTexture.texture (filter (expired env) (temporaryTextures g)))"
proof -
  let ?m = "MAX_TEMPORARY_RESOURCE_UNUSED_FRAMES env"
  let ?r = "updateTemporaryTextures ?m (length (temporaryTextures g)) (temporaryTextures g, [])"
  have e: "(\<lambda>t. framesSinceUse t < ?m) = (\<lambda>t. \<not> expired env t)"
          "(\<lambda>t. ?m \<le> framesSinceUse t) = expired env"
    by (auto simp add: expired_def)
  have a: "mset (fst ?r) = mset (map aged (filter (\<lambda>t. \<not> expired env t) (temporaryTextures g)))"
    and b: "mset (snd ?r)
              = mset (map TemporaryTexture.texture (filter (expired env) (temporaryTextures g)))"
    using updateTemporaryTextures_mset [of "length (temporaryTextures g)" "temporaryTextures g" ?m "[]"]
    by (simp_all add: e)
  show "mset (temporaryTextures (updateTemporaryResources env g))
     = mset (map aged (filter (\<lambda>t. \<not> expired env t) (temporaryTextures g)))"
    using a by (simp add: updateTemporaryResources_def split_beta)
  have "backend (updateTemporaryResources env g) = backend g @ map ReleaseTexture (snd ?r)"
    by (simp add: updateTemporaryResources_def split_beta)
  then show "\<exists>released. backend (updateTemporaryResources env g) = backend g @ map ReleaseTexture released
     \<and> mset released
         = mset (map TemporaryTexture.texture (filter (expired env) (temporaryTextures g)))"
    using b by blast
qed

lemma updateTemporaryResources_checkedOut:
  assumes "0 \<le> MAX_TEMPORARY_RESOURCE_UNUSED_FRAMES env"
  shows "mset (filter checkedOut (temporaryTextures (updateTemporaryResources env g)))
           = mset (filter checkedOut (temporaryTextures g))"
proof -
  have c: "checkedOut (aged t) = checkedOut t" for t
    by (simp add: checkedOut_def aged_def)
  have k: "checkedOut t \<Longrightarrow> \<not> expired env t \<and> aged t = t" for t
    using assms by (simp add: checkedOut_def expired_def aged_def)
  have "filter checkedOut (map aged (filter (\<lambda>t. \<not> expired env t) (temporaryTextures g)))
          = filter checkedOut (temporaryTextures g)" (is "?l = ?r")
  proof -
    have "?l = map aged (filter (\<lambda>t. \<not> expired env t \<and> checkedOut t) (temporaryTextures g))"
      by (simp add: filter_map comp_def c conj_commute)
    also have "(\<lambda>t. \<not> expired env t \<and> checkedOut t) = checkedOut"
      using k by auto
    also have "map aged (filter checkedOut (temporaryTextures g)) = ?r"
      by (rule map_idI) (simp add: k)
    finally show ?thesis .
  qed
  then have "mset (filter checkedOut (temporaryTextures g))
             = mset (filter checkedOut
                       (map aged (filter (\<lambda>t. \<not> expired env t) (temporaryTextures g))))"
    by simp
  also have "\<dots> = filter_mset checkedOut
                     (mset (map aged (filter (\<lambda>t. \<not> expired env t) (temporaryTextures g))))"
    by (simp only: mset_filter)
  also have "\<dots> = mset (filter checkedOut (temporaryTextures (updateTemporaryResources env g)))"
    by (simp only: mset_filter updateTemporaryResources_pool(1))
  finally show ?thesis
    by (rule sym)
qed

text \<open>
  C7, as the code has it. Acquiring a temporary texture of a given shape, releasing it
  and acquiring the same shape again returns the same texture, and the second
  acquisition creates nothing (no backend call, no new entry). Checked-out entries have
  no part in the choice of the texture that is returned. The per-frame update destroys
  and removes every entry whose tag has reached the idle threshold (is greater than or
  equal to it) and releases its texture; it keeps every other entry, with the tag
  incremented when it is not negative. With a threshold that is not negative, the
  checked-out entries are the same before and after the update.
\<close>

theorem temporary_texture_lifecycle:
  assumes "0 \<le> MAX_TEMPORARY_RESOURCE_UNUSED_FRAMES env"
  shows "(let r1 = getTemporaryTexture format w h samples g;
              r2 = getTemporaryTexture format w h samples
                     (releaseTemporaryTexture (fst r1) (snd r1))
          in fst r2 = fst r1
           \<and> backend (snd r2) = backend (snd r1)
           \<and> nextTexture (snd r2) = nextTexture (snd r1)
           \<and> length (temporaryTextures (snd r2)) = length (temporaryTextures (snd r1)))
       \<and> map_option fst (findTemporaryTexture format w h samples (temporaryTextures g))
           = map_option fst (findTemporaryTexture format w h samples
                               (filter (\<lambda>temp. \<not> checkedOut temp) (temporaryTextures g)))
       \<and> mset (temporaryTextures (updateTemporaryResources env g))
           = mset (map aged (filter (\<lambda>temp. \<not> expired env temp) (temporaryTextures g)))
       \<and> (\<exists>released.
             backend (updateTemporaryResources env g) = backend g @ map ReleaseTexture released
           \<and> mset released
               = mset (map TemporaryTexture.texture (filter (expired env) (temporaryTextures g))))
       \<and> mset (filter checkedOut (temporaryTextures (updateTemporaryResources env g)))
           = mset (filter checkedOut (temporaryTextures g))"
proof -
  let ?r1 = "getTemporaryTexture format w h samples g"
  let ?g2 = "releaseTemporaryTexture (fst ?r1) (snd ?r1)"
  let ?r2 = "getTemporaryTexture format w h samples ?g2"
  have a: "fst ?r2 = fst ?r1"
    by (rule getTemporaryTexture_again(1))
  have "findTemporaryTexture format w h samples (temporaryTextures ?g2) \<noteq> None"
    by (rule getTemporaryTexture_again(2))
  then have b: "backend (snd ?r2) = backend ?g2 \<and> nextTexture (snd ?r2) = nextTexture ?g2
       \<and> length (temporaryTextures (snd ?r2)) = length (temporaryTextures ?g2)"
    by (rule getTemporaryTexture_found)
  have first: "fst ?r2 = fst ?r1 \<and> backend (snd ?r2) = backend (snd ?r1)
       \<and> nextTexture (snd ?r2) = nextTexture (snd ?r1)
       \<and> length (temporaryTextures (snd ?r2)) = length (temporaryTextures (snd ?r1))"
    using a b by (simp only: releaseTemporaryTexture_other)
  have c: "mset (filter checkedOut (temporaryTextures (updateTemporaryResources env g)))
           = mset (filter checkedOut (temporaryTextures g))"
    using assms by (rule updateTemporaryResources_checkedOut)
  show ?thesis
    unfolding Let_def
    using first findTemporaryTexture_skips_checkedOut [of format w h samples "temporaryTextures g"]
          updateTemporaryResources_pool [of env g] c
    by blast
qed

lemma testPool_acquire:
  "fst (getTemporaryTexture PIXELFORMAT_RGBA8_UNORM 32 32 0 testPool)
     = newTexture 2 PIXELFORMAT_RGBA8_UNORM 32 32 0"
  by (simp add: getTemporaryTexture_def testPool_def reusable_def newTexture_def Let_def)

theorem temporary_texture_lifecycle_witness:
  "0 \<le> MAX_TEMPORARY_RESOURCE_UNUSED_FRAMES testEnv
   \<and> fst (getTemporaryTexture PIXELFORMAT_RGBA8_UNORM 32 32 0
            (releaseTemporaryTexture
               (fst (getTemporaryTexture PIXELFORMAT_RGBA8_UNORM 32 32 0 testPool))
               (snd (getTemporaryTexture PIXELFORMAT_RGBA8_UNORM 32 32 0 testPool))))
       = newTexture 2 PIXELFORMAT_RGBA8_UNORM 32 32 0
   \<and> mset (temporaryTextures (updateTemporaryResources testEnv testPool))
       = {#\<lparr>TemporaryTexture.texture = newTexture 1 PIXELFORMAT_RGBA8_UNORM 64 64 0,
            framesSinceUse = -1\<rparr>,
           \<lparr>TemporaryTexture.texture = newTexture 2 PIXELFORMAT_RGBA8_UNORM 32 32 0,
            framesSinceUse = 1\<rparr>#}
   \<and> mset (filter checkedOut (temporaryTextures (updateTemporaryResources testEnv testPool)))
       = {#\<lparr>TemporaryTexture.texture = newTexture 1 PIXELFORMAT_RGBA8_UNORM 64 64 0,
            framesSinceUse = -1\<rparr>#}"
proof -
  have m: "0 \<le> MAX_TEMPORARY_RESOURCE_UNUSED_FRAMES testEnv"
    by (simp add: testEnv_def)
  note t = temporary_texture_lifecycle [OF m, of PIXELFORMAT_RGBA8_UNORM 32 32 0 testPool,
             unfolded Let_def]
  have p: "temporaryTextures testPool =
        [\<lparr>TemporaryTexture.texture = newTexture 0 PIXELFORMAT_RGBA8_UNORM 64 64 0,
          framesSinceUse = 16\<rparr>,
         \<lparr>TemporaryTexture.texture = newTexture 1 PIXELFORMAT_RGBA8_UNORM 64 64 0,
          framesSinceUse = -1\<rparr>,
         \<lparr>TemporaryTexture.texture = newTexture 2 PIXELFORMAT_RGBA8_UNORM 32 32 0,
          framesSinceUse = 0\<rparr>]"
    by (simp add: testPool_def)
  have x: "expired testEnv temp = (16 \<le> framesSinceUse temp)" for temp
    by (simp add: expired_def testEnv_def)
  have a: "fst (getTemporaryTexture PIXELFORMAT_RGBA8_UNORM 32 32 0
            (releaseTemporaryTexture
               (fst (getTemporaryTexture PIXELFORMAT_RGBA8_UNORM 32 32 0 testPool))
               (snd (getTemporaryTexture PIXELFORMAT_RGBA8_UNORM 32 32 0 testPool))))
       = newTexture 2 PIXELFORMAT_RGBA8_UNORM 32 32 0"
    using t [THEN conjunct1, THEN conjunct1] by (simp only: testPool_acquire)
  have b1: "map aged (filter (\<lambda>temp. \<not> expired testEnv temp) (temporaryTextures testPool))
       = [\<lparr>TemporaryTexture.texture = newTexture 1 PIXELFORMAT_RGBA8_UNORM 64 64 0,
            framesSinceUse = -1\<rparr>,
           \<lparr>TemporaryTexture.texture = newTexture 2 PIXELFORMAT_RGBA8_UNORM 32 32 0,
            framesSinceUse = 1\<rparr>]"
    by (simp add: p x aged_def)
  have b: "mset (temporaryTextures (updateTemporaryResources testEnv testPool))
       = {#\<lparr>TemporaryTexture.texture = newTexture 1 PIXELFORMAT_RGBA8_UNORM 64 64 0,
            framesSinceUse = -1\<rparr>,
           \<lparr>TemporaryTexture.texture = newTexture 2 PIXELFORMAT_RGBA8_UNORM 32 32 0,
            framesSinceUse = 1\<rparr>#}"
    unfolding t [THEN conjunct2, THEN conjunct2, THEN conjunct1] b1 by simp
  have c1: "filter checkedOut (temporaryTextures testPool)
       = [\<lparr>TemporaryTexture.texture = newTexture 1 PIXELFORMAT_RGBA8_UNORM 64 64 0,
            framesSinceUse = -1\<rparr>]"
    by (simp add: p checkedOut_def)
  have c: "mset (filter checkedOut (temporaryTextures (updateTemporaryResources testEnv testPool)))
       = {#\<lparr>TemporaryTexture.texture = newTexture 1 PIXELFORMAT_RGBA8_UNORM 64 64 0,
            framesSinceUse = -1\<rparr>#}"
    unfolding t [THEN conjunct2, THEN conjunct2, THEN conjunct2, THEN conjunct2] c1 by simp
  show ?thesis
    using m a b c by simp
qed

text \<open>
  C7 as stated fails at the threshold itself: an entry whose tag equals the idle
  threshold, and does not exceed it, is destroyed by the update.
\<close>

theorem idle_threshold_counterexample:
  "framesSinceUse (hd (temporaryTextures testPool)) = 16
   \<and> MAX_TEMPORARY_RESOURCE_UNUSED_FRAMES testEnv = 16
   \<and> \<not> framesSinceUse (hd (temporaryTextures testPool))
         > MAX_TEMPORARY_RESOURCE_UNUSED_FRAMES testEnv
   \<and> temporaryTextures (updateTemporaryResources testEnv testPool)
       = [\<lparr>TemporaryTexture.texture = newTexture 2 PIXELFORMAT_RGBA8_UNORM 32 32 0,
           framesSinceUse = 1\<rparr>,
          \<lparr>TemporaryTexture.texture = newTexture 1 PIXELFORMAT_RGBA8_UNORM 64 64 0,
           framesSinceUse = -1\<rparr>]
   \<and> backend (updateTemporaryResources testEnv testPool)
       = [ReleaseTexture (newTexture 0 PIXELFORMAT_RGBA8_UNORM 64 64 0)]"
  by (simp add: updateTemporaryResources_def testPool_def testEnv_def testGraphics_def
        Let_def numeral_3_eq_3)

section \<open>C9: the format conversion\<close>

lemma convertPixelFormat_switch_printed:
  "snd (snd (convertPixelFormat_switch gl q isSRGB f))
     = (if unhandled q then [UnhandledPixelFormat q] else [])"
  by (cases q) (simp_all add: convertPixelFormat_switch_def unhandled_def)

lemma convertPixelFormat_switch_untouched:
  "unhandled q \<or> notSupported q \<Longrightarrow> fst (convertPixelFormat_switch gl q isSRGB f) = f"
  by (cases q) (simp_all add: convertPixelFormat_switch_def unhandled_def notSupported_def)

lemma convertPixelFormat_switch_internalformat:
  "\<not> unhandled q \<Longrightarrow> \<not> notSupported q
     \<Longrightarrow> internalformat (fst (convertPixelFormat_switch gl q isSRGB f)) \<noteq> GL_ZERO"
  by (cases q) (simp_all add: convertPixelFormat_switch_def unhandled_def notSupported_def)

lemma convertPixelFormat_printed:
  "snd (snd (convertPixelFormat pf gl p renderbuffer isSRGB))
     = snd (snd (convertPixelFormat_switch gl (switchedPixelFormat pf gl p isSRGB) isSRGB
                   initialTextureFormat))"
  by (simp add: convertPixelFormat_def initialTextureFormat_def Let_def split_beta)

lemma convertPixelFormat_format:
  "fst (convertPixelFormat pf gl p renderbuffer isSRGB)
     = (let q = switchedPixelFormat pf gl p isSRGB;
            f1 = fst (convertPixelFormat_switch gl q isSRGB initialTextureFormat)
        in if \<not> isPixelFormatCompressed pf q \<and> internalMatchesExternal gl renderbuffer
           then f1\<lparr>internalformat := externalformat f1\<rparr> else f1)"
  by (simp add: convertPixelFormat_def initialTextureFormat_def internalMatchesExternal_def
        Let_def split_beta)

lemma initialTextureFormat_triple:
  "formatTriple initialTextureFormat = (GL_ZERO, GL_ZERO, GL_ZERO)"
  "initialTextureFormat\<lparr>internalformat := externalformat initialTextureFormat\<rparr>
     = initialTextureFormat"
  by (simp_all add: formatTriple_def initialTextureFormat_def TextureFormat_default_def)

text \<open>
  C9, as the code has it. The conversion is a function of the pixel format, the
  renderbuffer flag, the sRGB flag and the capability flags of the context, and reads
  nothing else. With \<open>q\<close> the format that its switch is entered with: the diagnostic is
  printed exactly when \<open>q\<close> has no case label, and it names \<open>q\<close>; when \<open>q\<close> has no
  case label, and also when \<open>q\<close> is one of the two BGRA8 formats, whose case prints
  nothing, the result is the default-constructed format (all three enumerants of the
  native triple 0) with the colour attachment set; for every other format the internal
  format is not 0, unless it is overwritten by the external one (OpenGL ES 2 without
  texture storage, for a texture).
\<close>

theorem convertPixelFormat_diagnostic:
  "(let q = switchedPixelFormat pf gl p isSRGB;
        r = convertPixelFormat pf gl p renderbuffer isSRGB
    in snd (snd r) = (if unhandled q then [UnhandledPixelFormat q] else [])
     \<and> (unhandled q \<or> notSupported q \<longrightarrow>
          fst r = initialTextureFormat
          \<and> formatTriple (fst r) = (GL_ZERO, GL_ZERO, GL_ZERO))
     \<and> (\<not> unhandled q \<and> \<not> notSupported q \<and> \<not> internalMatchesExternal gl renderbuffer \<longrightarrow>
          internalformat (fst r) \<noteq> GL_ZERO))"
proof -
  let ?q = "switchedPixelFormat pf gl p isSRGB"
  let ?r = "convertPixelFormat pf gl p renderbuffer isSRGB"
  have a: "snd (snd ?r) = (if unhandled ?q then [UnhandledPixelFormat ?q] else [])"
    by (simp only: convertPixelFormat_printed convertPixelFormat_switch_printed)
  have b: "fst ?r = initialTextureFormat" if "unhandled ?q \<or> notSupported ?q"
    using convertPixelFormat_switch_untouched [OF that, of gl isSRGB initialTextureFormat]
    by (simp add: convertPixelFormat_format Let_def initialTextureFormat_triple)
  have c: "internalformat (fst ?r) \<noteq> GL_ZERO"
    if "\<not> unhandled ?q" "\<not> notSupported ?q" "\<not> internalMatchesExternal gl renderbuffer"
    using convertPixelFormat_switch_internalformat [OF that(1,2), of gl isSRGB initialTextureFormat]
          that(3)
    by (simp add: convertPixelFormat_format Let_def)
  show ?thesis
    using a b c by (simp add: Let_def initialTextureFormat_triple)
qed

lemma switchedPixelFormat_test:
  "switchedPixelFormat testPixelFormatFns testGL PIXELFORMAT_UNKNOWN False = PIXELFORMAT_UNKNOWN"
  "switchedPixelFormat testPixelFormatFns testGL PIXELFORMAT_RGBA8_UNORM False
     = PIXELFORMAT_RGBA8_UNORM"
  "switchedPixelFormat testPixelFormatFns testGL PIXELFORMAT_BGRA8_UNORM False
     = PIXELFORMAT_BGRA8_UNORM"
  by (simp_all add: switchedPixelFormat_def)

theorem convertPixelFormat_diagnostic_witness:
  "unhandled PIXELFORMAT_UNKNOWN
   \<and> snd (snd (convertPixelFormat testPixelFormatFns testGL PIXELFORMAT_UNKNOWN False False))
       = [UnhandledPixelFormat PIXELFORMAT_UNKNOWN]
   \<and> formatTriple (fst (convertPixelFormat testPixelFormatFns testGL PIXELFORMAT_UNKNOWN
                           False False))
       = (GL_ZERO, GL_ZERO, GL_ZERO)
   \<and> \<not> unhandled PIXELFORMAT_RGBA8_UNORM \<and> \<not> notSupported PIXELFORMAT_RGBA8_UNORM
   \<and> \<not> internalMatchesExternal testGL False
   \<and> snd (snd (convertPixelFormat testPixelFormatFns testGL PIXELFORMAT_RGBA8_UNORM False False))
       = []
   \<and> internalformat (fst (convertPixelFormat testPixelFormatFns testGL PIXELFORMAT_RGBA8_UNORM
                              False False)) \<noteq> GL_ZERO"
proof -
  have u: "unhandled PIXELFORMAT_UNKNOWN" "\<not> unhandled PIXELFORMAT_RGBA8_UNORM"
          "\<not> notSupported PIXELFORMAT_RGBA8_UNORM"
    by (simp_all add: unhandled_def notSupported_def)
  have m: "\<not> internalMatchesExternal testGL False"
    by (simp add: internalMatchesExternal_def testGL_def)
  show ?thesis
    using convertPixelFormat_diagnostic [of testPixelFormatFns testGL PIXELFORMAT_UNKNOWN False False]
          convertPixelFormat_diagnostic [of testPixelFormatFns testGL PIXELFORMAT_RGBA8_UNORM False False]
          u m
    by (simp add: Let_def switchedPixelFormat_test initialTextureFormat_triple)
qed

text \<open>
  C9 as stated fails for the BGRA8 formats: the conversion returns the zero triple, as
  for a format without a case label, and prints no diagnostic.
\<close>

theorem convertPixelFormat_silent_counterexample:
  "convertPixelFormat testPixelFormatFns testGL PIXELFORMAT_BGRA8_UNORM False False
     = (initialTextureFormat, False, [])
   \<and> formatTriple initialTextureFormat = (GL_ZERO, GL_ZERO, GL_ZERO)"
  by (simp add: convertPixelFormat_def convertPixelFormat_switch_def switchedPixelFormat_def
        testPixelFormatFns_def initialTextureFormat_def formatTriple_def
        TextureFormat_default_def testGL_def isTexStorageSupported_def Let_def)

end
